theory Spec2Isabelle
  imports Complex_Main "HOL-Library.Log_Nat"
begin

section \<open>Data model (src/types.ts)\<close>

text \<open>
  JavaScript numbers are IEEE 754 binary64 values; a finite one is carried here by the real
  it denotes, and NaN, the infinities and signed zeros are outside the model. Where a result
  depends on how the operations round (the wheel handler and the viewport transform it is
  compared with) every operation is followed by \<open>fl\<close>, the rounding to binary64 of the
  section on numbers; everywhere else the arithmetic is exact. An optional property
  (\<open>rotation?: number\<close>) is an \<open>option\<close>, with \<open>None\<close> for \<open>undefined\<close>.
\<close>

record Point =
  pt_x :: real
  pt_y :: real

record ViewTransform =
  scale :: real
  offsetX :: real
  offsetY :: real

datatype AttachmentSide = SideTop | SideBottom | SideLeft | SideRight

text \<open>
  \<open>BaseElement\<close>: the fields every element has. The \<open>type\<close> tag of the source is
  the constructor of \<open>ElementKind\<close>, which carries the fields of each variant of the
  union \<open>CanvasElement\<close>.
\<close>

record BaseElement =
  el_id :: string
  el_x :: real
  el_y :: real
  el_color :: string
  fillColor :: string
  opacity :: "real option"
  strokeWidth :: real
  hideDimensions :: "bool option"
  rotation :: "real option"
  el_text :: "string option"
  locked :: "bool option"

datatype ElementKind =
    Line (endX: real) (endY: real) (lengthCm: real)
  | Rectangle (width: real) (height: real) (widthCm: real) (heightCm: real)
  | Text (content: string) (fontSize: real) (fontFamily: string)
  | Door (width: real) (attachedToLine: "string option")
      (attachedToRectangle: "string option") (attachmentSide: "AttachmentSide option")
  | Circle (radius: real) (radiusCm: real)

record CanvasElement = BaseElement +
  kind :: ElementKind

text \<open>
  \<open>Project\<close>: the fields the modelled functions read or write. The name and the two
  dates are written by \<open>new Date()\<close> and read by none of them.
\<close>

record Project =
  p_id :: string
  elements :: "CanvasElement list"
  pixelsPerCm :: real
  p_viewTransform :: "ViewTransform option"

text \<open>\<open>element.rotation || 0\<close> and \<open>element.locked\<close> used as a condition.\<close>

definition rotationOr0 :: "CanvasElement \<Rightarrow> real" where
  "rotationOr0 e = (case rotation e of None \<Rightarrow> 0 | Some r \<Rightarrow> r)"

definition isLocked :: "CanvasElement \<Rightarrow> bool" where
  "isLocked e = (locked e = Some True)"

text \<open>The part of \<open>canvas.getBoundingClientRect()\<close> the code reads.\<close>

record DOMRect =
  rect_left :: real
  rect_top :: real

section \<open>Numbers\<close>

text \<open>
  A finite binary64 number is an integer multiple of its spacing: \<open>2 ^ -1074\<close> up to the
  end of the first normal binade, and \<open>2 ^ (e - 52)\<close> for a magnitude in
  \<open>[2 ^ e, 2 ^ (e + 1))\<close>, so that the multiple has at most 53 bits. \<open>spacing x\<close> finds
  the binade of \<open>x\<close> from the bit length of \<open>\<lfloor>\<bar>x\<bar> * 2 ^ 1074\<rfloor>\<close>; \<open>fl x\<close> is the
  multiple of the spacing nearest to \<open>x\<close>, a tie going to the even multiple, which is what
  an arithmetic operation of the source returns for the exact result \<open>x\<close>. Beyond the
  largest binary64 number (below \<open>2 ^ 1024\<close>) the source obtains \<open>Infinity\<close>, which has
  no counterpart here: \<open>fl\<close> is meant for results inside the finite range.
\<close>

definition roundHalfEven :: "real \<Rightarrow> int" where
  "roundHalfEven y =
     (let n = \<lfloor>y\<rfloor>
      in if y - of_int n < 1 / 2 then n
         else if 1 / 2 < y - of_int n then n + 1
         else if even n then n else n + 1)"

definition spacing :: "real \<Rightarrow> real" where
  "spacing x = 2 ^ nat (bitlen \<lfloor>\<bar>x\<bar> * 2 ^ 1074\<rfloor> - 53) / 2 ^ 1074"

definition fl :: "real \<Rightarrow> real" where
  "fl x = of_int (roundHalfEven (x / spacing x)) * spacing x"

section \<open>Viewport transform (CanvasView.tsx)\<close>

text \<open>
  \<open>screenToCanvas\<close>: the canvas reference may be null, in which case the origin is returned.
\<close>

definition screenToCanvas :: "DOMRect option \<Rightarrow> ViewTransform \<Rightarrow> real \<Rightarrow> real \<Rightarrow> Point" where
  "screenToCanvas canvas vt screenX screenY =
     (case canvas of
        None \<Rightarrow> \<lparr>pt_x = 0, pt_y = 0\<rparr>
      | Some rect \<Rightarrow>
          \<lparr>pt_x = (screenX - rect_left rect - offsetX vt) / scale vt,
           pt_y = (screenY - rect_top rect - offsetY vt) / scale vt\<rparr>)"

text \<open>
  \<open>screenToCanvas\<close> again, with the rounding of its two subtractions and its division
  written out (\<open>a - b - c\<close> is \<open>(a - b) - c\<close>).
\<close>

definition screenToCanvas64 :: "DOMRect option \<Rightarrow> ViewTransform \<Rightarrow> real \<Rightarrow> real \<Rightarrow> Point" where
  "screenToCanvas64 canvas vt screenX screenY =
     (case canvas of
        None \<Rightarrow> \<lparr>pt_x = 0, pt_y = 0\<rparr>
      | Some rect \<Rightarrow>
          \<lparr>pt_x = fl (fl (fl (screenX - rect_left rect) - offsetX vt) / scale vt),
           pt_y = fl (fl (fl (screenY - rect_top rect) - offsetY vt) / scale vt)\<rparr>)"

record WheelEvent =
  deltaY :: real
  wheel_clientX :: real
  wheel_clientY :: real

text \<open>
  \<open>handleWheel\<close>: returns the view transform the handler stores; with a null canvas
  reference the handler returns before storing anything. Every operation is rounded; the
  literals \<open>0.9\<close>, \<open>1.1\<close> and \<open>0.1\<close> are the binary64 numbers nearest to them, and
  \<open>Math.max\<close>, \<open>Math.min\<close> and the comparison are exact.
\<close>

definition handleWheel :: "DOMRect option \<Rightarrow> WheelEvent \<Rightarrow> ViewTransform \<Rightarrow> ViewTransform" where
  "handleWheel canvas e vt =
     (let delta = (if deltaY e > 0 then fl (9 / 10) else fl (11 / 10));
          newScale = max (fl (1 / 10)) (min 5 (fl (scale vt * delta)))
      in case canvas of
           None \<Rightarrow> vt
         | Some rect \<Rightarrow>
             (let mouseX = fl (wheel_clientX e - rect_left rect);
                  mouseY = fl (wheel_clientY e - rect_top rect);
                  newOffsetX =
                    fl (mouseX - fl (fl (mouseX - offsetX vt) * fl (newScale / scale vt)));
                  newOffsetY =
                    fl (mouseY - fl (fl (mouseY - offsetY vt) * fl (newScale / scale vt)))
              in \<lparr>scale = newScale, offsetX = newOffsetX, offsetY = newOffsetY\<rparr>))"

section \<open>Element updates (App.tsx)\<close>

text \<open>
  \<open>Partial<CanvasElement>\<close>: one optional entry per field, \<open>None\<close> when the key is
  absent from the object literal. For a field that is itself optional the entry is a
  nested option, since call sites pass \<open>rotation: undefined\<close>. No call site passes
  \<open>id\<close> or \<open>type\<close>, and these two keys are not part of the model.
\<close>

record ElementUpdates =
  u_x :: "real option"
  u_y :: "real option"
  u_color :: "string option"
  u_fillColor :: "string option"
  u_opacity :: "real option option"
  u_strokeWidth :: "real option"
  u_hideDimensions :: "bool option option"
  u_rotation :: "real option option"
  u_text :: "string option option"
  u_locked :: "bool option option"
  u_endX :: "real option"
  u_endY :: "real option"
  u_lengthCm :: "real option"
  u_width :: "real option"
  u_height :: "real option"
  u_widthCm :: "real option"
  u_heightCm :: "real option"
  u_content :: "string option"
  u_fontSize :: "real option"
  u_fontFamily :: "string option"
  u_attachedToLine :: "string option option"
  u_attachedToRectangle :: "string option option"
  u_attachmentSide :: "AttachmentSide option option"
  u_radius :: "real option"
  u_radiusCm :: "real option"

definition noUpdates :: ElementUpdates where
  "noUpdates =
     \<lparr>u_x = None, u_y = None, u_color = None, u_fillColor = None, u_opacity = None,
      u_strokeWidth = None, u_hideDimensions = None, u_rotation = None, u_text = None,
      u_locked = None, u_endX = None, u_endY = None, u_lengthCm = None, u_width = None,
      u_height = None, u_widthCm = None, u_heightCm = None, u_content = None,
      u_fontSize = None, u_fontFamily = None, u_attachedToLine = None,
      u_attachedToRectangle = None, u_attachmentSide = None, u_radius = None,
      u_radiusCm = None\<rparr>"

text \<open>One key of the object spread \<open>{ ...e, ...updates }\<close>.\<close>

definition spread :: "'a \<Rightarrow> 'a option \<Rightarrow> 'a" where
  "spread old upd = (case upd of None \<Rightarrow> old | Some v \<Rightarrow> v)"

text \<open>
  \<open>{ ...e, ...updates } as CanvasElement\<close>. A key that the element's variant does not
  declare would become an extra property no code reads under that \<open>type\<close>; the model
  drops it.
\<close>

definition applyUpdates :: "CanvasElement \<Rightarrow> ElementUpdates \<Rightarrow> CanvasElement" where
  "applyUpdates e u =
     \<lparr>el_id = el_id e,
      el_x = spread (el_x e) (u_x u),
      el_y = spread (el_y e) (u_y u),
      el_color = spread (el_color e) (u_color u),
      fillColor = spread (fillColor e) (u_fillColor u),
      opacity = spread (opacity e) (u_opacity u),
      strokeWidth = spread (strokeWidth e) (u_strokeWidth u),
      hideDimensions = spread (hideDimensions e) (u_hideDimensions u),
      rotation = spread (rotation e) (u_rotation u),
      el_text = spread (el_text e) (u_text u),
      locked = spread (locked e) (u_locked u),
      kind =
        (case kind e of
           Line ex ey l \<Rightarrow>
             Line (spread ex (u_endX u)) (spread ey (u_endY u)) (spread l (u_lengthCm u))
         | Rectangle w h wc hc \<Rightarrow>
             Rectangle (spread w (u_width u)) (spread h (u_height u))
               (spread wc (u_widthCm u)) (spread hc (u_heightCm u))
         | Text c fs ff \<Rightarrow>
             Text (spread c (u_content u)) (spread fs (u_fontSize u))
               (spread ff (u_fontFamily u))
         | Door w al ar s \<Rightarrow>
             Door (spread w (u_width u)) (spread al (u_attachedToLine u))
               (spread ar (u_attachedToRectangle u)) (spread s (u_attachmentSide u))
         | Circle r rc \<Rightarrow>
             Circle (spread r (u_radius u)) (spread rc (u_radiusCm u)))\<rparr>"

text \<open>
  The recomputation of the cached centimetre fields that \<open>updateElement\<close> and
  \<open>updateMultipleElements\<close> both run on the spread result. The source guards each branch
  with \<open>!== undefined\<close> tests on fields that the variant always has.
\<close>

definition recomputeCm :: "real \<Rightarrow> CanvasElement \<Rightarrow> CanvasElement" where
  "recomputeCm ppc updated =
     (case kind updated of
        Line ex ey l \<Rightarrow>
          (let dx = ex - el_x updated;
               dy = ey - el_y updated;
               pixels = sqrt (dx * dx + dy * dy)
           in updated\<lparr>kind := Line ex ey (pixels / ppc)\<rparr>)
      | Rectangle w h wc hc \<Rightarrow> updated\<lparr>kind := Rectangle w h (w / ppc) (h / ppc)\<rparr>
      | Circle r rc \<Rightarrow> updated\<lparr>kind := Circle r (r / ppc)\<rparr>
      | _ \<Rightarrow> updated)"

text \<open>\<open>!currentProjectId\<close>: null and the empty string are both falsy.\<close>

definition noCurrentProject :: "string option \<Rightarrow> bool" where
  "noCurrentProject cur = (cur = None \<or> cur = Some [])"

text \<open>
  \<open>updateElement\<close>, as the function it passes to \<open>setProjects\<close>: from the previous
  project list to the next one. The undo history that the call also extends when
  \<open>skipHistory\<close> is false is not part of the model, so the flag has no parameter here.
\<close>

definition updateElement ::
    "string option \<Rightarrow> string \<Rightarrow> ElementUpdates \<Rightarrow> Project list \<Rightarrow> Project list" where
  "updateElement currentProjectId elementId updates prevProjects =
     (if noCurrentProject currentProjectId then prevProjects
      else map (\<lambda>p.
             if Some (p_id p) \<noteq> currentProjectId then p
             else p\<lparr>elements :=
                    map (\<lambda>e. if el_id e \<noteq> elementId then e
                             else recomputeCm (pixelsPerCm p) (applyUpdates e updates))
                      (elements p)\<rparr>)
           prevProjects)"

definition updateMultipleElements ::
    "string option \<Rightarrow> string list \<Rightarrow> ElementUpdates \<Rightarrow> Project list \<Rightarrow> Project list" where
  "updateMultipleElements currentProjectId elementIds updates prevProjects =
     (if noCurrentProject currentProjectId then prevProjects
      else map (\<lambda>p.
             if Some (p_id p) \<noteq> currentProjectId then p
             else p\<lparr>elements :=
                    map (\<lambda>e. if el_id e \<notin> set elementIds then e
                             else recomputeCm (pixelsPerCm p) (applyUpdates e updates))
                      (elements p)\<rparr>)
           prevProjects)"

section \<open>Segment geometry and the snap search (CanvasView.tsx)\<close>

text \<open>
  \<open>Math.atan2\<close> is a built-in of the language: the principal angle of the vector
  \<open>(xv, yv)\<close> in \<open>(-\<pi>, \<pi>]\<close>, and 0 at the origin.
\<close>

definition atan2 :: "real \<Rightarrow> real \<Rightarrow> real" where
  "atan2 yv xv =
     (if xv > 0 then arctan (yv / xv)
      else if xv < 0 \<and> yv \<ge> 0 then arctan (yv / xv) + pi
      else if xv < 0 then arctan (yv / xv) - pi
      else if yv > 0 then pi / 2
      else if yv < 0 then - (pi / 2)
      else 0)"

definition pointToLineDistance ::
    "real \<Rightarrow> real \<Rightarrow> real \<Rightarrow> real \<Rightarrow> real \<Rightarrow> real \<Rightarrow> real" where
  "pointToLineDistance px py x1 y1 x2 y2 =
     (let A = px - x1; B = py - y1; C = x2 - x1; D = y2 - y1;
          dot = A * C + B * D;
          lenSq = C * C + D * D;
          param = (if lenSq \<noteq> 0 then dot / lenSq else - 1);
          xx = (if param < 0 then x1 else if param > 1 then x2 else x1 + param * C);
          yy = (if param < 0 then y1 else if param > 1 then y2 else y1 + param * D);
          dx = px - xx;
          dy = py - yy
      in sqrt (dx * dx + dy * dy))"

definition getClosestPointOnLine ::
    "real \<Rightarrow> real \<Rightarrow> real \<Rightarrow> real \<Rightarrow> real \<Rightarrow> real \<Rightarrow> Point" where
  "getClosestPointOnLine px py x1 y1 x2 y2 =
     (let A = px - x1; B = py - y1; C = x2 - x1; D = y2 - y1;
          dot = A * C + B * D;
          lenSq = C * C + D * D;
          param = (if lenSq \<noteq> 0 then dot / lenSq else - 1);
          xx = (if param < 0 then x1 else if param > 1 then x2 else x1 + param * C);
          yy = (if param < 0 then y1 else if param > 1 then y2 else y1 + param * D)
      in \<lparr>pt_x = xx, pt_y = yy\<rparr>)"

text \<open>A distance that starts at \<open>Infinity\<close>, and the two comparisons the code makes.\<close>

datatype Distance = Finite real | Infinity

fun lessThanDistance :: "real \<Rightarrow> Distance \<Rightarrow> bool" where
  "lessThanDistance d Infinity = True"
| "lessThanDistance d (Finite n) = (d < n)"

fun distanceLessThan :: "Distance \<Rightarrow> real \<Rightarrow> bool" where
  "distanceLessThan Infinity d = False"
| "distanceLessThan (Finite n) d = (n < d)"

record SnapResult =
  snap_x :: real
  snap_y :: real
  snap_rotation :: real
  snap_distance :: Distance
  snap_attachedToLine :: "string option"
  snap_attachedToRectangle :: "string option"
  snap_attachmentSide :: "AttachmentSide option"

text \<open>
  The body that \<open>findNearestLineOrWall\<close> runs for a Line and for each side of a
  Rectangle: the pair is the loop's \<open>nearestDist\<close> and \<open>nearestSnap\<close>.
\<close>

definition snapToSegment ::
    "real \<Rightarrow> Point \<Rightarrow> real \<Rightarrow> real \<Rightarrow> real \<Rightarrow> real \<Rightarrow>
     string option \<Rightarrow> string option \<Rightarrow> AttachmentSide option \<Rightarrow>
     Distance \<times> SnapResult \<Rightarrow> Distance \<times> SnapResult" where
  "snapToSegment snapDistance point x1 y1 x2 y2 toLine toRectangle side st =
     (let dist = pointToLineDistance (pt_x point) (pt_y point) x1 y1 x2 y2
      in if dist < snapDistance \<and> lessThanDistance dist (fst st) then
           (let angle = atan2 (y2 - y1) (x2 - x1);
                closestPoint = getClosestPointOnLine (pt_x point) (pt_y point) x1 y1 x2 y2
            in (Finite dist,
                \<lparr>snap_x = pt_x closestPoint, snap_y = pt_y closestPoint,
                 snap_rotation = angle, snap_distance = Finite dist,
                 snap_attachedToLine = toLine, snap_attachedToRectangle = toRectangle,
                 snap_attachmentSide = side\<rparr>))
         else st)"

text \<open>The four sides of a Rectangle, in the order of the source's array.\<close>

definition rectangleSides ::
    "real \<Rightarrow> real \<Rightarrow> real \<Rightarrow> real \<Rightarrow> (real \<times> real \<times> real \<times> real \<times> AttachmentSide) list" where
  "rectangleSides rx ry w h =
     [(rx, ry, rx + w, ry, SideTop),
      (rx, ry + h, rx + w, ry + h, SideBottom),
      (rx, ry, rx, ry + h, SideLeft),
      (rx + w, ry, rx + w, ry + h, SideRight)]"

definition snapToElement ::
    "real \<Rightarrow> Point \<Rightarrow> Distance \<times> SnapResult \<Rightarrow> CanvasElement \<Rightarrow> Distance \<times> SnapResult" where
  "snapToElement snapDistance point st element =
     (case kind element of
        Line ex ey l \<Rightarrow>
          snapToSegment snapDistance point (el_x element) (el_y element) ex ey
            (Some (el_id element)) None None st
      | Rectangle w h wc hc \<Rightarrow>
          foldl (\<lambda>st' (sx, sy, sex, sey, side).
                   snapToSegment snapDistance point sx sy sex sey
                     None (Some (el_id element)) (Some side) st')
            st (rectangleSides (el_x element) (el_y element) w h)
      | _ \<Rightarrow> st)"

definition findNearestLineOrWall ::
    "ViewTransform \<Rightarrow> CanvasElement list \<Rightarrow> Point \<Rightarrow> SnapResult" where
  "findNearestLineOrWall vt els point =
     (let snapDistance = 30 / scale vt
      in snd (foldl (snapToElement snapDistance point)
                (Infinity,
                 \<lparr>snap_x = pt_x point, snap_y = pt_y point, snap_rotation = 0,
                  snap_distance = Infinity, snap_attachedToLine = None,
                  snap_attachedToRectangle = None, snap_attachmentSide = None\<rparr>)
                els))"

section \<open>Bounds, handles and hit testing (CanvasView.tsx)\<close>

record Bounds =
  b_x :: real
  b_y :: real
  b_width :: real
  b_height :: real
  centerX :: real
  centerY :: real

definition getElementBounds :: "ViewTransform \<Rightarrow> CanvasElement \<Rightarrow> Bounds" where
  "getElementBounds vt element =
     (case kind element of
        Line ex ey l \<Rightarrow>
          (let minX = min (el_x element) ex; minY = min (el_y element) ey;
               maxX = max (el_x element) ex; maxY = max (el_y element) ey
           in \<lparr>b_x = minX, b_y = minY, b_width = maxX - minX, b_height = maxY - minY,
               centerX = (el_x element + ex) / 2, centerY = (el_y element + ey) / 2\<rparr>)
      | Rectangle w h wc hc \<Rightarrow>
          \<lparr>b_x = el_x element, b_y = el_y element, b_width = w, b_height = h,
           centerX = el_x element + w / 2, centerY = el_y element + h / 2\<rparr>
      | Text c fs ff \<Rightarrow>
          (let scaledFontSize = fs / scale vt;
               estimatedWidth = real (length c) * scaledFontSize * 0.6
           in \<lparr>b_x = el_x element, b_y = el_y element - scaledFontSize,
               b_width = estimatedWidth, b_height = scaledFontSize,
               centerX = el_x element + estimatedWidth / 2,
               centerY = el_y element - scaledFontSize / 2\<rparr>)
      | Door w al ar sd \<Rightarrow>
          (let rot = rotationOr0 element; c = cos rot; s = sin rot;
               doorAngle = pi / 6;
               doorEndX = cos doorAngle * w; doorEndY = sin doorAngle * w;
               point1X = 0; point1Y = 0; point2X = w; point2Y = 0;
               point3X = w + doorEndX; point3Y = doorEndY;
               worldPoint1X = el_x element + point1X * c - point1Y * s;
               worldPoint1Y = el_y element + point1X * s + point1Y * c;
               worldPoint2X = el_x element + point2X * c - point2Y * s;
               worldPoint2Y = el_y element + point2X * s + point2Y * c;
               worldPoint3X = el_x element + point3X * c - point3Y * s;
               worldPoint3Y = el_y element + point3X * s + point3Y * c;
               minX = min worldPoint1X (min worldPoint2X worldPoint3X);
               maxX = max worldPoint1X (max worldPoint2X worldPoint3X);
               minY = min worldPoint1Y (min worldPoint2Y worldPoint3Y);
               maxY = max worldPoint1Y (max worldPoint2Y worldPoint3Y)
           in \<lparr>b_x = minX, b_y = minY, b_width = maxX - minX, b_height = maxY - minY,
               centerX = (minX + maxX) / 2, centerY = (minY + maxY) / 2\<rparr>)
      | Circle r rc \<Rightarrow>
          \<lparr>b_x = el_x element - r, b_y = el_y element - r, b_width = r * 2,
           b_height = r * 2, centerX = el_x element, centerY = el_y element\<rparr>)"

definition checkHandleHit :: "ViewTransform \<Rightarrow> Point \<Rightarrow> real \<Rightarrow> real \<Rightarrow> bool" where
  "checkHandleHit vt point handleX handleY =
     (let handleSize = 8 / scale vt
      in \<bar>pt_x point - handleX\<bar> < handleSize \<and> \<bar>pt_y point - handleY\<bar> < handleSize)"

datatype ScaleHandle =
  HandleN | HandleS | HandleE | HandleW | HandleNE | HandleNW | HandleSE | HandleSW

definition rotatePoint :: "real \<Rightarrow> real \<Rightarrow> real \<Rightarrow> real \<Rightarrow> real \<Rightarrow> Point" where
  "rotatePoint px py cx cy angle =
     (let c = cos angle; s = sin angle; dx = px - cx; dy = py - cy
      in \<lparr>pt_x = cx + dx * c - dy * s, pt_y = cy + dx * s + dy * c\<rparr>)"

text \<open>The \<open>for\<close> loop over the eight handles: the first one hit.\<close>

fun firstHandleHit ::
    "ViewTransform \<Rightarrow> Point \<Rightarrow> real \<Rightarrow> real \<Rightarrow> real \<Rightarrow>
     (real \<times> real \<times> ScaleHandle) list \<Rightarrow> ScaleHandle option" where
  "firstHandleHit vt point cx cy rot [] = None"
| "firstHandleHit vt point cx cy rot ((hx, hy, ty) # handles) =
     (let rotated = rotatePoint hx hy cx cy rot
      in if checkHandleHit vt point (pt_x rotated) (pt_y rotated) then Some ty
         else firstHandleHit vt point cx cy rot handles)"

definition getScaleHandle ::
    "ViewTransform \<Rightarrow> Point \<Rightarrow> CanvasElement \<Rightarrow> ScaleHandle option" where
  "getScaleHandle vt point element =
     (if is_Line (kind element) \<or> is_Door (kind element) then None
      else
        (let bounds = getElementBounds vt element;
             x0 = b_x bounds; y0 = b_y bounds;
             w0 = b_width bounds; h0 = b_height bounds;
             rot = rotationOr0 element
         in firstHandleHit vt point (centerX bounds) (centerY bounds) rot
              [(x0, y0, HandleNW),
               (x0 + w0, y0, HandleNE),
               (x0, y0 + h0, HandleSW),
               (x0 + w0, y0 + h0, HandleSE),
               (x0 + w0 / 2, y0, HandleN),
               (x0 + w0 / 2, y0 + h0, HandleS),
               (x0, y0 + h0 / 2, HandleW),
               (x0 + w0, y0 + h0 / 2, HandleE)]))"

definition getRotationHandle :: "ViewTransform \<Rightarrow> Point \<Rightarrow> CanvasElement \<Rightarrow> bool" where
  "getRotationHandle vt point element =
     (let bounds = getElementBounds vt element;
          rot = rotationOr0 element;
          rotateHandleY = b_y bounds - 30 / scale vt;
          c = cos rot; s = sin rot;
          dx = centerX bounds - centerX bounds;
          dy = rotateHandleY - centerY bounds;
          rotatedX = centerX bounds + dx * c - dy * s;
          rotatedY = centerY bounds + dx * s + dy * c
      in checkHandleHit vt point rotatedX rotatedY)"

text \<open>The value of \<open>isMatch\<close> that the loop of \<open>findElementAt\<close> computes for an element.\<close>

definition isMatch :: "ViewTransform \<Rightarrow> real \<Rightarrow> real \<Rightarrow> CanvasElement \<Rightarrow> bool" where
  "isMatch vt px py element =
     (case kind element of
        Line ex ey l \<Rightarrow>
          pointToLineDistance px py (el_x element) (el_y element) ex ey < 10 / scale vt
      | Rectangle w h wc hc \<Rightarrow>
          (let rot = rotationOr0 element;
               cX = el_x element + w / 2; cY = el_y element + h / 2;
               c = cos (- rot); s = sin (- rot);
               dx = px - cX; dy = py - cY;
               localX = dx * c - dy * s; localY = dx * s + dy * c;
               halfWidth = w / 2; halfHeight = h / 2
           in localX \<ge> - halfWidth \<and> localX \<le> halfWidth \<and>
              localY \<ge> - halfHeight \<and> localY \<le> halfHeight)
      | Text ct fs ff \<Rightarrow>
          (let rot = rotationOr0 element;
               scaledFontSize = fs / scale vt;
               estimatedWidth = real (length ct) * scaledFontSize * 0.6;
               c = cos (- rot); s = sin (- rot);
               dx = px - el_x element; dy = py - el_y element;
               localX = dx * c - dy * s; localY = dx * s + dy * c
           in localX \<ge> 0 \<and> localX \<le> estimatedWidth \<and>
              localY \<ge> - scaledFontSize \<and> localY \<le> 0)
      | Door w al ar sd \<Rightarrow>
          (let rot = rotationOr0 element;
               c = cos rot; s = sin rot;
               dx = px - el_x element; dy = py - el_y element;
               localX = dx * c + dy * s; localY = - dx * s + dy * c;
               mainLineHit = (\<bar>localY\<bar> \<le> 5 / scale vt \<and> localX \<ge> 0 \<and> localX \<le> w);
               doorAngle = pi / 6;
               doorEndX = w * cos doorAngle; doorEndY = w * sin doorAngle;
               doorLineDist = pointToLineDistance localX localY w 0 (w + doorEndX) doorEndY;
               doorLineHit = (doorLineDist \<le> 5 / scale vt)
           in mainLineHit \<or> doorLineHit)
      | Circle r rc \<Rightarrow>
          (let dx = px - el_x element; dy = py - el_y element;
               dist = sqrt (dx * dx + dy * dy)
           in dist \<le> r))"

text \<open>
  \<open>findElementAt\<close>: the loop runs from the last element to the first, so the recursion is
  over the reversed list, with \<open>lockedMatch\<close> as the accumulator.
\<close>

fun findElementAtLoop ::
    "ViewTransform \<Rightarrow> real \<Rightarrow> real \<Rightarrow> CanvasElement list \<Rightarrow> CanvasElement option \<Rightarrow>
     CanvasElement option" where
  "findElementAtLoop vt px py [] lockedMatch = lockedMatch"
| "findElementAtLoop vt px py (element # rest) lockedMatch =
     (if isMatch vt px py element then
        (if \<not> isLocked element then Some element
         else if lockedMatch = None then findElementAtLoop vt px py rest (Some element)
         else findElementAtLoop vt px py rest lockedMatch)
      else findElementAtLoop vt px py rest lockedMatch)"

definition findElementAt ::
    "ViewTransform \<Rightarrow> CanvasElement list \<Rightarrow> real \<Rightarrow> real \<Rightarrow> CanvasElement option" where
  "findElementAt vt els px py = findElementAtLoop vt px py (rev els) None"

section \<open>The canvas component: props, state and callbacks (CanvasView.tsx)\<close>

datatype Tool = ToolSelect | ToolLine | ToolRectangle | ToolText | ToolDoor | ToolCircle

datatype Theme = Light | Dark

text \<open>The props that the handlers read; the callback props are the type \<open>Callback\<close>.\<close>

record Props =
  project :: Project
  selectedElementIds :: "string list"
  tool :: Tool
  theme :: Theme

text \<open>
  A call of one of the callback props. A handler returns the calls it makes, in order; the
  parent component runs them (\<open>dispatch\<close> below).
\<close>

datatype Callback =
    AddElement CanvasElement
  | AddMultipleElements "CanvasElement list"
  | UpdateElement string ElementUpdates bool
  | UpdateMultipleElements "string list" ElementUpdates
  | SelectElements "string list"
  | DeleteElement string
  | DeleteMultipleElements "string list"
  | SetTool Tool
  | SaveHistory
  | UpdateProjectSettings ViewTransform

record StartPosition =
  sp_x :: real
  sp_y :: real
  sp_endX :: "real option"
  sp_endY :: "real option"

record SelectionBox =
  box_x :: real
  box_y :: real
  box_width :: real
  box_height :: real

record HoverSnap =
  hover_x :: real
  hover_y :: real
  hover_rotation :: real

text \<open>
  The \<open>useState\<close> cells of the component that the pointer and keyboard handlers read or
  write, and the canvas reference. \<open>elementStartPositions\<close> is a \<open>Map\<close>: an association
  list in insertion order. The \<open>cursor\<close> cell, which only styles the pointer, is left
  out.
\<close>

record CanvasState =
  canvasRef :: "DOMRect option"
  viewTransform :: ViewTransform
  isPanning :: bool
  panStart :: Point
  isDrawing :: bool
  drawStart :: Point
  tempElement :: "CanvasElement option"
  editingTextId :: "string option"
  isDragging :: bool
  dragStart :: Point
  dragReferenceId :: "string option"
  elementStartPositions :: "(string \<times> StartPosition) list"
  doorOriginalRotation :: "real option"
  copiedElements :: "CanvasElement list"
  isSelecting :: bool
  selectionBox :: "SelectionBox option"
  showSettings :: bool
  potentialSelection :: bool
  isRotating :: bool
  isScaling :: bool
  scaleHandle :: "ScaleHandle option"
  rotationStart :: real
  doorHoverSnap :: "HoverSnap option"

record MouseEvent =
  clientX :: real
  clientY :: real
  button :: nat
  altKey :: bool
  shiftKey :: bool

text \<open>\<open>Map.prototype.set\<close>: an existing key keeps its place.\<close>

fun mapSet :: "'k \<Rightarrow> 'v \<Rightarrow> ('k \<times> 'v) list \<Rightarrow> ('k \<times> 'v) list" where
  "mapSet k v [] = [(k, v)]"
| "mapSet k v ((k', v') # rest) =
     (if k' = k then (k, v) # rest else (k', v') # mapSet k v rest)"

text \<open>A string or null used as a condition: null and the empty string are falsy.\<close>

definition truthy :: "string option \<Rightarrow> bool" where
  "truthy v = (case v of None \<Rightarrow> False | Some str \<Rightarrow> str \<noteq> [])"

text \<open>\<open>project.elements.find(el => el.id === id)\<close>.\<close>

definition findById :: "CanvasElement list \<Rightarrow> string \<Rightarrow> CanvasElement option" where
  "findById els i = find (\<lambda>el. el_id el = i) els"

text \<open>The stroke and fill colours that new elements take from the theme.\<close>

definition strokeOf :: "Theme \<Rightarrow> string" where
  "strokeOf th = (if th = Dark then ''#ffffff'' else ''#000000'')"

definition fillOf :: "Theme \<Rightarrow> string" where
  "fillOf th = (if th = Dark then ''#222222'' else ''#f5f5f5'')"

text \<open>
  An object literal of a new element: the keys the literal does not write are
  \<open>undefined\<close>.
\<close>

definition newElement ::
    "string \<Rightarrow> real \<Rightarrow> real \<Rightarrow> Theme \<Rightarrow> real option \<Rightarrow> ElementKind \<Rightarrow> CanvasElement" where
  "newElement i ex ey th rot k =
     \<lparr>el_id = i, el_x = ex, el_y = ey, el_color = strokeOf th, fillColor = fillOf th,
      opacity = None, strokeWidth = 10, hideDimensions = None, rotation = rot,
      el_text = None, locked = None, kind = k\<rparr>"

section \<open>Pointer down\<close>

text \<open>
  The guard at the top of \<open>handleMouseDown\<close> that starts a rotation or a scaling of the
  single selected, unlocked element and returns; \<open>None\<close> when the handler goes on.
\<close>

definition grabHandle :: "Props \<Rightarrow> CanvasState \<Rightarrow> Point \<Rightarrow> CanvasState option" where
  "grabHandle props st point =
     (if tool props = ToolSelect \<and> length (selectedElementIds props) = 1 then
        (case findById (elements (project props)) (hd (selectedElementIds props)) of
           None \<Rightarrow> None
         | Some selectedElement \<Rightarrow>
             if \<not> isLocked selectedElement then
               (if getRotationHandle (viewTransform st) point selectedElement then
                  (let bounds = getElementBounds (viewTransform st) selectedElement
                   in Some (st\<lparr>isRotating := True,
                              rotationStart :=
                                atan2 (pt_y point - centerY bounds)
                                  (pt_x point - centerX bounds)\<rparr>))
                else
                  (case getScaleHandle (viewTransform st) point selectedElement of
                     Some handle \<Rightarrow>
                       Some (st\<lparr>isScaling := True, scaleHandle := Some handle,
                                drawStart := point\<rparr>)
                   | None \<Rightarrow> None))
             else None)
      else None)"

text \<open>
  The snapshot of start positions: the loop over \<open>selectedElementIds\<close>, which is the prop
  of the current render (the selection before this pointer-down).
\<close>

definition startPositionOf :: "CanvasElement \<Rightarrow> StartPosition" where
  "startPositionOf element =
     (case kind element of
        Line ex ey l \<Rightarrow>
          \<lparr>sp_x = el_x element, sp_y = el_y element, sp_endX = Some ex, sp_endY = Some ey\<rparr>
      | _ \<Rightarrow>
          \<lparr>sp_x = el_x element, sp_y = el_y element, sp_endX = None, sp_endY = None\<rparr>)"

definition snapshotPositions ::
    "CanvasElement list \<Rightarrow> string list \<Rightarrow> (string \<times> StartPosition) list" where
  "snapshotPositions els ids =
     foldl (\<lambda>positions i.
              case findById els i of
                None \<Rightarrow> positions
              | Some element \<Rightarrow>
                  if \<not> isLocked element then mapSet i (startPositionOf element) positions
                  else positions)
       [] ids"

text \<open>The \<open>select\<close> branch of \<open>handleMouseDown\<close>.\<close>

definition selectAt ::
    "Props \<Rightarrow> CanvasState \<Rightarrow> MouseEvent \<Rightarrow> Point \<Rightarrow> CanvasState \<times> Callback list" where
  "selectAt props st e point =
     (case findElementAt (viewTransform st) (elements (project props))
             (pt_x point) (pt_y point) of
        Some clickedElement \<Rightarrow>
          (let sel = selectedElementIds props;
               cid = el_id clickedElement;
               calls =
                 (if shiftKey e then
                    (if cid \<in> set sel then [SelectElements (filter (\<lambda>i. i \<noteq> cid) sel)]
                     else [SelectElements (sel @ [cid])])
                  else if cid \<notin> set sel then [SelectElements [cid]]
                  else [])
           in if \<not> isLocked clickedElement then
                (st\<lparr>isDragging := True,
                    dragReferenceId := Some cid,
                    dragStart := point,
                    elementStartPositions :=
                      snapshotPositions (elements (project props)) sel,
                    doorOriginalRotation :=
                      (if is_Door (kind clickedElement) then rotation clickedElement
                       else doorOriginalRotation st)\<rparr>,
                 calls)
              else (st, calls))
      | None \<Rightarrow>
          (st\<lparr>drawStart := point, potentialSelection := True\<rparr>,
           if \<not> shiftKey e then [SelectElements []] else []))"

text \<open>
  \<open>handleMouseDown\<close>. \<open>newId\<close> is what \<open>generateId()\<close> returns in this call (a time
  stamp and a random suffix in the source).
\<close>

definition handleMouseDown ::
    "string \<Rightarrow> Props \<Rightarrow> CanvasState \<Rightarrow> MouseEvent \<Rightarrow> CanvasState \<times> Callback list" where
  "handleMouseDown newId props st e =
     (let point = screenToCanvas (canvasRef st) (viewTransform st) (clientX e) (clientY e)
      in if button e = 1 \<or> button e = 2 \<or> (button e = 0 \<and> altKey e) then
           (st\<lparr>isPanning := True, panStart := \<lparr>pt_x = clientX e, pt_y = clientY e\<rparr>\<rparr>, [])
         else
           (case grabHandle props st point of
              Some st' \<Rightarrow> (st', [])
            | None \<Rightarrow>
                (case tool props of
                   ToolSelect \<Rightarrow> selectAt props st e point
                 | ToolText \<Rightarrow>
                     (st,
                      [AddElement
                         (newElement newId (pt_x point) (pt_y point) (theme props) None
                            (Text ''Text'' 16 ''Arial'')),
                       SetTool ToolSelect])
                 | ToolDoor \<Rightarrow>
                     (let snappedPosition =
                            findNearestLineOrWall (viewTransform st)
                              (elements (project props)) point
                      in (st,
                          [AddElement
                             (newElement newId (snap_x snappedPosition)
                                (snap_y snappedPosition) (theme props)
                                (Some (snap_rotation snappedPosition))
                                (Door (80 * pixelsPerCm (project props))
                                   (snap_attachedToLine snappedPosition)
                                   (snap_attachedToRectangle snappedPosition)
                                   (snap_attachmentSide snappedPosition))),
                           SetTool ToolSelect]))
                 | _ \<Rightarrow> (st\<lparr>isDrawing := True, drawStart := point\<rparr>, []))))"

section \<open>Pointer move\<close>

text \<open>
  The first block of \<open>handleMouseMove\<close>, which runs when no gesture flag is set: the door
  tool's hover preview (the cursor style it also sets is not modelled).
\<close>

definition hoverPreview :: "Props \<Rightarrow> CanvasState \<Rightarrow> Point \<Rightarrow> CanvasState" where
  "hoverPreview props st point =
     (if \<not> isPanning st \<and> \<not> isRotating st \<and> \<not> isScaling st \<and> \<not> isDragging st \<and>
         \<not> isDrawing st \<and> \<not> isSelecting st then
        (if tool props = ToolDoor then
           (let snappedPosition =
                  findNearestLineOrWall (viewTransform st) (elements (project props)) point;
                snapDistance = 30 / scale (viewTransform st)
            in if distanceLessThan (snap_distance snappedPosition) snapDistance then
                 st\<lparr>doorHoverSnap :=
                      Some \<lparr>hover_x = snap_x snappedPosition, hover_y = snap_y snappedPosition,
                            hover_rotation = snap_rotation snappedPosition\<rparr>\<rparr>
               else st\<lparr>doorHoverSnap := None\<rparr>)
         else st\<lparr>doorHoverSnap := None\<rparr>)
      else st)"

definition panMove :: "CanvasState \<Rightarrow> MouseEvent \<Rightarrow> CanvasState" where
  "panMove st e =
     (let dx = clientX e - pt_x (panStart st);
          dy = clientY e - pt_y (panStart st)
      in st\<lparr>viewTransform :=
               (viewTransform st)\<lparr>offsetX := offsetX (viewTransform st) + dx,
                                   offsetY := offsetY (viewTransform st) + dy\<rparr>,
             panStart := \<lparr>pt_x = clientX e, pt_y = clientY e\<rparr>\<rparr>)"

definition rotateMove ::
    "Props \<Rightarrow> CanvasState \<Rightarrow> Point \<Rightarrow> CanvasState \<times> Callback list" where
  "rotateMove props st point =
     (case findById (elements (project props)) (hd (selectedElementIds props)) of
        None \<Rightarrow> (st, [])
      | Some selectedElement \<Rightarrow>
          (let bounds = getElementBounds (viewTransform st) selectedElement;
               currentAngle =
                 atan2 (pt_y point - centerY bounds) (pt_x point - centerX bounds);
               rotationDelta = currentAngle - rotationStart st;
               currentRotation = rotationOr0 selectedElement
           in (st\<lparr>rotationStart := currentAngle\<rparr>,
               [UpdateElement (hd (selectedElementIds props))
                  (noUpdates\<lparr>u_rotation := Some (Some (currentRotation + rotationDelta))\<rparr>)
                  True])))"

text \<open>The handle's string, for \<open>scaleHandle.includes('w')\<close>.\<close>

fun handleName :: "ScaleHandle \<Rightarrow> string" where
  "handleName HandleN = ''n''"
| "handleName HandleS = ''s''"
| "handleName HandleE = ''e''"
| "handleName HandleW = ''w''"
| "handleName HandleNE = ''ne''"
| "handleName HandleNW = ''nw''"
| "handleName HandleSE = ''se''"
| "handleName HandleSW = ''sw''"

definition handleIncludes :: "ScaleHandle \<Rightarrow> char \<Rightarrow> bool" where
  "handleIncludes handle c = (c \<in> set (handleName handle))"

text \<open>
  The scaling branch of \<open>handleMouseMove\<close>, entered with a non-null \<open>scaleHandle\<close>. The
  four \<open>if\<close> statements on the handle run in sequence, as in the source.
\<close>

definition scaleMove ::
    "Props \<Rightarrow> CanvasState \<Rightarrow> ScaleHandle \<Rightarrow> Point \<Rightarrow> CanvasState \<times> Callback list" where
  "scaleMove props st handle point =
     (case findById (elements (project props)) (hd (selectedElementIds props)) of
        None \<Rightarrow> (st, [])
      | Some selectedElement \<Rightarrow>
          (case kind selectedElement of
             Rectangle w h wc hc \<Rightarrow>
               (let dx = pt_x point - pt_x (drawStart st);
                    dy = pt_y point - pt_y (drawStart st);
                    newX = (if handleIncludes handle CHR ''w'' then el_x selectedElement + dx
                            else el_x selectedElement);
                    newWidthW = (if handleIncludes handle CHR ''w'' then w - dx else w);
                    newWidth = (if handleIncludes handle CHR ''e'' then w + dx else newWidthW);
                    newY = (if handleIncludes handle CHR ''n'' then el_y selectedElement + dy
                            else el_y selectedElement);
                    newHeightN = (if handleIncludes handle CHR ''n'' then h - dy else h);
                    newHeight = (if handleIncludes handle CHR ''s'' then h + dy else newHeightN)
                in if newWidth > 10 \<and> newHeight > 10 then
                     (st\<lparr>drawStart := point\<rparr>,
                      [UpdateElement (hd (selectedElementIds props))
                         (noUpdates\<lparr>u_x := Some newX, u_y := Some newY,
                                    u_width := Some newWidth, u_height := Some newHeight\<rparr>)
                         True])
                   else (st, []))
           | Text ct fs ff \<Rightarrow>
               (let dx = pt_x point - pt_x (drawStart st);
                    dy = pt_y point - pt_y (drawStart st)
                in if handle = HandleE \<or> handle = HandleNE \<or> handle = HandleSE then
                     (let newFontSize = max 8 (fs + (dx + dy) / 2)
                      in (st\<lparr>drawStart := point\<rparr>,
                          [UpdateElement (hd (selectedElementIds props))
                             (noUpdates\<lparr>u_fontSize := Some newFontSize\<rparr>) True]))
                   else (st, []))
           | _ \<Rightarrow> (st, [])))"

text \<open>
  The projection of the pointer on a segment, clamped to the segment, and the segment's
  angle: the code that the two attached-door branches share. A segment of length zero
  divides by zero (NaN in the source, 0 here).
\<close>

definition projectOnSegment ::
    "Point \<Rightarrow> real \<Rightarrow> real \<Rightarrow> real \<Rightarrow> real \<Rightarrow> real \<times> real \<times> real" where
  "projectOnSegment point x1 y1 x2 y2 =
     (let lineVecX = x2 - x1; lineVecY = y2 - y1;
          lineLength = sqrt (lineVecX * lineVecX + lineVecY * lineVecY);
          lineUnitX = lineVecX / lineLength; lineUnitY = lineVecY / lineLength;
          toPointX = pt_x point - x1; toPointY = pt_y point - y1;
          projection = toPointX * lineUnitX + toPointY * lineUnitY;
          clampedProjection = max 0 (min lineLength projection)
      in (x1 + clampedProjection * lineUnitX, y1 + clampedProjection * lineUnitY,
          atan2 lineVecY lineVecX))"

fun sideSegment ::
    "AttachmentSide \<Rightarrow> real \<Rightarrow> real \<Rightarrow> real \<Rightarrow> real \<Rightarrow> real \<times> real \<times> real \<times> real" where
  "sideSegment SideTop rx ry w h = (rx, ry, rx + w, ry)"
| "sideSegment SideBottom rx ry w h = (rx, ry + h, rx + w, ry + h)"
| "sideSegment SideLeft rx ry w h = (rx, ry, rx, ry + h)"
| "sideSegment SideRight rx ry w h = (rx + w, ry, rx + w, ry + h)"

text \<open>
  The door branch of the drag loop (the door is the drag reference): the new \<open>x\<close>, \<open>y\<close>
  and \<open>rotation\<close>. Only when the snapshot has exactly one entry does the door follow its
  wall or search for the nearest one.
\<close>

definition doorDragPose ::
    "Props \<Rightarrow> CanvasState \<Rightarrow> Point \<Rightarrow> real \<Rightarrow> real \<Rightarrow> CanvasElement \<Rightarrow> StartPosition \<Rightarrow>
     real \<times> real \<times> real option" where
  "doorDragPose props st point dx dy primaryElement startPos =
     (let newX = sp_x startPos + dx;
          newY = sp_y startPos + dy;
          rot = rotation primaryElement;
          els = elements (project props)
      in if length (elementStartPositions st) = 1 then
           (if truthy (attachedToLine (kind primaryElement)) then
              (case find (\<lambda>e. Some (el_id e) = attachedToLine (kind primaryElement) \<and>
                               is_Line (kind e)) els of
                 None \<Rightarrow> (newX, newY, rot)
               | Some attachedLine \<Rightarrow>
                   (case projectOnSegment point (el_x attachedLine) (el_y attachedLine)
                           (endX (kind attachedLine)) (endY (kind attachedLine)) of
                      (nx, ny, angle) \<Rightarrow> (nx, ny, Some angle)))
            else if truthy (attachedToRectangle (kind primaryElement)) then
              (case find (\<lambda>e. Some (el_id e) = attachedToRectangle (kind primaryElement) \<and>
                               is_Rectangle (kind e)) els of
                 None \<Rightarrow> (newX, newY, rot)
               | Some attachedRect \<Rightarrow>
                   (case attachmentSide (kind primaryElement) of
                      None \<Rightarrow> (newX, newY, rot)
                    | Some side \<Rightarrow>
                        (case sideSegment side (el_x attachedRect) (el_y attachedRect)
                                (width (kind attachedRect)) (height (kind attachedRect)) of
                           (lineX1, lineY1, lineX2, lineY2) \<Rightarrow>
                             (case projectOnSegment point lineX1 lineY1 lineX2 lineY2 of
                                (nx, ny, angle) \<Rightarrow> (nx, ny, Some angle)))))
            else
              (let snappedPosition = findNearestLineOrWall (viewTransform st) els point;
                   snapDistance = 30 / scale (viewTransform st)
               in if distanceLessThan (snap_distance snappedPosition) snapDistance then
                    (snap_x snappedPosition, snap_y snappedPosition,
                     Some (snap_rotation snappedPosition))
                  else (newX, newY, doorOriginalRotation st)))
         else (newX, newY, rot))"

text \<open>One iteration of \<open>elementStartPositions.forEach\<close>: the call it makes, if any.\<close>

definition dragElement ::
    "Props \<Rightarrow> CanvasState \<Rightarrow> Point \<Rightarrow> real \<Rightarrow> real \<Rightarrow> string \<times> StartPosition \<Rightarrow>
     Callback list" where
  "dragElement props st point dx dy entry =
     (let i = fst entry; startPos = snd entry
      in case findById (elements (project props)) i of
           None \<Rightarrow> []
         | Some element \<Rightarrow>
             if isLocked element then []
             else if is_Line (kind element) \<and> sp_endX startPos \<noteq> None \<and>
                     sp_endY startPos \<noteq> None then
               [UpdateElement i
                  (noUpdates\<lparr>u_x := Some (sp_x startPos + dx),
                             u_y := Some (sp_y startPos + dy),
                             u_endX := map_option (\<lambda>v. v + dx) (sp_endX startPos),
                             u_endY := map_option (\<lambda>v. v + dy) (sp_endY startPos)\<rparr>)
                  True]
             else if is_Door (kind element) \<and> Some i = dragReferenceId st then
               (case doorDragPose props st point dx dy element startPos of
                  (newX, newY, rot) \<Rightarrow>
                    [UpdateElement i
                       (noUpdates\<lparr>u_x := Some newX, u_y := Some newY,
                                  u_rotation := Some rot\<rparr>)
                       True])
             else
               [UpdateElement i
                  (noUpdates\<lparr>u_x := Some (sp_x startPos + dx),
                             u_y := Some (sp_y startPos + dy)\<rparr>)
                  True])"

definition dragMove :: "Props \<Rightarrow> CanvasState \<Rightarrow> Point \<Rightarrow> Callback list" where
  "dragMove props st point =
     (let dx = pt_x point - pt_x (dragStart st);
          dy = pt_y point - pt_y (dragStart st)
      in concat (map (dragElement props st point dx dy) (elementStartPositions st)))"

text \<open>
  The box-selection branch. The test \<open>if (isSelecting)\<close> reads the flag of the current
  render, so the move that turns a potential selection into a selection draws no box yet.
\<close>

definition boxMove :: "CanvasState \<Rightarrow> Point \<Rightarrow> CanvasState" where
  "boxMove st point =
     (let distance = sqrt ((pt_x point - pt_x (drawStart st))\<^sup>2
                           + (pt_y point - pt_y (drawStart st))\<^sup>2);
          st1 = (if potentialSelection st \<and> distance > 5
                 then st\<lparr>potentialSelection := False, isSelecting := True\<rparr> else st)
      in if isSelecting st then
           (let bw = pt_x point - pt_x (drawStart st);
                bh = pt_y point - pt_y (drawStart st)
            in st1\<lparr>selectionBox :=
                     Some \<lparr>box_x = min (pt_x (drawStart st)) (pt_x point),
                           box_y = min (pt_y (drawStart st)) (pt_y point),
                           box_width = \<bar>bw\<bar>, box_height = \<bar>bh\<bar>\<rparr>\<rparr>)
         else st1)"

definition calculateDistance :: "Project \<Rightarrow> real \<Rightarrow> real \<Rightarrow> real \<Rightarrow> real \<Rightarrow> real" where
  "calculateDistance proj x1 y1 x2 y2 =
     (let dx = x2 - x1; dy = y2 - y1; pixels = sqrt (dx * dx + dy * dy)
      in pixels / pixelsPerCm proj)"

text \<open>The drawing branch: the preview element of the line, rectangle and circle tools.\<close>

definition drawMove :: "string \<Rightarrow> Props \<Rightarrow> CanvasState \<Rightarrow> Point \<Rightarrow> CanvasState" where
  "drawMove newId props st point =
     (let sx = pt_x (drawStart st); sy = pt_y (drawStart st);
          ppc = pixelsPerCm (project props)
      in case tool props of
           ToolLine \<Rightarrow>
             (let len = calculateDistance (project props) sx sy (pt_x point) (pt_y point)
              in st\<lparr>tempElement :=
                      Some (newElement newId sx sy (theme props) None
                              (Line (pt_x point) (pt_y point) len))\<rparr>)
         | ToolRectangle \<Rightarrow>
             (let w = \<bar>pt_x point - sx\<bar>; h = \<bar>pt_y point - sy\<bar>;
                  rx = min sx (pt_x point); ry = min sy (pt_y point)
              in st\<lparr>tempElement :=
                      Some (newElement newId rx ry (theme props) None
                              (Rectangle w h (w / ppc) (h / ppc)))\<rparr>)
         | ToolCircle \<Rightarrow>
             (let dx = pt_x point - sx; dy = pt_y point - sy;
                  r = sqrt (dx * dx + dy * dy)
              in st\<lparr>tempElement :=
                      Some (newElement newId sx sy (theme props) None
                              (Circle r (r / ppc)))\<rparr>)
         | _ \<Rightarrow> st)"

text \<open>
  \<open>handleMouseMove\<close>: the hover block, then the \<open>if\<close> chain over the gesture flags of
  the current render.
\<close>

definition handleMouseMove ::
    "string \<Rightarrow> Props \<Rightarrow> CanvasState \<Rightarrow> MouseEvent \<Rightarrow> CanvasState \<times> Callback list" where
  "handleMouseMove newId props st e =
     (let point = screenToCanvas (canvasRef st) (viewTransform st) (clientX e) (clientY e);
          st0 = hoverPreview props st point
      in if isPanning st then (panMove st0 e, [])
         else if isRotating st \<and> length (selectedElementIds props) = 1 then
           rotateMove props st0 point
         else if isScaling st \<and> scaleHandle st \<noteq> None \<and>
                 length (selectedElementIds props) = 1 then
           (case scaleHandle st of
              Some handle \<Rightarrow> scaleMove props st0 handle point
            | None \<Rightarrow> (st0, []))
         else if isDragging st \<and> length (selectedElementIds props) > 0 \<and>
                 truthy (dragReferenceId st) then
           (st0, dragMove props st0 point)
         else if potentialSelection st \<or> isSelecting st then (boxMove st0 point, [])
         else if isDrawing st then (drawMove newId props st0 point, [])
         else (st0, []))"

section \<open>Pointer up and box selection\<close>

definition isPointInBox :: "real \<Rightarrow> real \<Rightarrow> SelectionBox \<Rightarrow> bool" where
  "isPointInBox px py box =
     (px \<ge> box_x box \<and> px \<le> box_x box + box_width box \<and>
      py \<ge> box_y box \<and> py \<le> box_y box + box_height box)"

definition getRotatedCorners ::
    "real \<Rightarrow> real \<Rightarrow> real \<Rightarrow> real \<Rightarrow> real \<Rightarrow> real \<Rightarrow> real \<Rightarrow> Point list" where
  "getRotatedCorners rx ry w h rot cX cY =
     map (\<lambda>corner.
            let c = cos rot; s = sin rot;
                dx = pt_x corner - cX; dy = pt_y corner - cY
            in \<lparr>pt_x = cX + dx * c - dy * s, pt_y = cY + dx * s + dy * c\<rparr>)
       [\<lparr>pt_x = rx, pt_y = ry\<rparr>, \<lparr>pt_x = rx + w, pt_y = ry\<rparr>,
        \<lparr>pt_x = rx, pt_y = ry + h\<rparr>, \<lparr>pt_x = rx + w, pt_y = ry + h\<rparr>]"

text \<open>The predicate of \<open>project.elements.filter\<close> in the box-selection branch.\<close>

definition inSelectionBox :: "ViewTransform \<Rightarrow> SelectionBox \<Rightarrow> CanvasElement \<Rightarrow> bool" where
  "inSelectionBox vt box element =
     (case kind element of
        Line ex ey l \<Rightarrow>
          (el_x element \<ge> box_x box \<and> el_x element \<le> box_x box + box_width box \<and>
           el_y element \<ge> box_y box \<and> el_y element \<le> box_y box + box_height box) \<or>
          (ex \<ge> box_x box \<and> ex \<le> box_x box + box_width box \<and>
           ey \<ge> box_y box \<and> ey \<le> box_y box + box_height box)
      | Rectangle w h wc hc \<Rightarrow>
          (let rot = rotationOr0 element;
               cX = el_x element + w / 2; cY = el_y element + h / 2;
               corners = getRotatedCorners (el_x element) (el_y element) w h rot cX cY
           in list_ex (\<lambda>corner. isPointInBox (pt_x corner) (pt_y corner) box) corners)
      | Text ct fs ff \<Rightarrow>
          (let rot = rotationOr0 element;
               scaledFontSize = fs / scale vt;
               estimatedWidth = real (length ct) * scaledFontSize * 0.6;
               corners = getRotatedCorners (el_x element) (el_y element - scaledFontSize)
                           estimatedWidth scaledFontSize rot (el_x element) (el_y element)
           in list_ex (\<lambda>corner. isPointInBox (pt_x corner) (pt_y corner) box) corners)
      | Circle r rc \<Rightarrow>
          (el_x element - r < box_x box + box_width box \<and>
           el_x element + r > box_x box \<and>
           el_y element - r < box_y box + box_height box \<and>
           el_y element + r > box_y box)
      | Door w al ar sd \<Rightarrow>
          (let rot = rotationOr0 element; c = cos rot; s = sin rot;
               point1X = el_x element; point1Y = el_y element;
               point2X = el_x element + w * c; point2Y = el_y element + w * s
           in isPointInBox point1X point1Y box \<or> isPointInBox point2X point2Y box))"

definition handleMouseUp :: "Props \<Rightarrow> CanvasState \<Rightarrow> CanvasState \<times> Callback list" where
  "handleMouseUp props st =
     (if isPanning st then (st\<lparr>isPanning := False\<rparr>, [])
      else if isRotating st then (st\<lparr>isRotating := False\<rparr>, [SaveHistory])
      else if isScaling st then (st\<lparr>isScaling := False, scaleHandle := None\<rparr>, [SaveHistory])
      else if isDragging st then
        (st\<lparr>isDragging := False, dragReferenceId := None, elementStartPositions := [],
            doorOriginalRotation := None\<rparr>,
         [SaveHistory])
      else if potentialSelection st then (st\<lparr>potentialSelection := False\<rparr>, [])
      else
        (case (isSelecting st, selectionBox st) of
           (True, Some box) \<Rightarrow>
             (let elementsInBox =
                    filter (inSelectionBox (viewTransform st) box) (elements (project props))
              in (st\<lparr>isSelecting := False, selectionBox := None\<rparr>,
                  [SelectElements (map el_id elementsInBox)]))
         | _ \<Rightarrow>
             (case (isDrawing st, tempElement st) of
                (True, Some temp) \<Rightarrow>
                  (st\<lparr>tempElement := None, isDrawing := False\<rparr>,
                   [AddElement temp, SetTool ToolSelect])
              | _ \<Rightarrow> (st, []))))"

section \<open>Keyboard\<close>

record KeyboardEvent =
  key :: string
  metaKey :: bool
  ctrlKey :: bool
  key_shiftKey :: bool
  key_altKey :: bool
  targetTagName :: string

text \<open>
  The copy that paste and duplicate make of one element:
  \<open>{ ...copied, id: generateId(), x: copied.x + 20, y: copied.y + 20 }\<close>, and for a Line
  also \<open>endX\<close> and \<open>endY\<close> plus 20.
\<close>

definition offsetCopy :: "string \<Rightarrow> CanvasElement \<Rightarrow> CanvasElement" where
  "offsetCopy newId copied =
     (let baseNew = copied\<lparr>el_id := newId, el_x := el_x copied + 20, el_y := el_y copied + 20\<rparr>
      in case kind copied of
           Line ex ey l \<Rightarrow> baseNew\<lparr>kind := Line (ex + 20) (ey + 20) l\<rparr>
         | _ \<Rightarrow> baseNew)"

text \<open>
  \<open>elements.map\<close> with one call of \<open>generateId()\<close> per element: \<open>genId k\<close> is what the
  call for the element at index \<open>k\<close> returns.
\<close>

definition offsetCopies :: "(nat \<Rightarrow> string) \<Rightarrow> CanvasElement list \<Rightarrow> CanvasElement list" where
  "offsetCopies genId els = map (\<lambda>(k, el). offsetCopy (genId k) el) (enumerate 0 els)"

text \<open>\<open>Math.round\<close>: to the nearest integer, halves upwards.\<close>

definition mathRound :: "real \<Rightarrow> real" where
  "mathRound v = of_int \<lfloor>v + 1 / 2\<rfloor>"

definition nudge :: "Props \<Rightarrow> real \<Rightarrow> real \<Rightarrow> string \<Rightarrow> Callback list" where
  "nudge props dx dy i =
     (case findById (elements (project props)) i of
        None \<Rightarrow> []
      | Some element \<Rightarrow>
          (let updates = noUpdates\<lparr>u_x := Some (mathRound (el_x element + dx)),
                                   u_y := Some (mathRound (el_y element + dy))\<rparr>
           in case kind element of
                Line ex ey l \<Rightarrow>
                  [UpdateElement i
                     (updates\<lparr>u_endX := Some (mathRound (ex + dx)),
                              u_endY := Some (mathRound (ey + dy))\<rparr>)
                     False]
              | _ \<Rightarrow> [UpdateElement i updates False]))"

text \<open>The \<open>keydown\<close> listener of the component.\<close>

definition handleKeyDown ::
    "(nat \<Rightarrow> string) \<Rightarrow> Props \<Rightarrow> CanvasState \<Rightarrow> KeyboardEvent \<Rightarrow>
     CanvasState \<times> Callback list" where
  "handleKeyDown genId props st e =
     (let isInputField = (targetTagName e = ''INPUT'' \<or> targetTagName e = ''TEXTAREA'');
          sel = selectedElementIds props;
          els = elements (project props);
          modifier = (metaKey e \<or> ctrlKey e)
      in if (key e = ''Delete'' \<or> key e = ''Backspace'') \<and> \<not> isInputField then
           (if length sel > 0 then
              (if length sel = 1 then (st, [DeleteElement (hd sel)])
               else (st, [DeleteMultipleElements sel]))
            else (st, []))
         else if key e = ''Escape'' then
           (if showSettings st then (st\<lparr>showSettings := False\<rparr>, [])
            else (st, [SelectElements [], SetTool ToolSelect]))
         else if modifier \<and> key e = ''a'' \<and> \<not> isInputField then
           (st, [SelectElements (map el_id els)])
         else if modifier \<and> key e = ''c'' \<and> \<not> isInputField then
           (if length sel > 0 then
              (st\<lparr>copiedElements := filter (\<lambda>el. el_id el \<in> set sel) els\<rparr>, [])
            else (st, []))
         else if modifier \<and> key e = ''v'' \<and> \<not> isInputField then
           (if length (copiedElements st) > 0 then
              (let newElements = offsetCopies genId (copiedElements st)
               in (st, [AddMultipleElements newElements,
                        SelectElements (map el_id newElements)]))
            else (st, []))
         else if modifier \<and> key e = ''d'' \<and> \<not> isInputField then
           (if length sel > 0 then
              (let sources = filter (\<lambda>el. el_id el \<in> set sel) els;
                   newElements = offsetCopies genId sources
               in (st, [AddMultipleElements newElements,
                        SelectElements (map el_id newElements)]))
            else (st, []))
         else if key e \<in> set [''ArrowUp'', ''ArrowDown'', ''ArrowLeft'', ''ArrowRight''] \<and>
                 \<not> isInputField then
           (if length sel > 0 then
              (let movementCm = (if key_shiftKey e then 1.0 else 0.5);
                   movementPixels = mathRound (movementCm * pixelsPerCm (project props));
                   dx = (if key e = ''ArrowRight'' then movementPixels
                         else if key e = ''ArrowLeft'' then - movementPixels else 0);
                   dy = (if key e = ''ArrowDown'' then movementPixels
                         else if key e = ''ArrowUp'' then - movementPixels else 0)
               in (st, concat (map (nudge props dx dy) sel)))
            else (st, []))
         else if \<not> isInputField \<and> length sel = 1 \<and> length (key e) = 1 \<and>
                 \<not> metaKey e \<and> \<not> ctrlKey e \<and> \<not> key_altKey e then
           (case findById els (hd sel) of
              None \<Rightarrow> (st, [])
            | Some element \<Rightarrow>
                if is_Text (kind element) then
                  (st\<lparr>editingTextId := Some (hd sel)\<rparr>,
                   [UpdateElement (hd sel) (noUpdates\<lparr>u_content := Some (key e)\<rparr>) False])
                else (st, []))
         else (st, []))"

section \<open>The parent component (App.tsx)\<close>

text \<open>
  The state cells of \<open>App\<close> that the callbacks read or write. The undo history is not
  modelled: \<open>saveHistory(newProjects)\<close> is \<open>setProjects(newProjects)\<close> here and
  \<open>saveCurrentStateToHistory\<close> changes nothing.
\<close>

record AppState =
  projects :: "Project list"
  currentProjectId :: "string option"
  app_selectedElementIds :: "string list"
  app_tool :: Tool
  app_theme :: Theme

text \<open>
  The props of the mounted \<open>CanvasView\<close>; it is rendered only with a current project id
  that some project has.
\<close>

definition propsOf :: "AppState \<Rightarrow> Props option" where
  "propsOf app =
     (if noCurrentProject (currentProjectId app) then None
      else case find (\<lambda>p. Some (p_id p) = currentProjectId app) (projects app) of
             None \<Rightarrow> None
           | Some currentProject \<Rightarrow>
               Some \<lparr>project = currentProject,
                     selectedElementIds = app_selectedElementIds app,
                     tool = app_tool app, theme = app_theme app\<rparr>)"

text \<open>
  A function that rewrites the current project, as in
  \<open>projects.map(p => p.id === currentProjectId ? { ...p, ... } : p)\<close>.
\<close>

definition mapCurrent ::
    "string option \<Rightarrow> (Project \<Rightarrow> Project) \<Rightarrow> Project list \<Rightarrow> Project list" where
  "mapCurrent cur f ps = map (\<lambda>p. if Some (p_id p) = cur then f p else p) ps"

text \<open>
  One callback. \<open>rendered\<close> is the state of the render that created the callback: the
  closures of \<open>addElement\<close>, \<open>addMultipleElements\<close>, \<open>deleteElement\<close>,
  \<open>deleteMultipleElements\<close> and \<open>updateProjectSettings\<close> read \<open>projects\<close> from it, while
  \<open>updateElement\<close> and \<open>updateMultipleElements\<close> pass a function of the previous state
  to \<open>setProjects\<close>.
\<close>

fun dispatch :: "AppState \<Rightarrow> AppState \<Rightarrow> Callback \<Rightarrow> AppState" where
  "dispatch rendered app (AddElement element) =
     (if noCurrentProject (currentProjectId rendered) then app
      else app\<lparr>projects :=
                 mapCurrent (currentProjectId rendered)
                   (\<lambda>p. p\<lparr>elements := elements p @ [element]\<rparr>) (projects rendered)\<rparr>)"
| "dispatch rendered app (AddMultipleElements els) =
     (if noCurrentProject (currentProjectId rendered) then app
      else app\<lparr>projects :=
                 mapCurrent (currentProjectId rendered)
                   (\<lambda>p. p\<lparr>elements := elements p @ els\<rparr>) (projects rendered)\<rparr>)"
| "dispatch rendered app (UpdateElement i updates skipHistory) =
     app\<lparr>projects := updateElement (currentProjectId rendered) i updates (projects app)\<rparr>"
| "dispatch rendered app (UpdateMultipleElements ids updates) =
     app\<lparr>projects :=
           updateMultipleElements (currentProjectId rendered) ids updates (projects app)\<rparr>"
| "dispatch rendered app (SelectElements ids) = app\<lparr>app_selectedElementIds := ids\<rparr>"
| "dispatch rendered app (DeleteElement i) =
     (if noCurrentProject (currentProjectId rendered) then app
      else app\<lparr>projects :=
                 mapCurrent (currentProjectId rendered)
                   (\<lambda>p. p\<lparr>elements := filter (\<lambda>e. el_id e \<noteq> i) (elements p)\<rparr>)
                   (projects rendered),
               app_selectedElementIds := []\<rparr>)"
| "dispatch rendered app (DeleteMultipleElements ids) =
     (if noCurrentProject (currentProjectId rendered) then app
      else app\<lparr>projects :=
                 mapCurrent (currentProjectId rendered)
                   (\<lambda>p. p\<lparr>elements := filter (\<lambda>e. el_id e \<notin> set ids) (elements p)\<rparr>)
                   (projects rendered),
               app_selectedElementIds := []\<rparr>)"
| "dispatch rendered app (SetTool t) = app\<lparr>app_tool := t\<rparr>"
| "dispatch rendered app SaveHistory = app"
| "dispatch rendered app (UpdateProjectSettings vt) =
     (if noCurrentProject (currentProjectId rendered) then app
      else app\<lparr>projects :=
                 mapCurrent (currentProjectId rendered)
                   (\<lambda>p. p\<lparr>p_viewTransform := Some vt\<rparr>) (projects rendered)\<rparr>)"

text \<open>
  One event: the handler of the mounted canvas runs on the props of the current render,
  then the parent runs the callbacks in order. Without a mounted canvas nothing happens.
\<close>

definition runHandler ::
    "(Props \<Rightarrow> CanvasState \<Rightarrow> CanvasState \<times> Callback list) \<Rightarrow>
     AppState \<times> CanvasState \<Rightarrow> AppState \<times> CanvasState" where
  "runHandler handler w =
     (case propsOf (fst w) of
        None \<Rightarrow> w
      | Some props \<Rightarrow>
          (case handler props (snd w) of
             (st', calls) \<Rightarrow> (foldl (dispatch (fst w)) (fst w) calls, st')))"

text \<open>The four events, on the state of both components.\<close>

definition mouseDown :: "string \<Rightarrow> MouseEvent \<Rightarrow> AppState \<times> CanvasState \<Rightarrow> AppState \<times> CanvasState" where
  "mouseDown newId e = runHandler (\<lambda>props st. handleMouseDown newId props st e)"

definition mouseMove :: "string \<Rightarrow> MouseEvent \<Rightarrow> AppState \<times> CanvasState \<Rightarrow> AppState \<times> CanvasState" where
  "mouseMove newId e = runHandler (\<lambda>props st. handleMouseMove newId props st e)"

definition mouseUp :: "AppState \<times> CanvasState \<Rightarrow> AppState \<times> CanvasState" where
  "mouseUp = runHandler handleMouseUp"

definition keyDown ::
    "(nat \<Rightarrow> string) \<Rightarrow> KeyboardEvent \<Rightarrow> AppState \<times> CanvasState \<Rightarrow> AppState \<times> CanvasState" where
  "keyDown genId e = runHandler (\<lambda>props st. handleKeyDown genId props st e)"

text \<open>The elements of the project on the canvas (none without a mounted canvas).\<close>

definition canvasElements :: "AppState \<Rightarrow> CanvasElement list" where
  "canvasElements app = (case propsOf app of None \<Rightarrow> [] | Some props \<Rightarrow> elements (project props))"

section \<open>Zoom-anchor invariance\<close>

subsection \<open>The error of one rounding\<close>

text \<open>
  A rounding moves a result by at most half a spacing: by a relative \<open>2 ^ -53\<close> in the
  normal range (\<open>fl_error_normal\<close>), and by at most \<open>2 ^ -1075\<close> more below it
  (\<open>fl_error\<close>). Where the binade of \<open>x\<close> is known, \<open>fl x\<close> is computed by
  \<open>fl_eval\<close>.
\<close>

lemma roundHalfEven_error: "\<bar>of_int (roundHalfEven y) - y\<bar> \<le> 1 / 2"
  unfolding roundHalfEven_def Let_def by (auto; linarith)

lemma roundHalfEven_of_int [simp]: "roundHalfEven (of_int n) = n"
  by (simp add: roundHalfEven_def)

lemma spacing_pos: "0 < spacing x"
  by (simp add: spacing_def)

lemma fl_error_spacing: "\<bar>fl x - x\<bar> \<le> spacing x / 2"
proof -
  have "fl x - x = (of_int (roundHalfEven (x / spacing x)) - x / spacing x) * spacing x"
    using spacing_pos [of x] by (simp add: fl_def field_simps)
  then have "\<bar>fl x - x\<bar>
      = \<bar>of_int (roundHalfEven (x / spacing x)) - x / spacing x\<bar> * spacing x"
    using spacing_pos [of x] by (simp add: abs_mult)
  also have "\<dots> \<le> (1 / 2) * spacing x"
    using roundHalfEven_error [of "x / spacing x"] spacing_pos [of x]
    by (intro mult_right_mono) auto
  finally show ?thesis by simp
qed

lemma spacing_cases:
  "spacing x = 1 / 2 ^ 1074 \<or> (1 / 2 ^ 1022 \<le> \<bar>x\<bar> \<and> spacing x \<le> \<bar>x\<bar> / 2 ^ 52)"
proof (cases "bitlen \<lfloor>\<bar>x\<bar> * 2 ^ 1074\<rfloor> \<le> 53")
  case True
  then show ?thesis by (simp add: spacing_def)
next
  case False
  define n where "n = \<lfloor>\<bar>x\<bar> * 2 ^ 1074\<rfloor>"
  define b where "b = bitlen n"
  have b: "54 \<le> b" using False by (simp add: b_def n_def)
  then have npos: "0 < n" using bitlen_eq_zero_iff [of n] by (auto simp: b_def)
  have low: "2 ^ nat (b - 1) \<le> n" using bitlen_bounds [OF npos] by (simp add: b_def)
  have nx: "of_int n \<le> \<bar>x\<bar> * 2 ^ 1074" by (simp add: n_def)
  have split: "nat (b - 1) = nat (b - 53) + 52" using b by linarith
  have "(2::real) ^ nat (b - 53) * 2 ^ 52 = of_int (2 ^ nat (b - 1))"
    by (simp only: split power_add of_int_mult of_int_power of_int_numeral)
  also have "\<dots> \<le> of_int n" using low by (simp only: of_int_le_iff)
  also have "\<dots> \<le> \<bar>x\<bar> * 2 ^ 1074" by (rule nx)
  finally have main: "(2::real) ^ nat (b - 53) * 2 ^ 52 \<le> \<bar>x\<bar> * 2 ^ 1074" .
  have "spacing x * 2 ^ 52 = (2 ^ nat (b - 53) * 2 ^ 52) / 2 ^ 1074"
    by (simp only: spacing_def b_def n_def times_divide_eq_left)
  also have "\<dots> \<le> (\<bar>x\<bar> * 2 ^ 1074) / 2 ^ 1074"
    by (rule divide_right_mono [OF main]) simp
  also have "\<dots> = \<bar>x\<bar>"
    by (simp only: nonzero_mult_div_cancel_right power_not_zero [of "2::real"]
        numeral_neq_zero not_False_eq_True)
  finally have "spacing x * 2 ^ 52 \<le> \<bar>x\<bar>" .
  then have sp: "spacing x \<le> \<bar>x\<bar> / 2 ^ 52"
    by (simp only: pos_le_divide_eq [of "2 ^ 52 :: real"] zero_less_power zero_less_numeral)
  have "(1::real) \<le> 2 ^ nat (b - 53)" by simp
  then have "(1::real) * 2 ^ 52 \<le> 2 ^ nat (b - 53) * 2 ^ 52"
    by (rule mult_right_mono) simp
  then have "(1::real) * 2 ^ 52 \<le> \<bar>x\<bar> * 2 ^ 1074" by (rule order_trans [OF _ main])
  moreover have "(2::real) ^ 1074 = 2 ^ 52 * 2 ^ 1022"
    by (simp only: power_add [symmetric]) simp
  ultimately have "(1::real) * 2 ^ 52 \<le> (\<bar>x\<bar> * 2 ^ 1022) * 2 ^ 52" by (simp only: mult_ac)
  then have "1 \<le> \<bar>x\<bar> * 2 ^ 1022"
    by (rule mult_right_le_imp_le) simp
  then have "1 / 2 ^ 1022 \<le> \<bar>x\<bar>"
    by (simp only: pos_divide_le_eq [of "2 ^ 1022 :: real"] zero_less_power zero_less_numeral)
  with sp show ?thesis by (rule_tac disjI2) (rule conjI)
qed

lemma fl_error: "\<bar>fl x - x\<bar> \<le> \<bar>x\<bar> / 2 ^ 53 + 1 / 2 ^ 1075"
proof -
  have half: "(1 / 2 ^ 1074) / 2 = (1::real) / 2 ^ 1075"
    and half': "\<And>a::real. (a / 2 ^ 52) / 2 = a / 2 ^ 53"
    by (simp_all only: power_Suc [symmetric] divide_divide_eq_left mult.commute [of _ 2]) simp_all
  have pos: "0 \<le> (1::real) / 2 ^ 1075" "0 \<le> \<bar>x\<bar> / 2 ^ 53"
    by (simp_all only: zero_le_divide_iff) simp_all
  consider "spacing x = 1 / 2 ^ 1074" | "spacing x \<le> \<bar>x\<bar> / 2 ^ 52"
    using spacing_cases [of x] by blast
  then show ?thesis
  proof cases
    case 1
    with fl_error_spacing [of x] have "\<bar>fl x - x\<bar> \<le> 1 / 2 ^ 1075" by (simp only: half)
    with pos show ?thesis by linarith
  next
    case 2
    then have "spacing x / 2 \<le> (\<bar>x\<bar> / 2 ^ 52) / 2" by (rule divide_right_mono) simp
    with fl_error_spacing [of x] have "\<bar>fl x - x\<bar> \<le> \<bar>x\<bar> / 2 ^ 53" by (simp only: half')
    with pos show ?thesis by linarith
  qed
qed

lemma fl_error_normal:
  assumes "1 / 2 ^ 1022 \<le> \<bar>x\<bar>"
  shows "\<bar>fl x - x\<bar> \<le> \<bar>x\<bar> / 2 ^ 53"
proof -
  have sp: "spacing x \<le> \<bar>x\<bar> / 2 ^ 52"
  proof -
    consider "spacing x = 1 / 2 ^ 1074" | "spacing x \<le> \<bar>x\<bar> / 2 ^ 52"
      using spacing_cases [of x] by blast
    then show ?thesis
    proof cases
      case 1
      have "(1::real) / 2 ^ 1074 = (1 / 2 ^ 1022) / 2 ^ 52"
        by (simp only: divide_divide_eq_left power_add [symmetric]) simp
      also have "\<dots> \<le> \<bar>x\<bar> / 2 ^ 52" by (rule divide_right_mono [OF assms]) simp
      finally show ?thesis by (simp only: 1)
    qed
  qed
  have half: "\<And>a::real. (a / 2 ^ 52) / 2 = a / 2 ^ 53"
    by (simp only: power_Suc [symmetric] divide_divide_eq_left mult.commute [of _ 2]) simp
  from sp have "spacing x / 2 \<le> (\<bar>x\<bar> / 2 ^ 52) / 2" by (rule divide_right_mono) simp
  with fl_error_spacing [of x] show ?thesis by (simp only: half)
qed

lemma spacing_eq:
  assumes low: "2 ^ 52 \<le> \<bar>x\<bar> * 2 ^ k" and up: "\<bar>x\<bar> * 2 ^ k < 2 ^ 53" and k: "k \<le> 1074"
  shows "spacing x = 1 / 2 ^ k"
proof -
  define j where "j = 1074 - k"
  define n where "n = \<lfloor>\<bar>x\<bar> * 2 ^ 1074\<rfloor>"
  have pw: "(2::real) ^ 1074 = 2 ^ k * 2 ^ j"
    using k by (simp only: j_def power_add [symmetric]) simp
  have "(2::real) ^ (52 + j) = 2 ^ 52 * 2 ^ j" by (rule power_add)
  also have "\<dots> \<le> (\<bar>x\<bar> * 2 ^ k) * 2 ^ j" by (rule mult_right_mono [OF low]) simp
  also have "\<dots> = \<bar>x\<bar> * 2 ^ 1074" by (simp only: pw mult.assoc)
  finally have "of_int (2 ^ (52 + j)) \<le> \<bar>x\<bar> * 2 ^ 1074" by simp
  then have nlow: "2 ^ (52 + j) \<le> n" unfolding n_def by (simp only: le_floor_iff)
  have "\<bar>x\<bar> * 2 ^ 1074 = (\<bar>x\<bar> * 2 ^ k) * 2 ^ j" by (simp only: pw mult.assoc)
  also have "\<dots> < 2 ^ 53 * 2 ^ j" by (rule mult_strict_right_mono [OF up]) simp
  also have "\<dots> = 2 ^ (53 + j)" by (rule power_add [symmetric])
  finally have "\<bar>x\<bar> * 2 ^ 1074 < of_int (2 ^ (53 + j))" by simp
  then have nup: "n < 2 ^ (53 + j)" unfolding n_def by (simp only: floor_less_iff)
  have "bitlen n \<le> int (53 + j)"
    using nup by (simp only: bitlen_le_iff_power nat_int) simp
  moreover have "int (53 + j) \<le> bitlen n"
    using nlow by (simp only: bitlen_ge_iff_power nat_int) simp
  ultimately have "bitlen n = int (53 + j)" by (rule order_antisym)
  then have "spacing x = 2 ^ j / 2 ^ 1074" by (simp add: spacing_def n_def)
  also have "\<dots> = 1 / 2 ^ k" by (simp only: pw) simp
  finally show ?thesis .
qed

lemma fl_eval:
  assumes "2 ^ 52 \<le> \<bar>x\<bar> * 2 ^ k" and "\<bar>x\<bar> * 2 ^ k < 2 ^ 53" and "k \<le> 1074"
  shows "fl x = of_int (roundHalfEven (x * 2 ^ k)) / 2 ^ k"
  by (simp add: fl_def spacing_eq [OF assms])

lemma roundHalfEven_numeral [simp]: "roundHalfEven (numeral w) = numeral w"
  using roundHalfEven_of_int [of "numeral w"] by simp

subsection \<open>The error of a zoom step in one coordinate\<close>

text \<open>
  Without rounding the step keeps the point under the cursor exactly where it was.
\<close>

lemma anchor_exact:
  fixes m off s ns :: real
  assumes "s \<noteq> 0" and "ns \<noteq> 0"
  shows "(m - (m - (m - off) * (ns / s))) / ns = (m - off) / s"
  using assms by (simp add: field_simps)

lemma abs_scaled:
  fixes x y N :: real
  assumes "0 \<le> N"
  shows "\<bar>x * N - y * N\<bar> = \<bar>x - y\<bar> * N"
  using assms by (simp add: left_diff_distrib [symmetric] abs_mult)

lemma scaled_error:
  fixes x y N h :: real
  assumes "\<bar>x - y\<bar> \<le> \<bar>y\<bar> / 2 ^ 53 + h" and "0 \<le> N" and "N \<le> 10" and "0 \<le> h"
  shows "\<bar>x * N - y * N\<bar> \<le> \<bar>y * N\<bar> / 2 ^ 53 + 10 * h"
proof -
  have "\<bar>x * N - y * N\<bar> = \<bar>x - y\<bar> * N"
    using assms(2) by (simp add: left_diff_distrib [symmetric] abs_mult)
  also have "\<dots> \<le> (\<bar>y\<bar> / 2 ^ 53 + h) * N"
    by (rule mult_right_mono [OF assms(1) assms(2)])
  also have "\<dots> = \<bar>y * N\<bar> / 2 ^ 53 + h * N"
    using assms(2) by (simp add: abs_mult distrib_right)
  also have "\<dots> \<le> \<bar>y * N\<bar> / 2 ^ 53 + 10 * h"
    using mult_left_mono [OF assms(3) assms(4)] by (simp add: mult.commute)
  finally show ?thesis .
qed

lemma err_le:
  fixes x y B k :: real
  assumes "\<bar>x - y\<bar> \<le> \<bar>y\<bar> / 2 ^ 53 + k" and "\<bar>y\<bar> \<le> B"
  shows "\<bar>x - y\<bar> \<le> B / 2 ^ 53 + k"
proof -
  have "\<bar>y\<bar> / 2 ^ 53 \<le> B / 2 ^ 53" by (rule divide_right_mono [OF assms(2)]) simp
  with assms(1) show ?thesis by linarith
qed

lemma rounded_abs:
  fixes x y h :: real
  assumes "\<bar>x - y\<bar> \<le> \<bar>y\<bar> / 2 ^ 53 + h"
  shows "\<bar>x\<bar> \<le> \<bar>y\<bar> + \<bar>y\<bar> / 2 ^ 53 + h"
proof -
  have "\<bar>x\<bar> \<le> \<bar>y\<bar> + \<bar>x - y\<bar>" by linarith
  with assms show ?thesis by linarith
qed

text \<open>
  With rounding, eight operations lie between the cursor and the two points: the
  subtraction of the canvas edge, the subtraction of the old offset and the division by the
  old scale on one side; the ratio of the scales, the product, the two subtractions around
  the new offset and the division by the new scale on the other. \<open>c\<close> is the cursor
  coordinate, \<open>l\<close> the canvas edge, \<open>o'\<close> the old offset, \<open>s\<close> and \<open>ns\<close> the old and
  the new scale.
\<close>

lemma anchor_error:
  fixes c l o' s ns :: real
  assumes s: "1 / 10 \<le> s" "s \<le> 5" and ns: "1 / 10 \<le> ns" "ns \<le> 5"
  defines "m \<equiv> fl (c - l)"
  defines "nox \<equiv> fl (m - fl (fl (m - o') * fl (ns / s)))"
  shows "\<bar>fl (fl (m - nox) / ns) - fl (fl (m - o') / s)\<bar>
         \<le> (\<bar>c - l\<bar> + \<bar>o'\<bar>) / 2 ^ 46 + 1 / 2 ^ 1069"
proof -
  define h :: real where "h = 1 / 2 ^ 1075"
  have h: "0 \<le> h" by (simp add: h_def)
  note rnd = fl_error [folded h_def]
  define N where "N = 1 / ns"
  define S where "S = 1 / s"
  have N: "0 \<le> N" "N \<le> 10" using ns by (simp_all add: N_def field_simps)
  have S: "0 \<le> S" "S \<le> 10" using s by (simp_all add: S_def field_simps)
  have spos: "0 < s" and nspos: "0 < ns" using s ns by simp_all
  define d where "d = fl (m - o')"
  define ratio where "ratio = fl (ns / s)"
  define p where "p = fl (d * ratio)"
  define dd where "dd = fl (m - nox)"
  define a where "a = d * S"
  define x3 where "x3 = (d * ratio) * N"
  have nox: "nox = fl (m - p)" by (simp add: nox_def p_def d_def ratio_def)
  txt \<open>Magnitudes of the rounded cursor coordinate and of its distance from the offset.\<close>
  define cl where "cl = \<bar>c - l\<bar>"
  define mo where "mo = \<bar>m - o'\<bar>"
  have m_b: "\<bar>m\<bar> \<le> cl + cl / 2 ^ 53 + h"
    unfolding m_def cl_def by (rule rounded_abs [OF rnd])
  have d_b: "\<bar>d\<bar> \<le> mo + mo / 2 ^ 53 + h"
    unfolding d_def mo_def by (rule rounded_abs [OF rnd])
  have mo_b: "mo \<le> \<bar>m\<bar> + \<bar>o'\<bar>" unfolding mo_def by simp
  have a_b: "\<bar>a\<bar> \<le> 10 * \<bar>d\<bar>"
    using mult_left_mono [OF S(2), of "\<bar>d\<bar>"] S(1) by (simp add: a_def abs_mult)
  have mN_b: "\<bar>m * N\<bar> \<le> 10 * \<bar>m\<bar>"
    using mult_left_mono [OF N(2), of "\<bar>m\<bar>"] N(1) by (simp add: abs_mult)
  txt \<open>The ratio of the scales is a normal number, so its rounding error is relative.\<close>
  have fifty: "1 / 50 \<le> ns / s" using s ns spos by (simp add: field_simps)
  have "(1::real) / 2 ^ 1022 \<le> 1 / 2 ^ 6"
    by (intro divide_left_mono power_increasing) simp_all
  also have "\<dots> \<le> 1 / 50" by simp
  finally have "1 / 2 ^ 1022 \<le> \<bar>ns / s\<bar>" using fifty by linarith
  then have r_err: "\<bar>ratio - ns / s\<bar> \<le> \<bar>ns / s\<bar> / 2 ^ 53"
    unfolding ratio_def by (rule fl_error_normal)
  have nsN: "(ns / s) * N = S" using nspos by (simp add: N_def S_def)
  have rN: "\<bar>ratio * N - S\<bar> \<le> S / 2 ^ 53"
  proof -
    have "\<bar>ratio * N - (ns / s) * N\<bar> = \<bar>ratio - ns / s\<bar> * N"
      by (rule abs_scaled [OF N(1)])
    also have "\<dots> \<le> (\<bar>ns / s\<bar> / 2 ^ 53) * N" by (rule mult_right_mono [OF r_err N(1)])
    also have "\<dots> = \<bar>(ns / s) * N\<bar> / 2 ^ 53" using N(1) by (simp add: abs_mult)
    finally have "\<bar>ratio * N - (ns / s) * N\<bar> \<le> \<bar>(ns / s) * N\<bar> / 2 ^ 53" .
    then have "\<bar>ratio * N - S\<bar> \<le> \<bar>S\<bar> / 2 ^ 53" by (simp only: nsN)
    then show ?thesis using S(1) by simp
  qed
  have x3_err: "\<bar>x3 - a\<bar> \<le> \<bar>a\<bar> / 2 ^ 53"
  proof -
    have "x3 - a = d * (ratio * N - S)" by (simp add: x3_def a_def algebra_simps)
    then have "\<bar>x3 - a\<bar> = \<bar>d\<bar> * \<bar>ratio * N - S\<bar>" by (simp add: abs_mult)
    also have "\<dots> \<le> \<bar>d\<bar> * (S / 2 ^ 53)" by (rule mult_left_mono [OF rN]) simp
    also have "\<dots> = \<bar>a\<bar> / 2 ^ 53" using S(1) by (simp add: a_def abs_mult)
    finally show ?thesis .
  qed
  txt \<open>
    The product, the cursor, the new offset and the last difference, each divided by the
    new scale, with the errors of their roundings.
  \<close>
  define P where "P = p * N"
  define Mn where "Mn = m * N"
  define Nn where "Nn = nox * N"
  define Dn where "Dn = dd * N"
  define af where "af = fl (dd / ns)"
  define bf where "bf = fl (d / s)"
  have p_err: "\<bar>P - x3\<bar> \<le> \<bar>x3\<bar> / 2 ^ 53 + 10 * h"
    unfolding x3_def p_def P_def by (rule scaled_error [OF rnd N h])
  have n_err: "\<bar>Nn - (Mn - P)\<bar> \<le> \<bar>Mn - P\<bar> / 2 ^ 53 + 10 * h"
    using scaled_error [OF rnd [of "m - p"] N h]
    by (simp add: nox left_diff_distrib Nn_def Mn_def P_def)
  have dd_err: "\<bar>Dn - (Mn - Nn)\<bar> \<le> \<bar>Mn - Nn\<bar> / 2 ^ 53 + 10 * h"
    using scaled_error [OF rnd [of "m - nox"] N h]
    by (simp add: dd_def left_diff_distrib Nn_def Mn_def Dn_def)
  have after_err: "\<bar>af - Dn\<bar> \<le> \<bar>Dn\<bar> / 2 ^ 53 + h"
    using rnd [of "dd / ns"] by (simp add: N_def Dn_def af_def)
  have before_err: "\<bar>bf - a\<bar> \<le> \<bar>a\<bar> / 2 ^ 53 + h"
    using rnd [of "d / s"] by (simp add: a_def S_def bf_def)
  txt \<open>The five errors that remain in the difference of the two points, added up.\<close>
  define A where "A = \<bar>a\<bar>"
  define Mb where "Mb = \<bar>Mn\<bar>"
  define ob where "ob = \<bar>o'\<bar>"
  define E4 where "E4 = A / 2 ^ 53 + (A + A / 2 ^ 53) / 2 ^ 53 + 10 * h"
  define E5 where "E5 = (Mb + A + E4) / 2 ^ 53 + 10 * h"
  define E6 where "E6 = (A + E4 + E5) / 2 ^ 53 + 10 * h"
  define E7 where "E7 = (A + E4 + E5 + E6) / 2 ^ 53 + h"
  define E1 where "E1 = A / 2 ^ 53 + h"
  have x3e: "\<bar>x3 - a\<bar> \<le> A / 2 ^ 53" using x3_err unfolding A_def .
  have t1: "\<bar>x3\<bar> \<le> A + \<bar>x3 - a\<bar>" unfolding A_def by linarith
  have x3b: "\<bar>x3\<bar> \<le> A + A / 2 ^ 53" using t1 x3e by linarith
  have pe: "\<bar>P - x3\<bar> \<le> (A + A / 2 ^ 53) / 2 ^ 53 + 10 * h" by (rule err_le [OF p_err x3b])
  have t2: "\<bar>P - a\<bar> \<le> \<bar>P - x3\<bar> + \<bar>x3 - a\<bar>" by linarith
  have s2: "\<bar>P - a\<bar> \<le> E4" unfolding E4_def using t2 pe x3e by linarith
  have t3: "\<bar>Mn - P\<bar> \<le> Mb + A + \<bar>P - a\<bar>" unfolding Mb_def A_def by linarith
  have s3: "\<bar>Mn - P\<bar> \<le> Mb + A + E4" using t3 s2 by linarith
  have e5: "\<bar>Nn - (Mn - P)\<bar> \<le> E5" unfolding E5_def by (rule err_le [OF n_err s3])
  have t4: "\<bar>Mn - Nn\<bar> \<le> A + \<bar>P - a\<bar> + \<bar>Nn - (Mn - P)\<bar>" unfolding A_def by linarith
  have s4: "\<bar>Mn - Nn\<bar> \<le> A + E4 + E5" using t4 s2 e5 by linarith
  have e6: "\<bar>Dn - (Mn - Nn)\<bar> \<le> E6" unfolding E6_def by (rule err_le [OF dd_err s4])
  have t5: "\<bar>Dn\<bar> \<le> \<bar>Mn - Nn\<bar> + \<bar>Dn - (Mn - Nn)\<bar>" by linarith
  have s5: "\<bar>Dn\<bar> \<le> A + E4 + E5 + E6" using t5 s4 e6 by linarith
  have e7: "\<bar>af - Dn\<bar> \<le> E7" unfolding E7_def by (rule err_le [OF after_err s5])
  have e1: "\<bar>bf - a\<bar> \<le> E1" unfolding E1_def A_def by (rule before_err)
  have t6: "\<bar>af - bf\<bar>
      \<le> \<bar>af - Dn\<bar> + \<bar>Dn - (Mn - Nn)\<bar> + \<bar>Nn - (Mn - P)\<bar> + \<bar>P - a\<bar> + \<bar>bf - a\<bar>"
    by linarith
  have total: "\<bar>af - bf\<bar> \<le> E4 + E5 + E6 + E7 + E1"
    using t6 s2 e5 e6 e7 e1 by linarith
  have nonneg: "0 \<le> cl" "0 \<le> ob" "0 \<le> A" "0 \<le> Mb"
    by (simp_all add: cl_def ob_def A_def Mb_def)
  have mo_b': "mo \<le> cl + cl / 2 ^ 53 + h + ob" using mo_b m_b unfolding ob_def by linarith
  have "mo / 2 ^ 53 \<le> (cl + cl / 2 ^ 53 + h + ob) / 2 ^ 53"
    by (rule divide_right_mono [OF mo_b']) simp
  with d_b mo_b' have d_b': "\<bar>d\<bar>
      \<le> (cl + cl / 2 ^ 53 + h + ob) + (cl + cl / 2 ^ 53 + h + ob) / 2 ^ 53 + h"
    by linarith
  have A_b: "A \<le> 10 * ((cl + cl / 2 ^ 53 + h + ob) + (cl + cl / 2 ^ 53 + h + ob) / 2 ^ 53 + h)"
    unfolding A_def by (rule order_trans [OF a_b mult_left_mono [OF d_b']]) simp
  have Mb_b: "Mb \<le> 10 * (cl + cl / 2 ^ 53 + h)"
    unfolding Mb_def Mn_def by (rule order_trans [OF mN_b mult_left_mono [OF m_b]]) simp
  have "E4 + E5 + E6 + E7 + E1 \<le> (cl + ob) / 2 ^ 46 + 64 * h"
    using h nonneg A_b Mb_b E4_def E5_def E6_def E7_def E1_def
    by (simp add: add_divide_distrib distrib_left)
  moreover have "64 * h = 1 / 2 ^ 1069"
  proof -
    have "(2::real) ^ 1075 = 2 ^ 6 * 2 ^ 1069" by (simp only: power_add [symmetric]) simp
    then show ?thesis by (simp add: h_def)
  qed
  ultimately have "\<bar>af - bf\<bar> \<le> (cl + ob) / 2 ^ 46 + 1 / 2 ^ 1069"
    using total by linarith
  then show ?thesis
    unfolding af_def bf_def dd_def d_def cl_def ob_def .
qed

text \<open>
  The exact results that these operations round stay within \<open>2 ^ 16\<close> times the
  magnitude of the inputs, so that inputs up to \<open>2 ^ 900\<close> keep them below \<open>2 ^ 916\<close>,
  far inside the finite range.
\<close>

lemma fl_abs_le:
  assumes "\<bar>x\<bar> \<le> B" and "1 \<le> B"
  shows "\<bar>fl x\<bar> \<le> 2 * B"
proof -
  have a: "\<bar>fl x\<bar> \<le> \<bar>x\<bar> + \<bar>x\<bar> / 2 ^ 53 + 1 / 2 ^ 1075" by (rule rounded_abs [OF fl_error])
  have "\<bar>x\<bar> / 2 ^ 53 \<le> \<bar>x\<bar> / 2 ^ 1"
    by (intro divide_left_mono power_increasing) simp_all
  then have b: "\<bar>x\<bar> / 2 ^ 53 \<le> B / 2" using assms(1) by simp
  have "(1::real) / 2 ^ 1075 \<le> 1 / 2 ^ 1"
    by (intro divide_left_mono power_increasing) simp_all
  then have c: "(1::real) / 2 ^ 1075 \<le> B / 2" using assms(2) by simp
  from a b c assms(1) show ?thesis by linarith
qed

lemma abs_div_tenth:
  fixes x t B :: real
  assumes "\<bar>x\<bar> \<le> B" and "1 / 10 \<le> t"
  shows "\<bar>x / t\<bar> \<le> 10 * B"
proof -
  have "\<bar>x\<bar> / t \<le> B / (1 / 10)" by (rule frac_le) (use assms in simp_all)
  then have "\<bar>x\<bar> / t \<le> 10 * B" by simp
  moreover have "0 < t" using assms(2) by linarith
  then have "\<bar>x / t\<bar> = \<bar>x\<bar> / t" by (simp only: abs_divide abs_of_pos)
  ultimately show ?thesis by linarith
qed

lemma anchor_finite:
  fixes c l o' s ns B :: real
  assumes s: "1 / 10 \<le> s" "s \<le> 5" and ns: "1 / 10 \<le> ns" "ns \<le> 5"
    and B: "1 \<le> B" and c: "\<bar>c - l\<bar> \<le> B" and o: "\<bar>o'\<bar> \<le> B"
  defines "m \<equiv> fl (c - l)"
  defines "d \<equiv> fl (m - o')"
  defines "ratio \<equiv> fl (ns / s)"
  defines "p \<equiv> fl (d * ratio)"
  defines "nox \<equiv> fl (m - p)"
  defines "dd \<equiv> fl (m - nox)"
  shows "\<bar>m - o'\<bar> \<le> 2 ^ 16 * B \<and> \<bar>d / s\<bar> \<le> 2 ^ 16 * B \<and> \<bar>ns / s\<bar> \<le> 2 ^ 16 * B
       \<and> \<bar>d * ratio\<bar> \<le> 2 ^ 16 * B \<and> \<bar>m - p\<bar> \<le> 2 ^ 16 * B \<and> \<bar>m - nox\<bar> \<le> 2 ^ 16 * B
       \<and> \<bar>dd / ns\<bar> \<le> 2 ^ 16 * B"
proof -
  have spos: "0 < s" and nspos: "0 < ns" using s ns by simp_all
  have m: "\<bar>m\<bar> \<le> 2 * B" unfolding m_def by (rule fl_abs_le [OF c B])
  have mo: "\<bar>m - o'\<bar> \<le> 3 * B" using m o by linarith
  have d: "\<bar>d\<bar> \<le> 2 * (3 * B)" unfolding d_def by (rule fl_abs_le [OF mo]) (use B in linarith)
  have ds: "\<bar>d / s\<bar> \<le> 10 * (2 * (3 * B))" by (rule abs_div_tenth [OF d s(1)])
  have "ns / s \<le> 5 / (1 / 10)" by (rule frac_le) (use s ns in simp_all)
  moreover have "0 \<le> ns / s" using spos nspos by simp
  ultimately have r0: "\<bar>ns / s\<bar> \<le> 50" by simp
  have r: "\<bar>ratio\<bar> \<le> 2 * 50" unfolding ratio_def by (rule fl_abs_le [OF r0]) simp
  have "\<bar>d * ratio\<bar> = \<bar>d\<bar> * \<bar>ratio\<bar>" by (rule abs_mult)
  also have "\<dots> \<le> (2 * (3 * B)) * (2 * 50)" by (rule mult_mono [OF d r]) (use B in simp_all)
  finally have dr: "\<bar>d * ratio\<bar> \<le> 600 * B" by simp
  have p: "\<bar>p\<bar> \<le> 2 * (600 * B)" unfolding p_def by (rule fl_abs_le [OF dr]) (use B in linarith)
  have mp: "\<bar>m - p\<bar> \<le> 1202 * B" using m p by linarith
  have nox: "\<bar>nox\<bar> \<le> 2 * (1202 * B)" unfolding nox_def by (rule fl_abs_le [OF mp]) (use B in linarith)
  have mn: "\<bar>m - nox\<bar> \<le> 2406 * B" using m nox by linarith
  have dd: "\<bar>dd\<bar> \<le> 2 * (2406 * B)" unfolding dd_def by (rule fl_abs_le [OF mn]) (use B in linarith)
  have dn: "\<bar>dd / ns\<bar> \<le> 10 * (2 * (2406 * B))" by (rule abs_div_tenth [OF dd ns(1)])
  have r0': "\<bar>ns / s\<bar> \<le> 50 * B" using r0 B by linarith
  from mo ds r0' dr mp mn dn B show ?thesis by simp
qed

subsection \<open>The handler\<close>

lemma fl_tenth: "fl (1 / 10) = 3602879701896397 / 36028797018963968"
  by (simp add: fl_eval [where k = 56] roundHalfEven_def)

lemma handleWheel_scale:
  "scale (handleWheel (Some rect) e vt)
   = max (fl (1 / 10))
       (min 5 (fl (scale vt * (if deltaY e > 0 then fl (9 / 10) else fl (11 / 10)))))"
  by (simp add: handleWheel_def Let_def)

lemma handleWheel_scale_bounds:
  "1 / 10 \<le> scale (handleWheel (Some rect) e vt) \<and> scale (handleWheel (Some rect) e vt) \<le> 5"
  by (simp add: handleWheel_scale fl_tenth)

lemma handleWheel_offsetX:
  "offsetX (handleWheel (Some rect) e vt)
   = fl (fl (wheel_clientX e - rect_left rect)
         - fl (fl (fl (wheel_clientX e - rect_left rect) - offsetX vt)
               * fl (scale (handleWheel (Some rect) e vt) / scale vt)))"
  by (simp add: handleWheel_def Let_def)

lemma handleWheel_offsetY:
  "offsetY (handleWheel (Some rect) e vt)
   = fl (fl (wheel_clientY e - rect_top rect)
         - fl (fl (fl (wheel_clientY e - rect_top rect) - offsetY vt)
               * fl (scale (handleWheel (Some rect) e vt) / scale vt)))"
  by (simp add: handleWheel_def Let_def)

lemma screenToCanvas64_x:
  "pt_x (screenToCanvas64 (Some rect) vt sx sy)
   = fl (fl (fl (sx - rect_left rect) - offsetX vt) / scale vt)"
  by (simp add: screenToCanvas64_def)

lemma screenToCanvas64_y:
  "pt_y (screenToCanvas64 (Some rect) vt sx sy)
   = fl (fl (fl (sy - rect_top rect) - offsetY vt) / scale vt)"
  by (simp add: screenToCanvas64_def)

text \<open>
  Claim C1, as amended. For every cursor position and every view transform whose
  scale lies in [0.1, 5.0], one wheel-zoom step leaves the world point under the cursor
  where it was up to rounding: in each coordinate \<open>screenToCanvas64\<close> of the cursor after
  \<open>handleWheel\<close> differs from the one before by at most \<open>2 ^ -46\<close> times the sum of the
  cursor's distance from the canvas edge and the magnitude of the old offset, plus
  \<open>2 ^ -1069\<close>. The exact equality of the claim does not hold (see the example after the
  theorem); with a null canvas reference nothing changes. The new scale is the old one
  times 0.9 or 1.1, rounded and clamped to [0.1, 5]. The bounds \<open>2 ^ 900\<close> keep every
  intermediate result inside the finite range of binary64 (\<open>anchor_finite\<close>).
\<close>

theorem C1_zoom_anchor_invariance:
  fixes rect :: DOMRect and e :: WheelEvent and vt :: ViewTransform
  assumes "1 / 10 \<le> scale vt" and "scale vt \<le> 5"
    and "\<bar>wheel_clientX e - rect_left rect\<bar> \<le> 2 ^ 900" and "\<bar>offsetX vt\<bar> \<le> 2 ^ 900"
    and "\<bar>wheel_clientY e - rect_top rect\<bar> \<le> 2 ^ 900" and "\<bar>offsetY vt\<bar> \<le> 2 ^ 900"
  defines "cx \<equiv> wheel_clientX e" and "cy \<equiv> wheel_clientY e"
  defines "before \<equiv> screenToCanvas64 (Some rect) vt cx cy"
    and "after \<equiv> screenToCanvas64 (Some rect) (handleWheel (Some rect) e vt) cx cy"
  shows "\<bar>pt_x after - pt_x before\<bar>
           \<le> (\<bar>cx - rect_left rect\<bar> + \<bar>offsetX vt\<bar>) / 2 ^ 46 + 1 / 2 ^ 1069
       \<and> \<bar>pt_y after - pt_y before\<bar>
           \<le> (\<bar>cy - rect_top rect\<bar> + \<bar>offsetY vt\<bar>) / 2 ^ 46 + 1 / 2 ^ 1069
       \<and> screenToCanvas64 None (handleWheel None e vt) cx cy = screenToCanvas64 None vt cx cy
       \<and> scale (handleWheel (Some rect) e vt)
           = max (fl (1 / 10))
               (min 5 (fl (scale vt * (if deltaY e > 0 then fl (9 / 10) else fl (11 / 10)))))"
proof -
  define ns where "ns = scale (handleWheel (Some rect) e vt)"
  have ns: "1 / 10 \<le> ns" "ns \<le> 5"
    using handleWheel_scale_bounds [of rect e vt] by (simp_all add: ns_def)
  have x: "\<bar>pt_x after - pt_x before\<bar>
      \<le> (\<bar>cx - rect_left rect\<bar> + \<bar>offsetX vt\<bar>) / 2 ^ 46 + 1 / 2 ^ 1069"
    using anchor_error [OF assms(1,2) ns, of cx "rect_left rect" "offsetX vt"]
    by (simp only: after_def before_def screenToCanvas64_x handleWheel_offsetX
        ns_def [symmetric] cx_def [symmetric])
  have y: "\<bar>pt_y after - pt_y before\<bar>
      \<le> (\<bar>cy - rect_top rect\<bar> + \<bar>offsetY vt\<bar>) / 2 ^ 46 + 1 / 2 ^ 1069"
    using anchor_error [OF assms(1,2) ns, of cy "rect_top rect" "offsetY vt"]
    by (simp only: after_def before_def screenToCanvas64_y handleWheel_offsetY
        ns_def [symmetric] cy_def [symmetric])
  have none: "screenToCanvas64 None (handleWheel None e vt) cx cy
      = screenToCanvas64 None vt cx cy"
    by (simp add: screenToCanvas64_def)
  from x y none handleWheel_scale [of rect e vt] show ?thesis
    by (intro conjI)
qed

theorem C1_zoom_anchor_invariance_witness:
  "1 / 10 \<le> scale \<lparr>scale = 1, offsetX = 10, offsetY = 20\<rparr>
   \<and> scale \<lparr>scale = 1, offsetX = 10, offsetY = 20\<rparr> \<le> 5
   \<and> \<bar>100 - rect_left \<lparr>rect_left = 0, rect_top = 0\<rparr>\<bar> \<le> (2::real) ^ 900
   \<and> \<bar>50 - rect_top \<lparr>rect_left = 0, rect_top = 0\<rparr>\<bar> \<le> (2::real) ^ 900
   \<and> \<bar>offsetX \<lparr>scale = 1, offsetX = 10, offsetY = 20\<rparr>\<bar> \<le> 2 ^ 900
   \<and> \<bar>offsetY \<lparr>scale = 1, offsetX = 10, offsetY = 20\<rparr>\<bar> \<le> 2 ^ 900
   \<and> \<bar>pt_x (screenToCanvas64 (Some \<lparr>rect_left = 0, rect_top = 0\<rparr>)
           (handleWheel (Some \<lparr>rect_left = 0, rect_top = 0\<rparr>)
              \<lparr>deltaY = - 1, wheel_clientX = 100, wheel_clientY = 50\<rparr>
              \<lparr>scale = 1, offsetX = 10, offsetY = 20\<rparr>) 100 50)
        - pt_x (screenToCanvas64 (Some \<lparr>rect_left = 0, rect_top = 0\<rparr>)
           \<lparr>scale = 1, offsetX = 10, offsetY = 20\<rparr> 100 50)\<bar>
      \<le> 110 / 2 ^ 46 + 1 / 2 ^ 1069
   \<and> \<bar>pt_y (screenToCanvas64 (Some \<lparr>rect_left = 0, rect_top = 0\<rparr>)
           (handleWheel (Some \<lparr>rect_left = 0, rect_top = 0\<rparr>)
              \<lparr>deltaY = - 1, wheel_clientX = 100, wheel_clientY = 50\<rparr>
              \<lparr>scale = 1, offsetX = 10, offsetY = 20\<rparr>) 100 50)
        - pt_y (screenToCanvas64 (Some \<lparr>rect_left = 0, rect_top = 0\<rparr>)
           \<lparr>scale = 1, offsetX = 10, offsetY = 20\<rparr> 100 50)\<bar>
      \<le> 70 / 2 ^ 46 + 1 / 2 ^ 1069"
  using C1_zoom_anchor_invariance
    [where vt = "\<lparr>scale = 1, offsetX = 10, offsetY = 20\<rparr>"
       and e = "\<lparr>deltaY = - 1, wheel_clientX = 100, wheel_clientY = 50\<rparr>"
       and rect = "\<lparr>rect_left = 0, rect_top = 0\<rparr>"]
  by simp

text \<open>
  The exact equality fails already for a canvas at the origin, the view transform
  \<open>(scale 1, offset (10, 20))\<close> and a zoom-in step at the cursor \<open>(100, 50)\<close>: the new
  scale is the binary64 number nearest to 1.1, the product \<open>30 * 1.1\<close> rounds to 33, the
  new vertical offset is 17, and \<open>33 / 1.1\<close> rounds to the binary64 number below 30. The
  world point under the cursor has the ordinate 30 before the step and
  \<open>30 - 2 ^ -48\<close> (29.999999999999996) after it.
\<close>

theorem C1_exact_equality_counterexample:
  "pt_y (screenToCanvas64 (Some \<lparr>rect_left = 0, rect_top = 0\<rparr>)
           \<lparr>scale = 1, offsetX = 10, offsetY = 20\<rparr> 100 50) = 30
   \<and> pt_y (screenToCanvas64 (Some \<lparr>rect_left = 0, rect_top = 0\<rparr>)
           (handleWheel (Some \<lparr>rect_left = 0, rect_top = 0\<rparr>)
              \<lparr>deltaY = - 1, wheel_clientX = 100, wheel_clientY = 50\<rparr>
              \<lparr>scale = 1, offsetX = 10, offsetY = 20\<rparr>) 100 50)
     = 30 - 1 / 2 ^ 48
   \<and> screenToCanvas64 (Some \<lparr>rect_left = 0, rect_top = 0\<rparr>)
         (handleWheel (Some \<lparr>rect_left = 0, rect_top = 0\<rparr>)
            \<lparr>deltaY = - 1, wheel_clientX = 100, wheel_clientY = 50\<rparr>
            \<lparr>scale = 1, offsetX = 10, offsetY = 20\<rparr>) 100 50
     \<noteq> screenToCanvas64 (Some \<lparr>rect_left = 0, rect_top = 0\<rparr>)
         \<lparr>scale = 1, offsetX = 10, offsetY = 20\<rparr> 100 50"
proof -
  define before where "before = screenToCanvas64 (Some \<lparr>rect_left = 0, rect_top = 0\<rparr>)
    \<lparr>scale = 1, offsetX = 10, offsetY = 20\<rparr> 100 50"
  define after where "after = screenToCanvas64 (Some \<lparr>rect_left = 0, rect_top = 0\<rparr>)
    (handleWheel (Some \<lparr>rect_left = 0, rect_top = 0\<rparr>)
       \<lparr>deltaY = - 1, wheel_clientX = 100, wheel_clientY = 50\<rparr>
       \<lparr>scale = 1, offsetX = 10, offsetY = 20\<rparr>) 100 50"
  have b: "pt_y before = 30"
    unfolding before_def
    by (simp add: screenToCanvas64_y fl_eval [where k = 47] fl_eval [where k = 48])
  have a: "pt_y after = 30 - 1 / 2 ^ 48"
    unfolding after_def
    by (simp add: screenToCanvas64_y handleWheel_offsetY handleWheel_scale
        fl_eval [where k = 47] fl_eval [where k = 48] fl_eval [where k = 52]
        fl_eval [where k = 56] roundHalfEven_def)
  have "pt_y after \<noteq> pt_y before" unfolding a b by simp
  then have "after \<noteq> before" by auto
  with a b show ?thesis unfolding before_def after_def by simp
qed

section \<open>Derived centimetre fields\<close>

lemma applyUpdates_Line:
  "is_Line (kind e) \<Longrightarrow> is_Line (kind (applyUpdates e u))"
  by (cases "kind e") (simp_all add: applyUpdates_def)

lemma recomputeCm_Line:
  assumes "is_Line (kind e)"
  shows "is_Line (kind (recomputeCm ppc e))"
    and "el_x (recomputeCm ppc e) = el_x e"
    and "el_y (recomputeCm ppc e) = el_y e"
    and "endX (kind (recomputeCm ppc e)) = endX (kind e)"
    and "endY (kind (recomputeCm ppc e)) = endY (kind e)"
    and "lengthCm (kind (recomputeCm ppc e))
         = sqrt ((endX (kind e) - el_x e)\<^sup>2 + (endY (kind e) - el_y e)\<^sup>2) / ppc"
  using assms
  by (cases "kind e"; simp add: recomputeCm_def Let_def power2_eq_square)+

text \<open>The cached length of a Line agrees with its end points.\<close>

definition lengthCmFresh :: "real \<Rightarrow> CanvasElement \<Rightarrow> bool" where
  "lengthCmFresh ppc e =
     (is_Line (kind e) \<and>
      lengthCm (kind e) = sqrt ((endX (kind e) - el_x e)\<^sup>2 + (endY (kind e) - el_y e)\<^sup>2) / ppc)"

lemma updated_Line_lengthCm:
  "is_Line (kind e) \<Longrightarrow> lengthCmFresh ppc (recomputeCm ppc (applyUpdates e u))"
  using recomputeCm_Line [OF applyUpdates_Line, of e ppc u]
  by (simp add: lengthCmFresh_def)

lemma updateElement_nth:
  assumes "\<not> noCurrentProject cur" and "i < length projs"
    and "Some (p_id (projs ! i)) = cur" and "j < length (elements (projs ! i))"
  shows "elements (updateElement cur eid upd projs ! i) ! j
         = (if el_id (elements (projs ! i) ! j) \<noteq> eid then elements (projs ! i) ! j
            else recomputeCm (pixelsPerCm (projs ! i))
                   (applyUpdates (elements (projs ! i) ! j) upd))"
  using assms by (simp add: updateElement_def)

lemma updateMultipleElements_nth:
  assumes "\<not> noCurrentProject cur" and "i < length projs"
    and "Some (p_id (projs ! i)) = cur" and "j < length (elements (projs ! i))"
  shows "elements (updateMultipleElements cur eids upd projs ! i) ! j
         = (if el_id (elements (projs ! i) ! j) \<notin> set eids then elements (projs ! i) ! j
            else recomputeCm (pixelsPerCm (projs ! i))
                   (applyUpdates (elements (projs ! i) ! j) upd))"
  using assms by (simp add: updateMultipleElements_def)

text \<open>
  Claim C3. For every Line element of the current project, every partial update and every
  positive \<open>pixelsPerCm\<close>, the element that \<open>updateElement\<close> (and likewise
  \<open>updateMultipleElements\<close>) leaves in the Line's place is a Line whose \<open>lengthCm\<close> equals
  \<open>sqrt ((endX - x)\<^sup>2 + (endY - y)\<^sup>2) / pixelsPerCm\<close> of its own, updated, end points: the
  cached field is recomputed, whatever the update wrote into it.
\<close>

theorem C3_lengthCm_recomputed:
  assumes "\<not> noCurrentProject cur"
    and "i < length projs" and "Some (p_id (projs ! i)) = cur"
    and "0 < pixelsPerCm (projs ! i)"
    and "j < length (elements (projs ! i))"
    and "is_Line (kind (elements (projs ! i) ! j))"
  shows "(el_id (elements (projs ! i) ! j) = eid \<longrightarrow>
            lengthCmFresh (pixelsPerCm (projs ! i))
              (elements (updateElement cur eid upd projs ! i) ! j)) \<and>
         (el_id (elements (projs ! i) ! j) \<in> set eids \<longrightarrow>
            lengthCmFresh (pixelsPerCm (projs ! i))
              (elements (updateMultipleElements cur eids upd projs ! i) ! j))"
  using assms updated_Line_lengthCm
  by (simp add: updateElement_nth updateMultipleElements_nth)

text \<open>
  A Line from (0,0) to (10,0) with a stale \<open>lengthCm\<close> of 999 in a project with 10 pixels
  per centimetre; the update moves its end point to (30,40), and the cached length
  becomes 5.
\<close>

definition staleLine :: CanvasElement where
  "staleLine =
     \<lparr>el_id = ''a'', el_x = 0, el_y = 0, el_color = ''#000000'', fillColor = ''#f5f5f5'',
      opacity = None, strokeWidth = 10, hideDimensions = None, rotation = None,
      el_text = None, locked = None, kind = Line 10 0 999\<rparr>"

definition staleProject :: Project where
  "staleProject =
     \<lparr>p_id = ''p1'', elements = [staleLine], pixelsPerCm = 10, p_viewTransform = None\<rparr>"

lemma sqrt_2500: "sqrt 2500 = 50"
  using real_sqrt_abs [of 50] by simp

theorem C3_lengthCm_recomputed_witness:
  "kind (elements (updateElement (Some ''p1'') ''a''
           (noUpdates\<lparr>u_endX := Some 30, u_endY := Some 40\<rparr>) [staleProject] ! 0) ! 0)
     = Line 30 40 5 \<and>
   lengthCmFresh 10 (elements (updateElement (Some ''p1'') ''a''
           (noUpdates\<lparr>u_endX := Some 30, u_endY := Some 40\<rparr>) [staleProject] ! 0) ! 0) \<and>
   lengthCmFresh 10 (elements (updateMultipleElements (Some ''p1'') [''a'']
           (noUpdates\<lparr>u_endX := Some 30, u_endY := Some 40\<rparr>) [staleProject] ! 0) ! 0)"
  using C3_lengthCm_recomputed
    [of "Some ''p1''" 0 "[staleProject]" 0 "''a''"
        "noUpdates\<lparr>u_endX := Some 30, u_endY := Some 40\<rparr>" "[''a'']"]
  by (simp add: noCurrentProject_def staleProject_def staleLine_def updateElement_def
      applyUpdates_def recomputeCm_def noUpdates_def spread_def sqrt_2500)

section \<open>Snapping to a single Line\<close>

lemma distance_to_x_axis_segment:
  assumes "0 < len"
  shows "pointToLineDistance qx qy 0 0 len 0
         = (if qx < 0 then sqrt (qx * qx + qy * qy)
            else if len < qx then sqrt ((qx - len) * (qx - len) + qy * qy)
            else \<bar>qy\<bar>)"
    and "getClosestPointOnLine qx qy 0 0 len 0
         = (if qx < 0 then \<lparr>pt_x = 0, pt_y = 0\<rparr>
            else if len < qx then \<lparr>pt_x = len, pt_y = 0\<rparr>
            else \<lparr>pt_x = qx, pt_y = 0\<rparr>)"
proof -
  have param: "(qx * len) / (len * len) = qx / len"
    using assms by simp
  have neg: "qx / len < 0 \<longleftrightarrow> qx < 0"
    using assms by (simp add: divide_less_0_iff)
  have big: "1 < qx / len \<longleftrightarrow> len < qx"
    using assms by simp
  have cancel: "qx / len * len = qx"
    using assms by simp
  show "pointToLineDistance qx qy 0 0 len 0
         = (if qx < 0 then sqrt (qx * qx + qy * qy)
            else if len < qx then sqrt ((qx - len) * (qx - len) + qy * qy)
            else \<bar>qy\<bar>)"
    using assms by (simp add: pointToLineDistance_def Let_def neg big cancel)
  show "getClosestPointOnLine qx qy 0 0 len 0
         = (if qx < 0 then \<lparr>pt_x = 0, pt_y = 0\<rparr>
            else if len < qx then \<lparr>pt_x = len, pt_y = 0\<rparr>
            else \<lparr>pt_x = qx, pt_y = 0\<rparr>)"
    using assms by (simp add: getClosestPointOnLine_def Let_def neg big cancel)
qed

lemma snap_single_line:
  assumes "scale vt = 1" and "el_x e = 0" and "el_y e = 0" and "kind e = Line 100 0 l"
  shows "findNearestLineOrWall vt [e] \<lparr>pt_x = qx, pt_y = qy\<rparr>
         = (let dist = pointToLineDistance qx qy 0 0 100 0;
                cp = getClosestPointOnLine qx qy 0 0 100 0
            in if dist < 30 then
                 \<lparr>snap_x = pt_x cp, snap_y = pt_y cp, snap_rotation = 0,
                  snap_distance = Finite dist, snap_attachedToLine = Some (el_id e),
                  snap_attachedToRectangle = None, snap_attachmentSide = None\<rparr>
               else
                 \<lparr>snap_x = qx, snap_y = qy, snap_rotation = 0,
                  snap_distance = Infinity, snap_attachedToLine = None,
                  snap_attachedToRectangle = None, snap_attachmentSide = None\<rparr>)"
  using assms
  by (simp add: findNearestLineOrWall_def snapToElement_def snapToSegment_def Let_def
      atan2_def)

text \<open>
  Claim C2, as amended. With view scale 1 and an element list of exactly one Line from
  (0,0) to (100,0): the query (50,5) returns point (50,0), rotation 0, distance 5 and the
  Line's id as attachment; a query (qx,0) beyond the segment's end and less than the snap
  threshold 30 away (100 < qx < 130) returns the clamped end point (100,0); a query
  (qx,0) with 130 \<le> qx, such as (150,0), is not snapped: the input point comes back with
  rotation 0, distance Infinity and no attachment.
\<close>

theorem C2_snap_single_line:
  assumes "scale vt = 1" and "el_x e = 0" and "el_y e = 0" and "kind e = Line 100 0 l"
  shows "findNearestLineOrWall vt [e] \<lparr>pt_x = 50, pt_y = 5\<rparr>
           = \<lparr>snap_x = 50, snap_y = 0, snap_rotation = 0, snap_distance = Finite 5,
              snap_attachedToLine = Some (el_id e), snap_attachedToRectangle = None,
              snap_attachmentSide = None\<rparr> \<and>
         (100 < qx \<and> qx < 130 \<longrightarrow>
            findNearestLineOrWall vt [e] \<lparr>pt_x = qx, pt_y = 0\<rparr>
              = \<lparr>snap_x = 100, snap_y = 0, snap_rotation = 0,
                 snap_distance = Finite (qx - 100),
                 snap_attachedToLine = Some (el_id e), snap_attachedToRectangle = None,
                 snap_attachmentSide = None\<rparr>) \<and>
         (130 \<le> qx \<longrightarrow>
            findNearestLineOrWall vt [e] \<lparr>pt_x = qx, pt_y = 0\<rparr>
              = \<lparr>snap_x = qx, snap_y = 0, snap_rotation = 0, snap_distance = Infinity,
                 snap_attachedToLine = None, snap_attachedToRectangle = None,
                 snap_attachmentSide = None\<rparr>)"
proof -
  have far: "sqrt ((qx - 100) * (qx - 100)) = qx - 100" if "100 < qx"
    using that by simp
  show ?thesis
    using far
    by (simp add: snap_single_line [OF assms] distance_to_x_axis_segment Let_def)
qed

text \<open>The Line of the claim, and the view transform with scale 1.\<close>

definition wallLine :: CanvasElement where
  "wallLine =
     \<lparr>el_id = ''wall'', el_x = 0, el_y = 0, el_color = ''#000000'',
      fillColor = ''#f5f5f5'', opacity = None, strokeWidth = 10, hideDimensions = None,
      rotation = None, el_text = None, locked = None, kind = Line 100 0 10\<rparr>"

definition unitView :: ViewTransform where
  "unitView = \<lparr>scale = 1, offsetX = 0, offsetY = 0\<rparr>"

theorem C2_snap_single_line_witness:
  "findNearestLineOrWall unitView [wallLine] \<lparr>pt_x = 50, pt_y = 5\<rparr>
     = \<lparr>snap_x = 50, snap_y = 0, snap_rotation = 0, snap_distance = Finite 5,
        snap_attachedToLine = Some ''wall'', snap_attachedToRectangle = None,
        snap_attachmentSide = None\<rparr> \<and>
   findNearestLineOrWall unitView [wallLine] \<lparr>pt_x = 120, pt_y = 0\<rparr>
     = \<lparr>snap_x = 100, snap_y = 0, snap_rotation = 0, snap_distance = Finite 20,
        snap_attachedToLine = Some ''wall'', snap_attachedToRectangle = None,
        snap_attachmentSide = None\<rparr>"
  using C2_snap_single_line [of unitView wallLine 10 120]
  by (simp add: unitView_def wallLine_def)

text \<open>
  The claim as stated fails at its second query: (150,0) is 50 away from the segment,
  the threshold is 30, and the result is the input point, not the end point (100,0).
\<close>

theorem C2_beyond_threshold_counterexample:
  "findNearestLineOrWall unitView [wallLine] \<lparr>pt_x = 150, pt_y = 0\<rparr>
     = \<lparr>snap_x = 150, snap_y = 0, snap_rotation = 0, snap_distance = Infinity,
        snap_attachedToLine = None, snap_attachedToRectangle = None,
        snap_attachmentSide = None\<rparr> \<and>
   snap_x (findNearestLineOrWall unitView [wallLine] \<lparr>pt_x = 150, pt_y = 0\<rparr>) \<noteq> 100"
proof -
  have "sqrt ((150 - 100) * (150 - 100)) = (50::real)"
    using real_sqrt_abs2 [of 50] by simp
  then have "pointToLineDistance 150 0 0 0 100 0 = 50"
    by (simp add: distance_to_x_axis_segment)
  then show ?thesis
    using snap_single_line [of unitView wallLine 10 150 0]
    by (simp add: unitView_def wallLine_def Let_def)
qed

section \<open>Hit testing a Door\<close>

lemma findElementAt_single:
  "findElementAt vt [e] px py = (if isMatch vt px py e then Some e else None)"
  by (simp add: findElementAt_def)

lemma distance_in_band:
  assumes "0 \<le> lx" and "lx \<le> w"
  shows "pointToLineDistance lx ly 0 0 w 0 = \<bar>ly\<bar>"
proof (cases "w = 0")
  case True
  then show ?thesis using assms by (simp add: pointToLineDistance_def)
next
  case False
  then have "0 < w" using assms by simp
  then show ?thesis using assms by (simp add: distance_to_x_axis_segment)
qed

text \<open>
  Claim C5, as amended. For a Door and a query point, let \<open>(localX, localY)\<close> be the point
  in the door's unrotated local frame (hinge at the origin, leaf along the x axis).
  The loop of \<open>findElementAt\<close> matches the door, and \<open>findElementAt\<close> over the door
  alone returns it, exactly when the point is in the band
  \<open>\<bar>localY\<bar> \<le> 5 / scale\<close>, \<open>0 \<le> localX \<le> width\<close> along the leaf, or within
  \<open>5 / scale\<close> of the arc-end segment from \<open>(width, 0)\<close> to
  \<open>(width + width * cos 30\<degree>, width * sin 30\<degree>)\<close>. The tolerance is 5, not 10, pixels on
  screen; every hit is within \<open>5 / scale\<close> of the leaf segment or of the arc-end segment.
\<close>

theorem C5_door_hit_test:
  fixes d :: CanvasElement and px py w :: real
  assumes "kind d = Door w al ar sd"
  defines "localX \<equiv> (px - el_x d) * cos (rotationOr0 d) + (py - el_y d) * sin (rotationOr0 d)"
    and "localY \<equiv> - (px - el_x d) * sin (rotationOr0 d) + (py - el_y d) * cos (rotationOr0 d)"
  defines "arcDist \<equiv>
      pointToLineDistance localX localY w 0 (w + w * (sqrt 3 / 2)) (w * (1 / 2))"
  shows "(isMatch vt px py d \<longleftrightarrow>
            (\<bar>localY\<bar> \<le> 5 / scale vt \<and> 0 \<le> localX \<and> localX \<le> w) \<or>
            arcDist \<le> 5 / scale vt) \<and>
         (findElementAt vt [d] px py = Some d \<longleftrightarrow>
            (\<bar>localY\<bar> \<le> 5 / scale vt \<and> 0 \<le> localX \<and> localX \<le> w) \<or>
            arcDist \<le> 5 / scale vt) \<and>
         (findElementAt vt [d] px py = Some d \<longrightarrow>
            pointToLineDistance localX localY 0 0 w 0 \<le> 5 / scale vt \<or>
            arcDist \<le> 5 / scale vt)"
proof -
  have hit: "isMatch vt px py d \<longleftrightarrow>
      (\<bar>localY\<bar> \<le> 5 / scale vt \<and> 0 \<le> localX \<and> localX \<le> w) \<or> arcDist \<le> 5 / scale vt"
  proof -
    have "(el_x d - px) * sin (rotationOr0 d) + (py - el_y d) * cos (rotationOr0 d)
          = (py - el_y d) * cos (rotationOr0 d) - (px - el_x d) * sin (rotationOr0 d)"
      by (simp add: algebra_simps)
    then show ?thesis
      using assms(1)
      by (simp add: isMatch_def Let_def localX_def localY_def arcDist_def cos_30 sin_30)
  qed
  have "pointToLineDistance localX localY 0 0 w 0 \<le> 5 / scale vt"
    if "\<bar>localY\<bar> \<le> 5 / scale vt" and "0 \<le> localX" and "localX \<le> w"
    using that by (simp add: distance_in_band)
  with hit show ?thesis
    by (auto simp add: findElementAt_single)
qed

text \<open>A Door hinged at the origin, unrotated, with an opening of 100.\<close>

definition hingedDoor :: CanvasElement where
  "hingedDoor =
     \<lparr>el_id = ''door'', el_x = 0, el_y = 0, el_color = ''#000000'',
      fillColor = ''#f5f5f5'', opacity = None, strokeWidth = 10, hideDimensions = None,
      rotation = None, el_text = None, locked = None, kind = Door 100 None None None\<rparr>"

theorem C5_door_hit_test_witness:
  "findElementAt unitView [hingedDoor] 50 3 = Some hingedDoor"
  using C5_door_hit_test [of hingedDoor 100 None None None unitView 50 3]
  by (simp add: hingedDoor_def unitView_def rotationOr0_def)

lemma distance_before_start:
  assumes "(px - x1) * (x2 - x1) + (py - y1) * (y2 - y1) < 0"
  shows "pointToLineDistance px py x1 y1 x2 y2
         = sqrt ((px - x1) * (px - x1) + (py - y1) * (py - y1))"
proof -
  have "\<not> (x2 - x1 = 0 \<and> y2 - y1 = 0)"
    using assms by auto
  then have nz: "(x2 - x1) * (x2 - x1) + (y2 - y1) * (y2 - y1) \<noteq> 0"
    by (simp only: sum_squares_eq_zero_iff not_False_eq_True)
  moreover have "0 \<le> (x2 - x1) * (x2 - x1) + (y2 - y1) * (y2 - y1)"
    by simp
  ultimately have "0 < (x2 - x1) * (x2 - x1) + (y2 - y1) * (y2 - y1)"
    by linarith
  then have "((px - x1) * (x2 - x1) + (py - y1) * (y2 - y1))
             / ((x2 - x1) * (x2 - x1) + (y2 - y1) * (y2 - y1)) < 0"
    using assms by (simp only: divide_less_0_iff) simp
  with nz show ?thesis
    by (simp only: pointToLineDistance_def Let_def if_True if_False not_False_eq_True)
qed

text \<open>
  The claim as stated fails at scale 1 for the point (50,8): it is 8 away from the leaf
  segment, within the claimed tolerance of 10, and the door is not hit.
\<close>

theorem C5_tolerance_counterexample:
  "pointToLineDistance 50 8 0 0 100 0 \<le> 10 / scale unitView \<and>
   findElementAt unitView [hingedDoor] 50 8 = None"
proof -
  have leaf: "pointToLineDistance 50 8 0 0 100 0 = 8"
    by (simp add: distance_to_x_axis_segment)
  have "1 < sqrt 3" by simp
  then have "4 < 25 * sqrt 3"
    by linarith
  then have "(50 - 100) * (100 + 100 * (sqrt 3 / 2) - 100) + (8 - 0) * (100 * (1 / 2) - 0) < 0"
    by simp
  then have "pointToLineDistance 50 8 100 0 (100 + 100 * (sqrt 3 / 2)) (100 * (1 / 2))
             = sqrt ((50 - 100) * (50 - 100) + (8 - 0) * (8 - 0))"
    by (rule distance_before_start)
  moreover have "5 < sqrt ((50 - 100) * (50 - 100) + (8 - 0) * (8 - 0))"
    by (rule real_less_rsqrt) simp
  ultimately have arc: "\<not> pointToLineDistance 50 8 100 0 (100 + 100 * (sqrt 3 / 2)) (100 * (1 / 2)) \<le> 5"
    by simp
  have "\<not> isMatch unitView 50 8 hingedDoor"
    using arc
    by (simp add: isMatch_def hingedDoor_def unitView_def rotationOr0_def Let_def cos_30 sin_30)
  with leaf show ?thesis
    by (simp add: findElementAt_single unitView_def)
qed

section \<open>Update calls and the elements on the canvas\<close>

text \<open>What \<open>updateElement\<close> does to one element of the current project.\<close>

definition updateOne :: "real \<Rightarrow> string \<Rightarrow> ElementUpdates \<Rightarrow> CanvasElement \<Rightarrow> CanvasElement" where
  "updateOne ppc i u e = (if el_id e \<noteq> i then e else recomputeCm ppc (applyUpdates e u))"

text \<open>A list of \<open>updateElement\<close> calls, run in order on one element.\<close>

fun updateAll :: "real \<Rightarrow> Callback list \<Rightarrow> CanvasElement \<Rightarrow> CanvasElement" where
  "updateAll ppc [] e = e"
| "updateAll ppc (UpdateElement i u b # calls) e = updateAll ppc calls (updateOne ppc i u e)"
| "updateAll ppc (other # calls) e = updateAll ppc calls e"

fun isUpdateCall :: "Callback \<Rightarrow> bool" where
  "isUpdateCall (UpdateElement i u b) = True"
| "isUpdateCall other = False"

lemma find_map_same:
  assumes "\<And>x. P (f x) = P x"
  shows "find P (map f xs) = map_option f (find P xs)"
  using assms by (induction xs) simp_all

lemma updateElement_current:
  assumes "\<not> noCurrentProject cur"
  shows "find (\<lambda>p. Some (p_id p) = cur) (updateElement cur i u ps)
         = map_option
             (\<lambda>p. p\<lparr>elements := map (updateOne (pixelsPerCm p) i u) (elements p)\<rparr>)
             (find (\<lambda>p. Some (p_id p) = cur) ps)"
proof -
  let ?f = "\<lambda>p. if Some (p_id p) \<noteq> cur then p
                 else p\<lparr>elements :=
                          map (\<lambda>e. if el_id e \<noteq> i then e
                                   else recomputeCm (pixelsPerCm p) (applyUpdates e u))
                            (elements p)\<rparr>"
  have same: "\<And>p. (Some (p_id (?f p)) = cur) = (Some (p_id p) = cur)"
    by simp
  have "find (\<lambda>p. Some (p_id p) = cur) (map ?f ps)
        = map_option ?f (find (\<lambda>p. Some (p_id p) = cur) ps)"
    using same by (rule find_map_same)
  moreover have "map_option ?f (find (\<lambda>p. Some (p_id p) = cur) ps)
        = map_option
             (\<lambda>p. p\<lparr>elements := map (updateOne (pixelsPerCm p) i u) (elements p)\<rparr>)
             (find (\<lambda>p. Some (p_id p) = cur) ps)"
  proof (cases "find (\<lambda>p. Some (p_id p) = cur) ps")
    case None
    then show ?thesis by simp
  next
    case (Some p)
    then have "Some (p_id p) = cur"
      by (auto simp add: find_Some_iff)
    with Some show ?thesis
      by (simp add: updateOne_def [abs_def])
  qed
  ultimately show ?thesis
    using assms by (simp add: updateElement_def)
qed

lemma propsOf_update:
  assumes "propsOf app = Some props"
    and "currentProjectId rendered = currentProjectId app"
  shows "propsOf (dispatch rendered app (UpdateElement i u b))
         = Some (props\<lparr>project :=
                    (project props)\<lparr>elements :=
                       map (updateOne (pixelsPerCm (project props)) i u)
                         (elements (project props))\<rparr>\<rparr>)"
proof -
  have cur: "\<not> noCurrentProject (currentProjectId app)"
    using assms(1) by (auto simp add: propsOf_def split: if_splits)
  obtain p where p: "find (\<lambda>p. Some (p_id p) = currentProjectId app) (projects app) = Some p"
    and props: "props = \<lparr>project = p, selectedElementIds = app_selectedElementIds app,
                         tool = app_tool app, theme = app_theme app\<rparr>"
    using assms(1) cur by (auto simp add: propsOf_def split: option.splits)
  show ?thesis
    using cur p props assms(2)
    by (simp add: propsOf_def updateElement_current)
qed

lemma propsOf_updates:
  assumes "propsOf app = Some props"
    and "currentProjectId rendered = currentProjectId app"
    and "\<forall>call \<in> set calls. isUpdateCall call"
  shows "propsOf (foldl (dispatch rendered) app calls)
         = Some (props\<lparr>project :=
                    (project props)\<lparr>elements :=
                       map (updateAll (pixelsPerCm (project props)) calls)
                         (elements (project props))\<rparr>\<rparr>)"
  using assms
proof (induction calls arbitrary: app props)
  case Nil
  then show ?case by simp
next
  case (Cons call calls)
  then obtain i u b where call: "call = UpdateElement i u b"
    by (cases call) simp_all
  let ?app = "dispatch rendered app call"
  let ?props = "props\<lparr>project :=
                    (project props)\<lparr>elements :=
                       map (updateOne (pixelsPerCm (project props)) i u)
                         (elements (project props))\<rparr>\<rparr>"
  have step: "propsOf ?app = Some ?props"
    unfolding call by (rule propsOf_update [OF Cons.prems(1,2)])
  have cur: "currentProjectId rendered = currentProjectId ?app"
    using Cons.prems(2) call by simp
  have "propsOf (foldl (dispatch rendered) ?app calls)
        = Some (?props\<lparr>project :=
                    (project ?props)\<lparr>elements :=
                       map (updateAll (pixelsPerCm (project ?props)) calls)
                         (elements (project ?props))\<rparr>\<rparr>)"
    using Cons.IH [OF step cur] Cons.prems(3) by simp
  then show ?case
    using call by (simp add: comp_def)
qed

lemma runHandler_updates:
  assumes "propsOf app = Some props"
    and "handler props st = (st', calls)"
    and "\<forall>call \<in> set calls. isUpdateCall call"
  shows "runHandler handler (app, st) = (foldl (dispatch app) app calls, st')"
    and "propsOf (fst (runHandler handler (app, st)))
         = Some (props\<lparr>project :=
                    (project props)\<lparr>elements :=
                       map (updateAll (pixelsPerCm (project props)) calls)
                         (elements (project props))\<rparr>\<rparr>)"
    and "canvasElements (fst (runHandler handler (app, st)))
         = map (updateAll (pixelsPerCm (project props)) calls) (elements (project props))"
proof -
  show run: "runHandler handler (app, st) = (foldl (dispatch app) app calls, st')"
    using assms(1,2) by (simp add: runHandler_def)
  show after: "propsOf (fst (runHandler handler (app, st)))
         = Some (props\<lparr>project :=
                    (project props)\<lparr>elements :=
                       map (updateAll (pixelsPerCm (project props)) calls)
                         (elements (project props))\<rparr>\<rparr>)"
    using run propsOf_updates [OF assms(1) refl assms(3)] by simp
  show "canvasElements (fst (runHandler handler (app, st)))
         = map (updateAll (pixelsPerCm (project props)) calls) (elements (project props))"
    using after by (simp add: canvasElements_def)
qed

section \<open>Scaling a Rectangle\<close>

lemma findById_id: "findById els i = Some e \<Longrightarrow> el_id e = i"
  by (auto simp add: findById_def find_Some_iff)

lemma handleIncludes_cases:
  "handleIncludes handle CHR ''w'' \<longleftrightarrow> handle \<in> {HandleW, HandleNW, HandleSW}"
  "handleIncludes handle CHR ''e'' \<longleftrightarrow> handle \<in> {HandleE, HandleNE, HandleSE}"
  "handleIncludes handle CHR ''n'' \<longleftrightarrow> handle \<in> {HandleN, HandleNE, HandleNW}"
  "handleIncludes handle CHR ''s'' \<longleftrightarrow> handle \<in> {HandleS, HandleSE, HandleSW}"
  by (cases handle; simp add: handleIncludes_def)+

lemma scaleMove_Rectangle:
  assumes "findById (elements (project props)) (hd (selectedElementIds props)) = Some r"
    and "kind r = Rectangle w h wc hc"
  shows "scaleMove props st handle point
         = (let dx = pt_x point - pt_x (drawStart st);
                dy = pt_y point - pt_y (drawStart st);
                newX = (if handle \<in> {HandleW, HandleNW, HandleSW} then el_x r + dx else el_x r);
                newWidth = (if handle \<in> {HandleE, HandleNE, HandleSE} then w + dx
                            else if handle \<in> {HandleW, HandleNW, HandleSW} then w - dx else w);
                newY = (if handle \<in> {HandleN, HandleNE, HandleNW} then el_y r + dy else el_y r);
                newHeight = (if handle \<in> {HandleS, HandleSE, HandleSW} then h + dy
                             else if handle \<in> {HandleN, HandleNE, HandleNW} then h - dy else h)
            in if newWidth > 10 \<and> newHeight > 10 then
                 (st\<lparr>drawStart := point\<rparr>,
                  [UpdateElement (hd (selectedElementIds props))
                     (noUpdates\<lparr>u_x := Some newX, u_y := Some newY,
                                u_width := Some newWidth, u_height := Some newHeight\<rparr>)
                     True])
               else (st, []))"
  using assms
  by (simp only: scaleMove_def handleIncludes_cases option.case ElementKind.case Let_def)

lemma update_Rectangle:
  assumes "kind r = Rectangle w h wc hc"
  shows "recomputeCm ppc
           (applyUpdates r
              (noUpdates\<lparr>u_x := Some nx, u_y := Some ny, u_width := Some nw,
                         u_height := Some nh\<rparr>))
         = r\<lparr>el_x := nx, el_y := ny, kind := Rectangle nw nh (nw / ppc) (nh / ppc)\<rparr>"
  using assms
  by (simp add: recomputeCm_def applyUpdates_def noUpdates_def spread_def)

text \<open>
  Claim C6, as amended. During a Rectangle scaling gesture each pointer-move is
  all-or-nothing, and the floor is exclusive: with \<open>newX\<close>, \<open>newY\<close>, \<open>newWidth\<close>,
  \<open>newHeight\<close> computed from the active handle and the pointer delta since the last
  applied move, the move writes all four fields (and the two centimetre fields) when
  \<open>newWidth > 10\<close> and \<open>newHeight > 10\<close>; otherwise (a result of exactly 10 included) the
  elements and the gesture state are unchanged. Either the rectangle is left as it was or
  its width and height both exceed 10 afterwards.
\<close>

theorem C6_scaling_all_or_nothing:
  fixes r :: CanvasElement and w h :: real and e :: MouseEvent and newId :: string
  assumes "propsOf app = Some props"
    and "isScaling st" and "\<not> isPanning st" and "\<not> isRotating st"
    and "scaleHandle st = Some handle"
    and "selectedElementIds props = [sid]"
    and "findById (elements (project props)) sid = Some r"
    and "kind r = Rectangle w h wc hc"
    and "j < length (elements (project props))" and "elements (project props) ! j = r"
  defines "point \<equiv> screenToCanvas (canvasRef st) (viewTransform st) (clientX e) (clientY e)"
  defines "dx \<equiv> pt_x point - pt_x (drawStart st)"
    and "dy \<equiv> pt_y point - pt_y (drawStart st)"
  defines "newX \<equiv> (if handle \<in> {HandleW, HandleNW, HandleSW} then el_x r + dx else el_x r)"
    and "newWidth \<equiv> (if handle \<in> {HandleE, HandleNE, HandleSE} then w + dx
                      else if handle \<in> {HandleW, HandleNW, HandleSW} then w - dx else w)"
    and "newY \<equiv> (if handle \<in> {HandleN, HandleNE, HandleNW} then el_y r + dy else el_y r)"
    and "newHeight \<equiv> (if handle \<in> {HandleS, HandleSE, HandleSW} then h + dy
                       else if handle \<in> {HandleN, HandleNE, HandleNW} then h - dy else h)"
  defines "after \<equiv> mouseMove newId e (app, st)"
  shows "(if newWidth > 10 \<and> newHeight > 10 then
            canvasElements (fst after) ! j
              = r\<lparr>el_x := newX, el_y := newY,
                  kind := Rectangle newWidth newHeight
                            (newWidth / pixelsPerCm (project props))
                            (newHeight / pixelsPerCm (project props))\<rparr> \<and>
            snd after = st\<lparr>drawStart := point\<rparr>
          else after = (app, st)) \<and>
         (canvasElements (fst after) ! j = r \<or>
          (10 < width (kind (canvasElements (fst after) ! j)) \<and>
           10 < height (kind (canvasElements (fst after) ! j))))"
proof -
  have hover: "hoverPreview props st point = st"
    using assms(2) by (simp add: hoverPreview_def)
  have found: "findById (elements (project props)) (hd (selectedElementIds props)) = Some r"
    using assms(6,7) by simp
  have rid: "el_id r = sid"
    using assms(7) by (rule findById_id)
  have move: "handleMouseMove newId props st e = scaleMove props st handle point"
    using assms(2-6) hover by (simp add: handleMouseMove_def point_def Let_def)
  let ?u = "noUpdates\<lparr>u_x := Some newX, u_y := Some newY,
                       u_width := Some newWidth, u_height := Some newHeight\<rparr>"
  have sm: "scaleMove props st handle point
        = (if newWidth > 10 \<and> newHeight > 10
           then (st\<lparr>drawStart := point\<rparr>, [UpdateElement sid ?u True]) else (st, []))"
    unfolding newX_def newWidth_def newY_def newHeight_def dx_def dy_def
    using scaleMove_Rectangle [OF found assms(8), of st handle point] assms(6)
    by (simp only: Let_def list.sel)
  show ?thesis
  proof (cases "newWidth > 10 \<and> newHeight > 10")
    case True
    have handler: "handleMouseMove newId props st e
          = (st\<lparr>drawStart := point\<rparr>, [UpdateElement sid ?u True])"
      using move sm True by simp
    have calls: "\<forall>call \<in> set [UpdateElement sid ?u True]. isUpdateCall call"
      by simp
    have els: "canvasElements (fst after)
          = map (updateAll (pixelsPerCm (project props)) [UpdateElement sid ?u True])
              (elements (project props))"
      unfolding after_def mouseMove_def
      by (rule runHandler_updates(3) [OF assms(1) _ calls]) (rule handler)
    have st': "snd after = st\<lparr>drawStart := point\<rparr>"
      unfolding after_def mouseMove_def
      using runHandler_updates(1) [OF assms(1) _ calls, of "\<lambda>props st. handleMouseMove newId props st e" st, OF handler]
      by simp
    have "canvasElements (fst after) ! j
          = recomputeCm (pixelsPerCm (project props)) (applyUpdates r ?u)"
      using els assms(9,10) rid by (simp add: updateOne_def)
    then have slot: "canvasElements (fst after) ! j
          = r\<lparr>el_x := newX, el_y := newY,
              kind := Rectangle newWidth newHeight
                        (newWidth / pixelsPerCm (project props))
                        (newHeight / pixelsPerCm (project props))\<rparr>"
      by (simp add: update_Rectangle [OF assms(8)])
    show ?thesis
      using True slot st' by simp
  next
    case False
    have "handleMouseMove newId props st e = (st, [])"
      using move sm False by simp
    then have same: "after = (app, st)"
      unfolding after_def mouseMove_def using assms(1) by (simp add: runHandler_def)
    then have "canvasElements (fst after) ! j = r"
      using assms(1,10) by (simp add: canvasElements_def)
    with False same show ?thesis by auto
  qed
qed

section \<open>An example canvas\<close>

text \<open>
  One project at 10 pixels per centimetre with the select tool, a canvas at the top left
  of the page with scale 1 and no gesture in progress, and elements with default styling.
\<close>

definition appWith :: "CanvasElement list \<Rightarrow> string list \<Rightarrow> AppState" where
  "appWith els sel =
     \<lparr>projects = [\<lparr>p_id = ''p1'', elements = els, pixelsPerCm = 10, p_viewTransform = None\<rparr>],
      currentProjectId = Some ''p1'', app_selectedElementIds = sel,
      app_tool = ToolSelect, app_theme = Light\<rparr>"

definition idleCanvas :: CanvasState where
  "idleCanvas =
     \<lparr>canvasRef = Some \<lparr>rect_left = 0, rect_top = 0\<rparr>, viewTransform = unitView,
      isPanning = False, panStart = \<lparr>pt_x = 0, pt_y = 0\<rparr>,
      isDrawing = False, drawStart = \<lparr>pt_x = 0, pt_y = 0\<rparr>, tempElement = None,
      editingTextId = None,
      isDragging = False, dragStart = \<lparr>pt_x = 0, pt_y = 0\<rparr>, dragReferenceId = None,
      elementStartPositions = [], doorOriginalRotation = None, copiedElements = [],
      isSelecting = False, selectionBox = None, showSettings = False,
      potentialSelection = False, isRotating = False, isScaling = False,
      scaleHandle = None, rotationStart = 0, doorHoverSnap = None\<rparr>"

definition shapeAt :: "string \<Rightarrow> real \<Rightarrow> real \<Rightarrow> bool option \<Rightarrow> ElementKind \<Rightarrow> CanvasElement" where
  "shapeAt i ex ey lk k =
     \<lparr>el_id = i, el_x = ex, el_y = ey, el_color = ''#000000'', fillColor = ''#f5f5f5'',
      opacity = None, strokeWidth = 10, hideDimensions = None, rotation = None,
      el_text = None, locked = lk, kind = k\<rparr>"

definition leftClick :: "real \<Rightarrow> real \<Rightarrow> MouseEvent" where
  "leftClick cx cy =
     \<lparr>clientX = cx, clientY = cy, button = 0, altKey = False, shiftKey = False\<rparr>"

lemma propsOf_appWith:
  "propsOf (appWith els sel)
   = Some \<lparr>project = \<lparr>p_id = ''p1'', elements = els, pixelsPerCm = 10, p_viewTransform = None\<rparr>,
           selectedElementIds = sel, tool = ToolSelect, theme = Light\<rparr>"
  by (simp add: propsOf_def appWith_def noCurrentProject_def)

text \<open>
  A pointer-down on the south-east handle of the selected 100 by 50 rectangle starts a
  scaling gesture.
\<close>

lemma scaling_started:
  "mouseDown newId (leftClick 100 50)
     (appWith [shapeAt ''a'' 0 0 None (Rectangle 100 50 10 5)] [''a''], idleCanvas)
   = (appWith [shapeAt ''a'' 0 0 None (Rectangle 100 50 10 5)] [''a''],
      idleCanvas\<lparr>isScaling := True, scaleHandle := Some HandleSE,
                  drawStart := \<lparr>pt_x = 100, pt_y = 50\<rparr>\<rparr>)"
  by (simp add: mouseDown_def runHandler_def propsOf_appWith handleMouseDown_def
      leftClick_def idleCanvas_def unitView_def screenToCanvas_def grabHandle_def
      findById_def shapeAt_def isLocked_def getRotationHandle_def getScaleHandle_def
      getElementBounds_def rotationOr0_def checkHandleHit_def rotatePoint_def Let_def)

text \<open>
  After the pointer-down of \<open>scaling_started\<close>, a move to (110,60) makes the rectangle
  110 by 60, which is 11 by 6 centimetres.
\<close>

theorem C6_scaling_all_or_nothing_witness:
  "canvasElements
     (fst (mouseMove ''n2'' (leftClick 110 60)
             (mouseDown ''n1'' (leftClick 100 50)
                (appWith [shapeAt ''a'' 0 0 None (Rectangle 100 50 10 5)] [''a''],
                 idleCanvas)))) ! 0
   = shapeAt ''a'' 0 0 None (Rectangle 110 60 11 6)"
  unfolding scaling_started
  using C6_scaling_all_or_nothing
    [where app = "appWith [shapeAt ''a'' 0 0 None (Rectangle 100 50 10 5)] [''a'']"
       and st = "idleCanvas\<lparr>isScaling := True, scaleHandle := Some HandleSE,
                             drawStart := \<lparr>pt_x = 100, pt_y = 50\<rparr>\<rparr>"
       and handle = HandleSE and sid = "''a''" and j = 0
       and r = "shapeAt ''a'' 0 0 None (Rectangle 100 50 10 5)"
       and w = 100 and h = 50 and wc = 10 and hc = 5
       and e = "leftClick 110 60" and newId = "''n2''",
     OF propsOf_appWith]
  by (simp add: idleCanvas_def unitView_def findById_def shapeAt_def leftClick_def
      screenToCanvas_def)

text \<open>
  The claim as stated fails on the floor itself. A 20 by 20 rectangle is grabbed by its
  east handle at (20,10) and the pointer moves to (10,10): the resulting width
  \<open>20 + (10 - 20) = 10\<close> is not below 10 and the resulting height is 20, yet the move is
  discarded and the width stays 20.
\<close>

theorem C6_floor_counterexample:
  "\<not> (20 + (10 - 20) < (10::real)) \<and> \<not> (20 < (10::real)) \<and>
   canvasElements
     (fst (mouseMove ''n2'' (leftClick 10 10)
             (mouseDown ''n1'' (leftClick 20 10)
                (appWith [shapeAt ''a'' 0 0 None (Rectangle 20 20 2 2)] [''a''],
                 idleCanvas))))
   = [shapeAt ''a'' 0 0 None (Rectangle 20 20 2 2)]"
proof -
  have down: "mouseDown ''n1'' (leftClick 20 10)
        (appWith [shapeAt ''a'' 0 0 None (Rectangle 20 20 2 2)] [''a''], idleCanvas)
      = (appWith [shapeAt ''a'' 0 0 None (Rectangle 20 20 2 2)] [''a''],
         idleCanvas\<lparr>isScaling := True, scaleHandle := Some HandleE,
                     drawStart := \<lparr>pt_x = 20, pt_y = 10\<rparr>\<rparr>)"
    by (simp add: mouseDown_def runHandler_def propsOf_appWith handleMouseDown_def
        leftClick_def idleCanvas_def unitView_def screenToCanvas_def grabHandle_def
        findById_def shapeAt_def isLocked_def getRotationHandle_def getScaleHandle_def
        getElementBounds_def rotationOr0_def checkHandleHit_def rotatePoint_def Let_def)
  have "mouseMove ''n2'' (leftClick 10 10)
          (appWith [shapeAt ''a'' 0 0 None (Rectangle 20 20 2 2)] [''a''],
           idleCanvas\<lparr>isScaling := True, scaleHandle := Some HandleE,
                       drawStart := \<lparr>pt_x = 20, pt_y = 10\<rparr>\<rparr>)
        = (appWith [shapeAt ''a'' 0 0 None (Rectangle 20 20 2 2)] [''a''],
           idleCanvas\<lparr>isScaling := True, scaleHandle := Some HandleE,
                       drawStart := \<lparr>pt_x = 20, pt_y = 10\<rparr>\<rparr>)"
    by (simp add: mouseMove_def runHandler_def propsOf_appWith handleMouseMove_def
        hoverPreview_def scaleMove_def handleIncludes_def leftClick_def idleCanvas_def
        unitView_def screenToCanvas_def findById_def shapeAt_def Let_def)
  then show ?thesis
    unfolding down by (simp add: canvasElements_def propsOf_appWith)
qed

section \<open>Box selection\<close>

lemma mouseUp_box_select:
  assumes "propsOf app = Some props"
    and "\<not> isPanning st" and "\<not> isRotating st" and "\<not> isScaling st"
    and "\<not> isDragging st" and "\<not> potentialSelection st"
    and "isSelecting st" and "selectionBox st = Some box"
  shows "mouseUp (app, st)
         = (app\<lparr>app_selectedElementIds :=
                  map el_id (filter (inSelectionBox (viewTransform st) box)
                               (elements (project props)))\<rparr>,
            st\<lparr>isSelecting := False, selectionBox := None\<rparr>)"
  using assms by (simp add: mouseUp_def runHandler_def handleMouseUp_def Let_def)

text \<open>
  The inclusion rule in the words of the specification: the box as a closed region of the
  plane, the corners of a Rectangle rotated about its centre and those of a Text's
  estimated bounds rotated about its anchor, the hinge and the rotated latch end of a
  Door. For a Circle the rule is the amended one: strict inequalities between the
  bounding square and the box.
\<close>

definition boxRegion :: "SelectionBox \<Rightarrow> (real \<times> real) set" where
  "boxRegion box =
     {(a, b). box_x box \<le> a \<and> a \<le> box_x box + box_width box \<and>
              box_y box \<le> b \<and> b \<le> box_y box + box_height box}"

definition rotateAbout :: "real \<times> real \<Rightarrow> real \<Rightarrow> real \<times> real \<Rightarrow> real \<times> real" where
  "rotateAbout c rot q =
     (fst c + (fst q - fst c) * cos rot - (snd q - snd c) * sin rot,
      snd c + (fst q - fst c) * sin rot + (snd q - snd c) * cos rot)"

definition cornersOf :: "real \<Rightarrow> real \<Rightarrow> real \<Rightarrow> real \<Rightarrow> (real \<times> real) set" where
  "cornersOf rx ry w h = {(rx, ry), (rx + w, ry), (rx, ry + h), (rx + w, ry + h)}"

definition boundingSquare :: "real \<Rightarrow> real \<Rightarrow> real \<Rightarrow> (real \<times> real) set" where
  "boundingSquare cx cy r = {(a, b). \<bar>a - cx\<bar> \<le> r \<and> \<bar>b - cy\<bar> \<le> r}"

definition boxRule :: "ViewTransform \<Rightarrow> SelectionBox \<Rightarrow> CanvasElement \<Rightarrow> bool" where
  "boxRule vt box e =
     (case kind e of
        Line ex ey l \<Rightarrow> (el_x e, el_y e) \<in> boxRegion box \<or> (ex, ey) \<in> boxRegion box
      | Rectangle w h wc hc \<Rightarrow>
          (\<exists>q \<in> cornersOf (el_x e) (el_y e) w h.
             rotateAbout (el_x e + w / 2, el_y e + h / 2) (rotationOr0 e) q \<in> boxRegion box)
      | Text ct fs ff \<Rightarrow>
          (\<exists>q \<in> cornersOf (el_x e) (el_y e - fs / scale vt)
                    (real (length ct) * (fs / scale vt) * 0.6) (fs / scale vt).
             rotateAbout (el_x e, el_y e) (rotationOr0 e) q \<in> boxRegion box)
      | Circle r rc \<Rightarrow>
          el_x e - r < box_x box + box_width box \<and> box_x box < el_x e + r \<and>
          el_y e - r < box_y box + box_height box \<and> box_y box < el_y e + r
      | Door w al ar sd \<Rightarrow>
          (el_x e, el_y e) \<in> boxRegion box \<or>
          rotateAbout (el_x e, el_y e) (rotationOr0 e) (el_x e + w, el_y e) \<in> boxRegion box)"

lemma inSelectionBox_boxRule: "inSelectionBox vt box e = boxRule vt box e"
proof (cases "kind e")
  case (Line ex ey l)
  then show ?thesis
    by (simp add: inSelectionBox_def boxRule_def boxRegion_def)
next
  case (Rectangle w h wc hc)
  then show ?thesis
    by (simp add: inSelectionBox_def boxRule_def boxRegion_def getRotatedCorners_def
        cornersOf_def rotateAbout_def isPointInBox_def Let_def)
next
  case (Text ct fs ff)
  then show ?thesis
    by (simp add: inSelectionBox_def boxRule_def boxRegion_def getRotatedCorners_def
        cornersOf_def rotateAbout_def isPointInBox_def Let_def)
next
  case (Door w al ar sd)
  then show ?thesis
    by (simp add: inSelectionBox_def boxRule_def boxRegion_def rotateAbout_def
        isPointInBox_def Let_def)
next
  case (Circle r rc)
  then show ?thesis
    by (simp add: inSelectionBox_def boxRule_def)
qed

text \<open>
  For a circle of positive radius and a box of non-negative size, the strict
  inequalities say that the interior of the bounding square meets the box.
\<close>

lemma circle_rule_interior:
  assumes "kind e = Circle r rc" and "0 < r"
    and "0 \<le> box_width box" and "0 \<le> box_height box"
  shows "boxRule vt box e \<longleftrightarrow>
         (\<exists>a b. \<bar>a - el_x e\<bar> < r \<and> \<bar>b - el_y e\<bar> < r \<and> (a, b) \<in> boxRegion box)"
proof
  assume rule: "boxRule vt box e"
  define a where "a = min (box_x box + box_width box) (max (box_x box) (el_x e))"
  define b where "b = min (box_y box + box_height box) (max (box_y box) (el_y e))"
  have "\<bar>a - el_x e\<bar> < r" and "\<bar>b - el_y e\<bar> < r" and "(a, b) \<in> boxRegion box"
    using rule assms by (auto simp add: boxRule_def boxRegion_def a_def b_def)
  then show "\<exists>a b. \<bar>a - el_x e\<bar> < r \<and> \<bar>b - el_y e\<bar> < r \<and> (a, b) \<in> boxRegion box"
    by blast
next
  assume "\<exists>a b. \<bar>a - el_x e\<bar> < r \<and> \<bar>b - el_y e\<bar> < r \<and> (a, b) \<in> boxRegion box"
  then show "boxRule vt box e"
    using assms(1) by (auto simp add: boxRule_def boxRegion_def)
qed

text \<open>
  Claim C7, as amended. On box-select release the committed selection is the ids, in
  element order, of exactly the elements that satisfy: for a Line, either end point lies
  inside the box; for a Rectangle or Text, at least one of its four rotation-transformed
  corners lies inside the box; for a Door, its hinge point or its rotated latch end point
  lies inside the box; for a Circle, \<open>x - r < box.x + box.width\<close>, \<open>x + r > box.x\<close>,
  \<open>y - r < box.y + box.height\<close> and \<open>y + r > box.y\<close>, so that a bounding square that only
  touches the box along an edge or at a corner is not selected.
\<close>

theorem C7_box_select_rule:
  assumes "propsOf app = Some props"
    and "\<not> isPanning st" and "\<not> isRotating st" and "\<not> isScaling st"
    and "\<not> isDragging st" and "\<not> potentialSelection st"
    and "isSelecting st" and "selectionBox st = Some box"
  shows "app_selectedElementIds (fst (mouseUp (app, st)))
           = map el_id (filter (boxRule (viewTransform st) box) (elements (project props))) \<and>
         (\<forall>i. i \<in> set (app_selectedElementIds (fst (mouseUp (app, st)))) \<longleftrightarrow>
              (\<exists>e \<in> set (elements (project props)).
                 el_id e = i \<and> boxRule (viewTransform st) box e))"
proof -
  have "app_selectedElementIds (fst (mouseUp (app, st)))
        = map el_id (filter (inSelectionBox (viewTransform st) box) (elements (project props)))"
    by (simp add: mouseUp_box_select [OF assms])
  then have sel: "app_selectedElementIds (fst (mouseUp (app, st)))
        = map el_id (filter (boxRule (viewTransform st) box) (elements (project props)))"
    by (simp add: inSelectionBox_boxRule [abs_def])
  then show ?thesis
    by auto
qed

text \<open>
  The example of the specification: a 10 by 10 Rectangle at (0,0), rotated by 45 degrees,
  and a selection box covering (0,0) to (5,5). No rotated corner is in the box, and the
  rectangle is not selected.
\<close>

definition tiltedSquare :: CanvasElement where
  "tiltedSquare = (shapeAt ''sq'' 0 0 None (Rectangle 10 10 1 1))\<lparr>rotation := Some (pi / 4)\<rparr>"

definition boxSelecting :: "SelectionBox \<Rightarrow> CanvasState" where
  "boxSelecting box = idleCanvas\<lparr>isSelecting := True, selectionBox := Some box\<rparr>"

theorem C7_box_select_rule_witness:
  "app_selectedElementIds
     (fst (mouseUp (appWith [tiltedSquare] [],
                    boxSelecting \<lparr>box_x = 0, box_y = 0, box_width = 5, box_height = 5\<rparr>)))
   = []"
proof -
  have "1 < sqrt 2" by simp
  then have "\<not> boxRule unitView \<lparr>box_x = 0, box_y = 0, box_width = 5, box_height = 5\<rparr>
               tiltedSquare"
    by (simp add: boxRule_def tiltedSquare_def shapeAt_def cornersOf_def rotateAbout_def
        boxRegion_def rotationOr0_def cos_45 sin_45)
  then show ?thesis
    using C7_box_select_rule
      [where app = "appWith [tiltedSquare] []"
         and st = "boxSelecting \<lparr>box_x = 0, box_y = 0, box_width = 5, box_height = 5\<rparr>"
         and box = "\<lparr>box_x = 0, box_y = 0, box_width = 5, box_height = 5\<rparr>",
       OF propsOf_appWith]
    by (simp add: boxSelecting_def idleCanvas_def)
qed

text \<open>
  The claim as stated fails for a Circle whose bounding square touches the box. The
  circle of radius 5 at the origin has the bounding square from (-5,-5) to (5,5); the
  pointer goes down at (15,5) and moves to (5,-5), so the box runs from (5,-5) to (15,5)
  and shares the edge \<open>x = 5\<close> with the square. On release nothing is selected.
\<close>

theorem C7_touching_circle_counterexample:
  "(5, 0) \<in> boundingSquare 0 0 5 \<inter>
            boxRegion \<lparr>box_x = 5, box_y = - 5, box_width = 10, box_height = 10\<rparr> \<and>
   mouseUp
     (mouseMove ''n3'' (leftClick 5 (- 5))
        (mouseMove ''n2'' (leftClick 5 (- 5))
           (mouseDown ''n1'' (leftClick 15 5)
              (appWith [shapeAt ''c'' 0 0 None (Circle 5 (1 / 2))] [], idleCanvas))))
   = (appWith [shapeAt ''c'' 0 0 None (Circle 5 (1 / 2))] [],
      idleCanvas\<lparr>drawStart := \<lparr>pt_x = 15, pt_y = 5\<rparr>\<rparr>)"
proof -
  let ?app = "appWith [shapeAt ''c'' 0 0 None (Circle 5 (1 / 2))] []"
  have far: "\<not> sqrt (15 * 15 + 5 * 5) \<le> 5"
  proof -
    have "5 < sqrt (15 * 15 + 5 * 5)"
      by (rule real_less_rsqrt) simp
    then show ?thesis by simp
  qed
  have down: "mouseDown ''n1'' (leftClick 15 5) (?app, idleCanvas)
      = (?app, idleCanvas\<lparr>drawStart := \<lparr>pt_x = 15, pt_y = 5\<rparr>, potentialSelection := True\<rparr>)"
    using far
    apply (simp add: mouseDown_def runHandler_def propsOf_appWith handleMouseDown_def
        selectAt_def grabHandle_def findElementAt_def isMatch_def leftClick_def
        idleCanvas_def unitView_def screenToCanvas_def shapeAt_def Let_def)
    apply (simp add: appWith_def)
    done
  have dist: "5 < sqrt ((5 - 15)\<^sup>2 + (- 5 - 5)\<^sup>2)"
    by (rule real_less_rsqrt) simp
  have move1: "mouseMove ''n2'' (leftClick 5 (- 5))
        (?app, idleCanvas\<lparr>drawStart := \<lparr>pt_x = 15, pt_y = 5\<rparr>, potentialSelection := True\<rparr>)
      = (?app, idleCanvas\<lparr>drawStart := \<lparr>pt_x = 15, pt_y = 5\<rparr>, isSelecting := True\<rparr>)"
    using dist
    by (simp add: mouseMove_def runHandler_def propsOf_appWith handleMouseMove_def
        hoverPreview_def boxMove_def leftClick_def idleCanvas_def unitView_def
        screenToCanvas_def Let_def)
  have move2: "mouseMove ''n3'' (leftClick 5 (- 5))
        (?app, idleCanvas\<lparr>drawStart := \<lparr>pt_x = 15, pt_y = 5\<rparr>, isSelecting := True\<rparr>)
      = (?app, idleCanvas\<lparr>drawStart := \<lparr>pt_x = 15, pt_y = 5\<rparr>, isSelecting := True,
                          selectionBox :=
                            Some \<lparr>box_x = 5, box_y = - 5, box_width = 10, box_height = 10\<rparr>\<rparr>)"
    by (simp add: mouseMove_def runHandler_def propsOf_appWith handleMouseMove_def
        hoverPreview_def boxMove_def leftClick_def idleCanvas_def unitView_def
        screenToCanvas_def Let_def)
  have up: "mouseUp
        (?app, idleCanvas\<lparr>drawStart := \<lparr>pt_x = 15, pt_y = 5\<rparr>, isSelecting := True,
                          selectionBox :=
                            Some \<lparr>box_x = 5, box_y = - 5, box_width = 10, box_height = 10\<rparr>\<rparr>)
      = (?app, idleCanvas\<lparr>drawStart := \<lparr>pt_x = 15, pt_y = 5\<rparr>\<rparr>)"
    apply (simp add: mouseUp_def runHandler_def propsOf_appWith handleMouseUp_def
        inSelectionBox_def idleCanvas_def shapeAt_def)
    apply (simp add: appWith_def)
    done
  have "(5, 0) \<in> boundingSquare 0 0 5 \<inter>
            boxRegion \<lparr>box_x = 5, box_y = - 5, box_width = 10, box_height = 10\<rparr>"
    by (simp add: boundingSquare_def boxRegion_def)
  then show ?thesis
    unfolding down move1 move2 up by simp
qed

section \<open>Locked elements: box selection and hit testing\<close>

lemma inSelectionBox_locked:
  "inSelectionBox vt box (e\<lparr>locked := l\<rparr>) = inSelectionBox vt box e"
  by (cases "kind e") (simp_all add: inSelectionBox_def rotationOr0_def)

lemma findElementAtLoop_unlocked_first:
  assumes "u \<in> set els" and "isMatch vt px py u" and "\<not> isLocked u"
  shows "\<exists>r. findElementAtLoop vt px py els acc = Some r \<and> r \<in> set els \<and>
             isMatch vt px py r \<and> \<not> isLocked r"
  using assms
proof (induction els arbitrary: acc)
  case Nil
  then show ?case by simp
next
  case (Cons a els)
  show ?case
  proof (cases "isMatch vt px py a \<and> \<not> isLocked a")
    case True
    then show ?thesis by simp
  next
    case False
    then have "u \<in> set els"
      using Cons.prems by auto
    then have "\<And>acc'. \<exists>r. findElementAtLoop vt px py els acc' = Some r \<and> r \<in> set els \<and>
                   isMatch vt px py r \<and> \<not> isLocked r"
      using Cons.IH Cons.prems(2,3) by blast
    then show ?thesis
      using False by (auto simp del: findElementAtLoop.simps simp add: findElementAtLoop.simps(2))
  qed
qed

lemma findElementAt_unlocked_first:
  assumes "u \<in> set els" and "isMatch vt px py u" and "\<not> isLocked u"
  shows "\<exists>r. findElementAt vt els px py = Some r \<and> r \<in> set els \<and>
             isMatch vt px py r \<and> \<not> isLocked r"
  using findElementAtLoop_unlocked_first [of u "rev els" vt px py None] assms
  by (simp add: findElementAt_def)

text \<open>
  Claim C9. Box selection ignores the locked flag: on box-select release, a locked
  element that satisfies the inclusion rule of its kind is in the committed selection,
  and the rule gives the same answer whatever the flag is. The hit test does look at the
  flag: wherever an unlocked element matches the point, \<open>findElementAt\<close> returns an
  unlocked match, so a locked element is returned only as the fallback.
\<close>

theorem C9_box_select_ignores_locked:
  assumes "propsOf app = Some props"
    and "\<not> isPanning st" and "\<not> isRotating st" and "\<not> isScaling st"
    and "\<not> isDragging st" and "\<not> potentialSelection st"
    and "isSelecting st" and "selectionBox st = Some box"
    and "e \<in> set (elements (project props))" and "isLocked e"
    and "inSelectionBox (viewTransform st) box e"
  shows "el_id e \<in> set (app_selectedElementIds (fst (mouseUp (app, st)))) \<and>
         (\<forall>l. inSelectionBox (viewTransform st) box (e\<lparr>locked := l\<rparr>)
                = inSelectionBox (viewTransform st) box e) \<and>
         (\<forall>px py u. u \<in> set (elements (project props)) \<and>
                     isMatch (viewTransform st) px py u \<and> \<not> isLocked u \<longrightarrow>
            (\<exists>r. findElementAt (viewTransform st) (elements (project props)) px py = Some r \<and>
                  \<not> isLocked r))"
proof -
  have "app_selectedElementIds (fst (mouseUp (app, st)))
        = map el_id (filter (inSelectionBox (viewTransform st) box) (elements (project props)))"
    by (simp add: mouseUp_box_select [OF assms(1-8)])
  then have "el_id e \<in> set (app_selectedElementIds (fst (mouseUp (app, st))))"
    using assms(9,11) by auto
  moreover have "\<exists>r. findElementAt (viewTransform st) (elements (project props)) px py = Some r \<and>
                  \<not> isLocked r"
    if "u \<in> set (elements (project props))" and "isMatch (viewTransform st) px py u"
      and "\<not> isLocked u" for px py u
    using findElementAt_unlocked_first [OF that] by blast
  ultimately show ?thesis
    by (simp add: inSelectionBox_locked) blast
qed

text \<open>
  A locked 2 by 2 rectangle at (1,1) under an unlocked 10 by 10 rectangle at (0,0): the
  box from (0,0) to (5,5) selects both, and the hit test at (2,2) returns the unlocked
  one although the locked one is on top.
\<close>

theorem C9_box_select_ignores_locked_witness:
  "app_selectedElementIds
     (fst (mouseUp
             (appWith [shapeAt ''big'' 0 0 None (Rectangle 10 10 1 1),
                       shapeAt ''pin'' 1 1 (Some True) (Rectangle 2 2 (1 / 5) (1 / 5))] [],
              boxSelecting \<lparr>box_x = 0, box_y = 0, box_width = 5, box_height = 5\<rparr>)))
   = [''big'', ''pin''] \<and>
   findElementAt unitView
     [shapeAt ''big'' 0 0 None (Rectangle 10 10 1 1),
      shapeAt ''pin'' 1 1 (Some True) (Rectangle 2 2 (1 / 5) (1 / 5))] 2 2
   = Some (shapeAt ''big'' 0 0 None (Rectangle 10 10 1 1))"
proof -
  let ?els = "[shapeAt ''big'' 0 0 None (Rectangle 10 10 1 1),
               shapeAt ''pin'' 1 1 (Some True) (Rectangle 2 2 (1 / 5) (1 / 5))]"
  let ?box = "\<lparr>box_x = 0, box_y = 0, box_width = 5, box_height = 5\<rparr>"
  have sel: "app_selectedElementIds (fst (mouseUp (appWith ?els [], boxSelecting ?box)))
             = [''big'', ''pin'']"
    by (simp add: mouseUp_box_select [OF propsOf_appWith, of _ ?box] boxSelecting_def
        idleCanvas_def inSelectionBox_def getRotatedCorners_def isPointInBox_def
        shapeAt_def rotationOr0_def unitView_def Let_def)
  have hit: "findElementAt unitView ?els 2 2
             = Some (shapeAt ''big'' 0 0 None (Rectangle 10 10 1 1))"
    by (simp add: findElementAt_def isMatch_def shapeAt_def rotationOr0_def isLocked_def
        unitView_def Let_def)
  show ?thesis
    using sel hit
      C9_box_select_ignores_locked
        [where app = "appWith ?els []" and st = "boxSelecting ?box" and box = ?box
           and e = "shapeAt ''pin'' 1 1 (Some True) (Rectangle 2 2 (1 / 5) (1 / 5))",
         OF propsOf_appWith]
    by simp
qed

section \<open>Paste and duplicate\<close>

lemma propsOf_mapCurrent:
  assumes "propsOf app = Some props" and "\<And>p. p_id (f p) = p_id p"
  shows "propsOf (app\<lparr>projects := mapCurrent (currentProjectId app) f (projects app)\<rparr>)
         = Some (props\<lparr>project := f (project props)\<rparr>)"
proof -
  have cur: "\<not> noCurrentProject (currentProjectId app)"
    using assms(1) by (auto simp add: propsOf_def split: if_splits)
  obtain p where p: "find (\<lambda>p. Some (p_id p) = currentProjectId app) (projects app) = Some p"
    and props: "props = \<lparr>project = p, selectedElementIds = app_selectedElementIds app,
                         tool = app_tool app, theme = app_theme app\<rparr>"
    using assms(1) cur by (auto simp add: propsOf_def split: option.splits)
  let ?g = "\<lambda>p. if Some (p_id p) = currentProjectId app then f p else p"
  have "\<And>q. (Some (p_id (?g q)) = currentProjectId app) = (Some (p_id q) = currentProjectId app)"
    using assms(2) by simp
  then have "find (\<lambda>p. Some (p_id p) = currentProjectId app) (map ?g (projects app))
             = map_option ?g (find (\<lambda>p. Some (p_id p) = currentProjectId app) (projects app))"
    by (rule find_map_same)
  moreover have "Some (p_id p) = currentProjectId app"
    using p by (auto simp add: find_Some_iff)
  ultimately show ?thesis
    using cur p props by (simp add: propsOf_def mapCurrent_def)
qed

lemma canvasElements_select:
  "canvasElements (app\<lparr>app_selectedElementIds := ids\<rparr>) = canvasElements app"
  by (simp add: canvasElements_def propsOf_def split: option.splits)

lemma runHandler_add_select:
  assumes "propsOf app = Some props"
    and "handler props st = (st', [AddMultipleElements news, SelectElements ids])"
  shows "snd (runHandler handler (app, st)) = st'"
    and "canvasElements (fst (runHandler handler (app, st))) = elements (project props) @ news"
    and "app_selectedElementIds (fst (runHandler handler (app, st))) = ids"
proof -
  have cur: "\<not> noCurrentProject (currentProjectId app)"
    using assms(1) by (auto simp add: propsOf_def split: if_splits)
  let ?app = "app\<lparr>projects := mapCurrent (currentProjectId app)
                                 (\<lambda>p. p\<lparr>elements := elements p @ news\<rparr>) (projects app)\<rparr>"
  have run: "runHandler handler (app, st) = (?app\<lparr>app_selectedElementIds := ids\<rparr>, st')"
    using assms cur by (simp add: runHandler_def)
  have "propsOf ?app
        = Some (props\<lparr>project := (project props)\<lparr>elements := elements (project props) @ news\<rparr>\<rparr>)"
    by (rule propsOf_mapCurrent [OF assms(1)]) simp
  then have "canvasElements ?app = elements (project props) @ news"
    by (simp add: canvasElements_def)
  then have "canvasElements (?app\<lparr>app_selectedElementIds := ids\<rparr>)
             = elements (project props) @ news"
    by (simp only: canvasElements_select)
  then show "canvasElements (fst (runHandler handler (app, st))) = elements (project props) @ news"
    using run by simp
  show "snd (runHandler handler (app, st)) = st'"
    using run by simp
  show "app_selectedElementIds (fst (runHandler handler (app, st))) = ids"
    using run by simp
qed

lemma handleKeyDown_paste:
  assumes "metaKey e \<or> ctrlKey e" and "key e = ''v''"
    and "targetTagName e \<noteq> ''INPUT''" and "targetTagName e \<noteq> ''TEXTAREA''"
    and "copiedElements st \<noteq> []"
  shows "handleKeyDown genId props st e
         = (st, [AddMultipleElements (offsetCopies genId (copiedElements st)),
                 SelectElements (map el_id (offsetCopies genId (copiedElements st)))])"
  using assms by (simp add: handleKeyDown_def Let_def)

lemma handleKeyDown_duplicate:
  assumes "metaKey e \<or> ctrlKey e" and "key e = ''d''"
    and "targetTagName e \<noteq> ''INPUT''" and "targetTagName e \<noteq> ''TEXTAREA''"
    and "selectedElementIds props \<noteq> []"
  shows "handleKeyDown genId props st e
         = (st, [AddMultipleElements
                   (offsetCopies genId
                      (filter (\<lambda>el. el_id el \<in> set (selectedElementIds props))
                         (elements (project props)))),
                 SelectElements
                   (map el_id
                      (offsetCopies genId
                         (filter (\<lambda>el. el_id el \<in> set (selectedElementIds props))
                            (elements (project props)))))])"
  using assms by (simp add: handleKeyDown_def Let_def)

text \<open>
  The words of the claim. A new element is an offset copy of its source: it has the new
  id, \<open>x\<close> and \<open>y\<close> 20 larger, for a Line also \<open>endX\<close> and \<open>endY\<close> 20 larger, and is
  identical to the source in every other field. An event appends copies when the
  elements afterwards are the elements before followed by one offset copy per source, in
  order, the k-th with the id of the k-th call of \<open>generateId\<close>, and the selection
  afterwards is the ids of the copies.
\<close>

definition isOffsetCopy :: "string \<Rightarrow> CanvasElement \<Rightarrow> CanvasElement \<Rightarrow> bool" where
  "isOffsetCopy newId src new =
     (el_id new = newId \<and> el_x new = el_x src + 20 \<and> el_y new = el_y src + 20 \<and>
      (case kind src of
         Line ex ey l \<Rightarrow> kind new = Line (ex + 20) (ey + 20) l
       | k \<Rightarrow> kind new = k) \<and>
      new\<lparr>el_id := el_id src, el_x := el_x src, el_y := el_y src, kind := kind src\<rparr> = src)"

definition appendsCopies ::
    "(nat \<Rightarrow> string) \<Rightarrow> CanvasElement list \<Rightarrow> CanvasElement list \<Rightarrow> CanvasElement list \<Rightarrow>
     string list \<Rightarrow> bool" where
  "appendsCopies genId sources before after sel =
     (\<exists>news. after = before @ news \<and> length news = length sources \<and>
             (\<forall>k < length sources. isOffsetCopy (genId k) (sources ! k) (news ! k)) \<and>
             sel = map el_id news)"

lemma offsetCopy_isOffsetCopy: "isOffsetCopy newId src (offsetCopy newId src)"
  by (cases "kind src") (simp_all add: isOffsetCopy_def offsetCopy_def)

lemma offsetCopies_nth:
  "k < length srcs \<Longrightarrow> offsetCopies genId srcs ! k = offsetCopy (genId k) (srcs ! k)"
  by (simp add: offsetCopies_def nth_enumerate_eq)

lemma offsetCopies_append:
  "appendsCopies genId srcs els (els @ offsetCopies genId srcs)
     (map el_id (offsetCopies genId srcs))"
  unfolding appendsCopies_def
  by (rule exI [of _ "offsetCopies genId srcs"])
    (simp add: offsetCopies_nth offsetCopy_isOffsetCopy, simp add: offsetCopies_def)

text \<open>
  Claim C10, as amended. With Ctrl or Cmd held and the event's target not an \<open>INPUT\<close> or
  \<open>TEXTAREA\<close> element, \<open>v\<close> over a non-empty copy buffer and \<open>d\<close> over a non-empty
  selection append, for each source element (the buffer's elements, or the selected
  elements of the project), one new element identical to the source except for the
  generated id and \<open>x\<close>, \<open>y\<close> (for Lines also \<open>endX\<close>, \<open>endY\<close>) plus 20; the elements
  that were there are unchanged, the selection becomes exactly the new ids, and the
  component's state is unchanged.
\<close>

theorem C10_paste_and_duplicate:
  assumes "propsOf app = Some props"
    and "metaKey e \<or> ctrlKey e"
    and "targetTagName e \<noteq> ''INPUT''" and "targetTagName e \<noteq> ''TEXTAREA''"
  shows "(key e = ''v'' \<and> copiedElements st \<noteq> [] \<longrightarrow>
            appendsCopies genId (copiedElements st) (elements (project props))
              (canvasElements (fst (keyDown genId e (app, st))))
              (app_selectedElementIds (fst (keyDown genId e (app, st)))) \<and>
            snd (keyDown genId e (app, st)) = st) \<and>
         (key e = ''d'' \<and> selectedElementIds props \<noteq> [] \<longrightarrow>
            appendsCopies genId
              (filter (\<lambda>el. el_id el \<in> set (selectedElementIds props))
                 (elements (project props)))
              (elements (project props))
              (canvasElements (fst (keyDown genId e (app, st))))
              (app_selectedElementIds (fst (keyDown genId e (app, st)))) \<and>
            snd (keyDown genId e (app, st)) = st)"
proof (intro conjI impI)
  assume v: "key e = ''v'' \<and> copiedElements st \<noteq> []"
  have h: "handleKeyDown genId props st e
         = (st, [AddMultipleElements (offsetCopies genId (copiedElements st)),
                 SelectElements (map el_id (offsetCopies genId (copiedElements st)))])"
    using assms(2-4) v by (simp add: handleKeyDown_paste)
  show "appendsCopies genId (copiedElements st) (elements (project props))
              (canvasElements (fst (keyDown genId e (app, st))))
              (app_selectedElementIds (fst (keyDown genId e (app, st))))"
    unfolding keyDown_def
    using runHandler_add_select(2,3)
      [OF assms(1), of "\<lambda>props st. handleKeyDown genId props st e" st, OF h]
    by (simp add: offsetCopies_append)
  show "snd (keyDown genId e (app, st)) = st"
    unfolding keyDown_def
    using runHandler_add_select(1)
      [OF assms(1), of "\<lambda>props st. handleKeyDown genId props st e" st, OF h]
    by simp
next
  assume d: "key e = ''d'' \<and> selectedElementIds props \<noteq> []"
  let ?srcs = "filter (\<lambda>el. el_id el \<in> set (selectedElementIds props)) (elements (project props))"
  have h: "handleKeyDown genId props st e
         = (st, [AddMultipleElements (offsetCopies genId ?srcs),
                 SelectElements (map el_id (offsetCopies genId ?srcs))])"
    using assms(2-4) d by (simp add: handleKeyDown_duplicate)
  show "appendsCopies genId ?srcs (elements (project props))
              (canvasElements (fst (keyDown genId e (app, st))))
              (app_selectedElementIds (fst (keyDown genId e (app, st))))"
    unfolding keyDown_def
    using runHandler_add_select(2,3)
      [OF assms(1), of "\<lambda>props st. handleKeyDown genId props st e" st, OF h]
    by (simp add: offsetCopies_append)
  show "snd (keyDown genId e (app, st)) = st"
    unfolding keyDown_def
    using runHandler_add_select(1)
      [OF assms(1), of "\<lambda>props st. handleKeyDown genId props st e" st, OF h]
    by simp
qed

text \<open>
  Ctrl+D with the Line selected, on a canvas with the Line and a Rectangle: a copy of the
  Line from (20,20) to (120,20) is appended under the generated id and selected.
\<close>

definition ctrlKeyPress :: "string \<Rightarrow> KeyboardEvent" where
  "ctrlKeyPress k =
     \<lparr>key = k, metaKey = False, ctrlKey = True, key_shiftKey = False, key_altKey = False,
      targetTagName = ''BODY''\<rparr>"

theorem C10_paste_and_duplicate_witness:
  "canvasElements
     (fst (keyDown (\<lambda>k. ''copy'') (ctrlKeyPress ''d'')
             (appWith [shapeAt ''l'' 0 0 None (Line 100 0 10),
                       shapeAt ''r'' 0 0 None (Rectangle 10 10 1 1)] [''l''],
              idleCanvas)))
   = [shapeAt ''l'' 0 0 None (Line 100 0 10),
      shapeAt ''r'' 0 0 None (Rectangle 10 10 1 1),
      shapeAt ''copy'' 20 20 None (Line 120 20 10)] \<and>
   appendsCopies (\<lambda>k. ''copy'') [shapeAt ''l'' 0 0 None (Line 100 0 10)]
     [shapeAt ''l'' 0 0 None (Line 100 0 10), shapeAt ''r'' 0 0 None (Rectangle 10 10 1 1)]
     (canvasElements
        (fst (keyDown (\<lambda>k. ''copy'') (ctrlKeyPress ''d'')
                (appWith [shapeAt ''l'' 0 0 None (Line 100 0 10),
                          shapeAt ''r'' 0 0 None (Rectangle 10 10 1 1)] [''l''],
                 idleCanvas))))
     (app_selectedElementIds
        (fst (keyDown (\<lambda>k. ''copy'') (ctrlKeyPress ''d'')
                (appWith [shapeAt ''l'' 0 0 None (Line 100 0 10),
                          shapeAt ''r'' 0 0 None (Rectangle 10 10 1 1)] [''l''],
                 idleCanvas))))"
proof -
  let ?els = "[shapeAt ''l'' 0 0 None (Line 100 0 10),
               shapeAt ''r'' 0 0 None (Rectangle 10 10 1 1)]"
  let ?after = "keyDown (\<lambda>k. ''copy'') (ctrlKeyPress ''d'') (appWith ?els [''l''], idleCanvas)"
  have h: "handleKeyDown (\<lambda>k. ''copy'')
             \<lparr>project = \<lparr>p_id = ''p1'', elements = ?els, pixelsPerCm = 10,
                          p_viewTransform = None\<rparr>,
              selectedElementIds = [''l''], tool = ToolSelect, theme = Light\<rparr>
             idleCanvas (ctrlKeyPress ''d'')
           = (idleCanvas,
              [AddMultipleElements [shapeAt ''copy'' 20 20 None (Line 120 20 10)],
               SelectElements [''copy'']])"
    by (simp add: handleKeyDown_def ctrlKeyPress_def offsetCopies_def offsetCopy_def
        shapeAt_def Let_def)
  have els: "canvasElements (fst ?after)
             = ?els @ [shapeAt ''copy'' 20 20 None (Line 120 20 10)]"
    unfolding keyDown_def
    using runHandler_add_select(2)
      [where handler = "\<lambda>props st. handleKeyDown (\<lambda>k. ''copy'') props st (ctrlKeyPress ''d'')"
         and st = idleCanvas, OF propsOf_appWith h]
    by simp
  have "appendsCopies (\<lambda>k. ''copy'') [shapeAt ''l'' 0 0 None (Line 100 0 10)] ?els
          (canvasElements (fst ?after)) (app_selectedElementIds (fst ?after))"
    using C10_paste_and_duplicate
      [where app = "appWith ?els [''l'']" and e = "ctrlKeyPress ''d''" and st = idleCanvas
         and genId = "\<lambda>k. ''copy''", OF propsOf_appWith]
    by (simp add: ctrlKeyPress_def shapeAt_def)
  with els show ?thesis by simp
qed

text \<open>
  The claim as stated fails while an input field has the focus: Ctrl+V over a copy
  buffer that holds a Line appends nothing and leaves the selection as it was.
\<close>

theorem C10_input_field_counterexample:
  "copiedElements (idleCanvas\<lparr>copiedElements := [shapeAt ''l'' 0 0 None (Line 100 0 10)]\<rparr>) \<noteq> [] \<and>
   keyDown (\<lambda>k. ''copy'') ((ctrlKeyPress ''v'')\<lparr>targetTagName := ''INPUT''\<rparr>)
     (appWith [shapeAt ''l'' 0 0 None (Line 100 0 10)] [''l''],
      idleCanvas\<lparr>copiedElements := [shapeAt ''l'' 0 0 None (Line 100 0 10)]\<rparr>)
   = (appWith [shapeAt ''l'' 0 0 None (Line 100 0 10)] [''l''],
      idleCanvas\<lparr>copiedElements := [shapeAt ''l'' 0 0 None (Line 100 0 10)]\<rparr>)"
  by (simp add: keyDown_def runHandler_def propsOf_appWith handleKeyDown_def
      ctrlKeyPress_def idleCanvas_def Let_def)

text \<open>
  In general: with an \<open>INPUT\<close> or \<open>TEXTAREA\<close> element as the target, the keys \<open>v\<close> and
  \<open>d\<close> change neither the project nor the component, whatever the modifiers.
\<close>

lemma paste_duplicate_in_input_field:
  assumes "targetTagName e = ''INPUT'' \<or> targetTagName e = ''TEXTAREA''"
    and "key e = ''v'' \<or> key e = ''d''"
  shows "keyDown genId e w = w"
proof (cases "propsOf (fst w)")
  case None
  then show ?thesis by (simp add: keyDown_def runHandler_def)
next
  case (Some props)
  have "handleKeyDown genId props (snd w) e = (snd w, [])"
    using assms by (auto simp add: handleKeyDown_def Let_def)
  with Some show ?thesis by (simp add: keyDown_def runHandler_def)
qed

section \<open>Dragging\<close>

text \<open>An element moved to a position, with its centimetre fields recomputed.\<close>

definition movedTo :: "real \<Rightarrow> real \<Rightarrow> real \<Rightarrow> CanvasElement \<Rightarrow> CanvasElement" where
  "movedTo ppc nx ny d = recomputeCm ppc (d\<lparr>el_x := nx, el_y := ny\<rparr>)"

lemma movedTo_Door:
  "is_Door (kind d) \<Longrightarrow> movedTo ppc nx ny d = d\<lparr>el_x := nx, el_y := ny\<rparr>"
  by (cases "kind d") (simp_all add: movedTo_def recomputeCm_def)

lemma movedTo_fields:
  "el_id (movedTo ppc nx ny d) = el_id d"
  "el_x (movedTo ppc nx ny d) = nx"
  "el_y (movedTo ppc nx ny d) = ny"
  "locked (movedTo ppc nx ny d) = locked d"
  by (cases "kind d"; simp add: movedTo_def recomputeCm_def Let_def)+

lemma movedTo_idem:
  "movedTo ppc nx ny (movedTo ppc nx ny d) = movedTo ppc nx ny d"
  by (cases "kind d") (simp_all add: movedTo_def recomputeCm_def Let_def)

lemma plain_move_update:
  "recomputeCm ppc (applyUpdates d (noUpdates\<lparr>u_x := Some nx, u_y := Some ny\<rparr>))
   = movedTo ppc nx ny d"
  "recomputeCm ppc (applyUpdates (movedTo ppc nx ny d) (noUpdates\<lparr>u_x := Some nx, u_y := Some ny\<rparr>))
   = movedTo ppc nx ny d"
  by (cases "kind d";
      simp add: movedTo_def recomputeCm_def applyUpdates_def noUpdates_def spread_def Let_def)+

lemma pose_move_update:
  "recomputeCm ppc
     (applyUpdates d (noUpdates\<lparr>u_x := Some nx, u_y := Some ny, u_rotation := Some (rotation d)\<rparr>))
   = movedTo ppc nx ny d"
  "recomputeCm ppc
     (applyUpdates (movedTo ppc nx ny d)
        (noUpdates\<lparr>u_x := Some nx, u_y := Some ny, u_rotation := Some (rotation d)\<rparr>))
   = movedTo ppc nx ny d"
  by (cases "kind d";
      simp add: movedTo_def recomputeCm_def applyUpdates_def noUpdates_def spread_def Let_def)+

text \<open>
  A list of update calls on one element: calls for other ids leave it alone, and calls
  for its id that all lead to the same result \<open>T\<close> lead to \<open>T\<close>.
\<close>

lemma updateAll_other:
  "\<forall>k u b. UpdateElement k u b \<in> set calls \<longrightarrow> k \<noteq> el_id d \<Longrightarrow> updateAll ppc calls d = d"
  by (induction ppc calls d rule: updateAll.induct) (auto simp add: updateOne_def)

lemma updateAll_fixed:
  "\<forall>k u b. UpdateElement k u b \<in> set calls \<longrightarrow> updateOne ppc k u T = T \<Longrightarrow>
   updateAll ppc calls T = T"
  by (induction ppc calls T rule: updateAll.induct) auto

lemma updateAll_reaches:
  assumes "\<forall>k u b. UpdateElement k u b \<in> set calls \<longrightarrow>
             (updateOne ppc k u d = d \<or> updateOne ppc k u d = T) \<and> updateOne ppc k u T = T"
    and "\<exists>k u b. UpdateElement k u b \<in> set calls \<and> updateOne ppc k u d = T"
  shows "updateAll ppc calls d = T"
  using assms
proof (induction ppc calls d rule: updateAll.induct)
  case (1 ppc e)
  then show ?case by simp
next
  case (2 ppc i u b calls e)
  have fixed: "updateAll ppc calls T = T"
    using "2.prems"(1) by (intro updateAll_fixed) auto
  show ?case
  proof (cases "updateOne ppc i u e = T")
    case True
    then show ?thesis using fixed by simp
  next
    case False
    then have same: "updateOne ppc i u e = e"
      using "2.prems"(1) by auto
    have "\<exists>k u b. UpdateElement k u b \<in> set calls \<and> updateOne ppc k u e = T"
      using "2.prems"(2) False by auto
    then have "updateAll ppc calls e = T"
      using "2.IH" "2.prems"(1) same by auto
    then show ?thesis using same by simp
  qed
qed auto

lemma dragElement_calls:
  "call \<in> set (dragElement props st point dx dy entry) \<Longrightarrow>
   \<exists>u. call = UpdateElement (fst entry) u True"
  by (auto simp add: dragElement_def Let_def split: option.splits if_splits prod.splits)

lemma dragMove_calls:
  assumes "call \<in> set (dragMove props st point)"
  shows "\<exists>entry u. entry \<in> set (elementStartPositions st) \<and> call = UpdateElement (fst entry) u True \<and>
           call \<in> set (dragElement props st point (pt_x point - pt_x (dragStart st))
                         (pt_y point - pt_y (dragStart st)) entry)"
  using assms dragElement_calls
  by (fastforce simp add: dragMove_def Let_def)

lemma dragMove_update_calls: "\<forall>call \<in> set (dragMove props st point). isUpdateCall call"
  using dragMove_calls by fastforce

text \<open>
  The call of the drag loop for an unlocked element that is not a Line and, when it is the
  reference Door, is not alone in the snapshot: the start position plus the delta, with
  for the reference Door its own rotation written back.
\<close>

lemma dragElement_plain:
  assumes "findById (elements (project props)) i = Some d" and "\<not> isLocked d"
    and "\<not> is_Line (kind d)"
    and "is_Door (kind d) \<and> Some i = dragReferenceId st \<longrightarrow>
           length (elementStartPositions st) \<noteq> 1"
  shows "dragElement props st point dx dy (i, sp)
         = (if is_Door (kind d) \<and> Some i = dragReferenceId st then
              [UpdateElement i
                 (noUpdates\<lparr>u_x := Some (sp_x sp + dx), u_y := Some (sp_y sp + dy),
                            u_rotation := Some (rotation d)\<rparr>) True]
            else
              [UpdateElement i
                 (noUpdates\<lparr>u_x := Some (sp_x sp + dx), u_y := Some (sp_y sp + dy)\<rparr>) True])"
  using assms by (simp add: dragElement_def doorDragPose_def Let_def)

lemma handleMouseMove_dragging:
  assumes "isDragging st" and "\<not> isPanning st" and "\<not> isRotating st" and "\<not> isScaling st"
    and "selectedElementIds props \<noteq> []" and "truthy (dragReferenceId st)"
  shows "handleMouseMove newId props st e
         = (st, dragMove props st
                  (screenToCanvas (canvasRef st) (viewTransform st) (clientX e) (clientY e)))"
  using assms by (simp add: handleMouseMove_def hoverPreview_def Let_def)

lemma drag_move_slot:
  fixes e :: MouseEvent
  assumes "propsOf app = Some props"
    and "isDragging st" and "\<not> isPanning st" and "\<not> isRotating st" and "\<not> isScaling st"
    and "selectedElementIds props \<noteq> []" and "truthy (dragReferenceId st)"
    and "(i, sp) \<in> set (elementStartPositions st)"
    and "\<forall>sp'. (i, sp') \<in> set (elementStartPositions st) \<longrightarrow> sp' = sp"
    and "j < length (elements (project props))" and "elements (project props) ! j = d"
    and "findById (elements (project props)) i = Some d" and "\<not> isLocked d"
    and "\<not> is_Line (kind d)"
    and "is_Door (kind d) \<and> Some i = dragReferenceId st \<longrightarrow>
           length (elementStartPositions st) \<noteq> 1"
  defines "point \<equiv> screenToCanvas (canvasRef st) (viewTransform st) (clientX e) (clientY e)"
  shows "snd (mouseMove newId e (app, st)) = st"
    and "propsOf (fst (mouseMove newId e (app, st)))
         = Some (props\<lparr>project :=
                    (project props)\<lparr>elements :=
                       map (updateAll (pixelsPerCm (project props)) (dragMove props st point))
                         (elements (project props))\<rparr>\<rparr>)"
    and "canvasElements (fst (mouseMove newId e (app, st))) ! j
         = movedTo (pixelsPerCm (project props))
             (sp_x sp + (pt_x point - pt_x (dragStart st)))
             (sp_y sp + (pt_y point - pt_y (dragStart st))) d"
proof -
  let ?ppc = "pixelsPerCm (project props)"
  let ?dx = "pt_x point - pt_x (dragStart st)"
  let ?dy = "pt_y point - pt_y (dragStart st)"
  let ?T = "movedTo ?ppc (sp_x sp + ?dx) (sp_y sp + ?dy) d"
  let ?calls = "dragMove props st point"
  have handler: "handleMouseMove newId props st e = (st, ?calls)"
    unfolding point_def by (rule handleMouseMove_dragging [OF assms(2-7)])
  have run: "mouseMove newId e (app, st) = (foldl (dispatch app) app ?calls, st)"
    unfolding mouseMove_def
    by (rule runHandler_updates(1) [OF assms(1) _ dragMove_update_calls]) (rule handler)
  show "snd (mouseMove newId e (app, st)) = st"
    using run by simp
  show after: "propsOf (fst (mouseMove newId e (app, st)))
         = Some (props\<lparr>project :=
                    (project props)\<lparr>elements := map (updateAll ?ppc ?calls)
                                                  (elements (project props))\<rparr>\<rparr>)"
    unfolding mouseMove_def
    by (rule runHandler_updates(2) [OF assms(1) _ dragMove_update_calls]) (rule handler)
  have rid: "el_id d = i"
    using assms(12) by (rule findById_id)
  have own: "dragElement props st point ?dx ?dy (i, sp)
         = (if is_Door (kind d) \<and> Some i = dragReferenceId st then
              [UpdateElement i
                 (noUpdates\<lparr>u_x := Some (sp_x sp + ?dx), u_y := Some (sp_y sp + ?dy),
                            u_rotation := Some (rotation d)\<rparr>) True]
            else
              [UpdateElement i
                 (noUpdates\<lparr>u_x := Some (sp_x sp + ?dx), u_y := Some (sp_y sp + ?dy)\<rparr>) True])"
    by (rule dragElement_plain [OF assms(12-15)])
  have each: "(updateOne ?ppc k u d = d \<or> updateOne ?ppc k u d = ?T) \<and> updateOne ?ppc k u ?T = ?T"
    if call: "UpdateElement k u b \<in> set ?calls" for k u b
  proof (cases "k = i")
    case False
    then show ?thesis
      using rid by (simp add: updateOne_def movedTo_fields)
  next
    case True
    obtain en where en: "en \<in> set (elementStartPositions st)"
      and k: "k = fst en"
      and mem: "UpdateElement k u b \<in> set (dragElement props st point ?dx ?dy en)"
      using dragMove_calls [OF call] by auto
    have "(i, snd en) \<in> set (elementStartPositions st)"
      using en k True by simp
    then have "snd en = sp"
      using assms(9) by blast
    then have "en = (i, sp)"
      using k True by (simp add: prod_eq_iff)
    then have "UpdateElement k u b \<in> set (dragElement props st point ?dx ?dy (i, sp))"
      using mem by simp
    then have "u = noUpdates\<lparr>u_x := Some (sp_x sp + ?dx), u_y := Some (sp_y sp + ?dy),
                            u_rotation := Some (rotation d)\<rparr> \<or>
               u = noUpdates\<lparr>u_x := Some (sp_x sp + ?dx), u_y := Some (sp_y sp + ?dy)\<rparr>"
      unfolding own by (simp split: if_splits)
    then show ?thesis
      using True rid
      by (auto simp add: updateOne_def movedTo_fields plain_move_update pose_move_update
          movedTo_idem)
  qed
  have some: "\<exists>k u b. UpdateElement k u b \<in> set ?calls \<and> updateOne ?ppc k u d = ?T"
  proof -
    obtain u where u: "dragElement props st point ?dx ?dy (i, sp) = [UpdateElement i u True]"
      and res: "recomputeCm ?ppc (applyUpdates d u) = ?T"
      using own by (cases "is_Door (kind d) \<and> Some i = dragReferenceId st")
        (simp_all add: plain_move_update pose_move_update)
    have "UpdateElement i u True \<in> set ?calls"
      using assms(8) u by (force simp add: dragMove_def Let_def)
    moreover have "updateOne ?ppc i u d = ?T"
      using res rid by (simp add: updateOne_def)
    ultimately show ?thesis by blast
  qed
  have "updateAll ?ppc ?calls d = ?T"
    by (rule updateAll_reaches) (use each some in blast)+
  then show "canvasElements (fst (mouseMove newId e (app, st))) ! j = ?T"
    using after assms(10,11) by (simp add: canvasElements_def)
qed

lemma findById_distinct:
  assumes "distinct (map el_id els)" and "j < length els"
  shows "findById els (el_id (els ! j)) = Some (els ! j)"
proof -
  have "\<not> el_id (els ! k) = el_id (els ! j)" if "k < j" for k
  proof -
    have "(map el_id els ! k = map el_id els ! j) = (k = j)"
      using assms that by (intro nth_eq_iff_index_eq) auto
    then show ?thesis
      using assms(2) that by simp
  qed
  then show ?thesis
    using assms(2) unfolding findById_def find_Some_iff by blast
qed

text \<open>
  Claim C8, as amended. Whenever the drag snapshot contains more than one element, every
  unlocked Door captured in the snapshot (whether or not it is the first-clicked
  reference element) is moved, on each pointer move, to its snapshot position plus the
  raw world-space delta since the pointer-down: its rotation and its attachment fields
  are unchanged, and the pose computed for it involves no wall projection and no
  nearest-segment search. The snapshot is a \<open>Map\<close>, so its keys are distinct, and element
  ids are unique.
\<close>

theorem C8_door_multi_drag:
  fixes e :: MouseEvent and d :: CanvasElement and newId :: string
  assumes "propsOf app = Some props"
    and "isDragging st" and "\<not> isPanning st" and "\<not> isRotating st" and "\<not> isScaling st"
    and "selectedElementIds props \<noteq> []" and "truthy (dragReferenceId st)"
    and "1 < length (elementStartPositions st)"
    and "distinct (map fst (elementStartPositions st))"
    and "distinct (map el_id (elements (project props)))"
    and "(i, startPos) \<in> set (elementStartPositions st)"
    and "j < length (elements (project props))" and "elements (project props) ! j = d"
    and "el_id d = i" and "is_Door (kind d)" and "\<not> isLocked d"
  defines "point \<equiv> screenToCanvas (canvasRef st) (viewTransform st) (clientX e) (clientY e)"
  defines "dx \<equiv> pt_x point - pt_x (dragStart st)"
    and "dy \<equiv> pt_y point - pt_y (dragStart st)"
  defines "moved \<equiv> canvasElements (fst (mouseMove newId e (app, st))) ! j"
  shows "moved = d\<lparr>el_x := sp_x startPos + dx, el_y := sp_y startPos + dy\<rparr> \<and>
         rotation moved = rotation d \<and> kind moved = kind d \<and>
         doorDragPose props st point dx dy d startPos
           = (sp_x startPos + dx, sp_y startPos + dy, rotation d)"
proof -
  have found: "findById (elements (project props)) i = Some d"
    using findById_distinct [OF assms(10,12)] assms(13,14) by simp
  have unique: "\<forall>sp'. (i, sp') \<in> set (elementStartPositions st) \<longrightarrow> sp' = startPos"
    using eq_key_imp_eq_value [OF assms(9)] assms(11) by blast
  have notLine: "\<not> is_Line (kind d)"
    using assms(15) by (cases "kind d") simp_all
  have many: "is_Door (kind d) \<and> Some i = dragReferenceId st \<longrightarrow>
              length (elementStartPositions st) \<noteq> 1"
    using assms(8) by simp
  have "moved = movedTo (pixelsPerCm (project props))
                  (sp_x startPos + dx) (sp_y startPos + dy) d"
    unfolding moved_def dx_def dy_def point_def
    by (rule drag_move_slot(3)
        [OF assms(1-7) assms(11) unique assms(12,13) found assms(16) notLine many])
  then have eq: "moved = d\<lparr>el_x := sp_x startPos + dx, el_y := sp_y startPos + dy\<rparr>"
    using assms(15) by (simp add: movedTo_Door)
  have "doorDragPose props st point dx dy d startPos
        = (sp_x startPos + dx, sp_y startPos + dy, rotation d)"
    using assms(8) by (simp add: doorDragPose_def Let_def)
  with eq show ?thesis by simp
qed

text \<open>
  A room with a rectangle, a wall from (0,200) to (300,200) and a door on the wall at
  (0,200), attached to it. The door and the rectangle are selected; the pointer goes down
  on the door's leaf at (40,200) and moves to (50,210).
\<close>

definition roomRect :: CanvasElement where
  "roomRect = shapeAt ''a'' 0 0 None (Rectangle 100 50 10 5)"

definition roomWall :: CanvasElement where
  "roomWall = shapeAt ''w'' 0 200 None (Line 300 200 30)"

definition roomDoor :: CanvasElement where
  "roomDoor = shapeAt ''d'' 0 200 None (Door 80 (Some ''w'') None None)"

definition doorDragState :: CanvasState where
  "doorDragState =
     idleCanvas\<lparr>isDragging := True, dragStart := \<lparr>pt_x = 40, pt_y = 200\<rparr>,
                 dragReferenceId := Some ''d'',
                 elementStartPositions :=
                   [(''d'', \<lparr>sp_x = 0, sp_y = 200, sp_endX = None, sp_endY = None\<rparr>),
                    (''a'', \<lparr>sp_x = 0, sp_y = 0, sp_endX = None, sp_endY = None\<rparr>)]\<rparr>"

lemma door_drag_started:
  "mouseDown newId (leftClick 40 200)
     (appWith [roomRect, roomWall, roomDoor] [''d'', ''a''], idleCanvas)
   = (appWith [roomRect, roomWall, roomDoor] [''d'', ''a''], doorDragState)"
  by (simp add: mouseDown_def runHandler_def propsOf_appWith handleMouseDown_def
      selectAt_def grabHandle_def findElementAt_def isMatch_def snapshotPositions_def
      startPositionOf_def findById_def isLocked_def rotationOr0_def leftClick_def
      idleCanvas_def unitView_def screenToCanvas_def shapeAt_def roomRect_def
      roomWall_def roomDoor_def doorDragState_def Let_def)

theorem C8_door_multi_drag_witness:
  "canvasElements
     (fst (mouseMove ''n2'' (leftClick 50 210)
             (mouseDown ''n1'' (leftClick 40 200)
                (appWith [roomRect, roomWall, roomDoor] [''d'', ''a''], idleCanvas)))) ! 2
   = shapeAt ''d'' 10 210 None (Door 80 (Some ''w'') None None)"
  unfolding door_drag_started
  using C8_door_multi_drag
    [where app = "appWith [roomRect, roomWall, roomDoor] [''d'', ''a'']"
       and st = doorDragState and i = "''d''" and j = 2 and d = roomDoor
       and startPos = "\<lparr>sp_x = 0, sp_y = 200, sp_endX = None, sp_endY = None\<rparr>"
       and e = "leftClick 50 210" and newId = "''n2''",
     OF propsOf_appWith]
  by (simp add: doorDragState_def idleCanvas_def unitView_def truthy_def roomRect_def
      roomWall_def roomDoor_def shapeAt_def isLocked_def leftClick_def screenToCanvas_def)

text \<open>
  The claim as stated fails for a locked Door in the selection. A locked door and two
  rectangles are selected; the pointer goes down on the second rectangle at (50,25) and
  moves to (60,35). The snapshot holds the two rectangles, which move by (10,10); the
  door stays at (0,200).
\<close>

theorem C8_locked_door_counterexample:
  "app_selectedElementIds
     (fst (mouseMove ''n2'' (leftClick 60 35)
             (mouseDown ''n1'' (leftClick 50 25)
                (appWith [shapeAt ''d'' 0 200 (Some True) (Door 80 None None None),
                          shapeAt ''b'' 200 0 None (Rectangle 100 50 10 5),
                          shapeAt ''a'' 0 0 None (Rectangle 100 50 10 5)]
                   [''a'', ''b'', ''d''], idleCanvas))))
   = [''a'', ''b'', ''d''] \<and>
   length (elementStartPositions
     (snd (mouseMove ''n2'' (leftClick 60 35)
             (mouseDown ''n1'' (leftClick 50 25)
                (appWith [shapeAt ''d'' 0 200 (Some True) (Door 80 None None None),
                          shapeAt ''b'' 200 0 None (Rectangle 100 50 10 5),
                          shapeAt ''a'' 0 0 None (Rectangle 100 50 10 5)]
                   [''a'', ''b'', ''d''], idleCanvas))))) = 2 \<and>
   canvasElements
     (fst (mouseMove ''n2'' (leftClick 60 35)
             (mouseDown ''n1'' (leftClick 50 25)
                (appWith [shapeAt ''d'' 0 200 (Some True) (Door 80 None None None),
                          shapeAt ''b'' 200 0 None (Rectangle 100 50 10 5),
                          shapeAt ''a'' 0 0 None (Rectangle 100 50 10 5)]
                   [''a'', ''b'', ''d''], idleCanvas))))
   = [shapeAt ''d'' 0 200 (Some True) (Door 80 None None None),
      shapeAt ''b'' 210 10 None (Rectangle 100 50 10 5),
      shapeAt ''a'' 10 10 None (Rectangle 100 50 10 5)]"
proof -
  let ?els = "[shapeAt ''d'' 0 200 (Some True) (Door 80 None None None),
               shapeAt ''b'' 200 0 None (Rectangle 100 50 10 5),
               shapeAt ''a'' 0 0 None (Rectangle 100 50 10 5)]"
  let ?st = "idleCanvas\<lparr>isDragging := True, dragStart := \<lparr>pt_x = 50, pt_y = 25\<rparr>,
               dragReferenceId := Some ''a'',
               elementStartPositions :=
                 [(''a'', \<lparr>sp_x = 0, sp_y = 0, sp_endX = None, sp_endY = None\<rparr>),
                  (''b'', \<lparr>sp_x = 200, sp_y = 0, sp_endX = None, sp_endY = None\<rparr>)]\<rparr>"
  have down: "mouseDown ''n1'' (leftClick 50 25) (appWith ?els [''a'', ''b'', ''d''], idleCanvas)
              = (appWith ?els [''a'', ''b'', ''d''], ?st)"
    by (simp add: mouseDown_def runHandler_def propsOf_appWith handleMouseDown_def
        selectAt_def grabHandle_def findElementAt_def isMatch_def snapshotPositions_def
        startPositionOf_def findById_def isLocked_def rotationOr0_def leftClick_def
        idleCanvas_def unitView_def screenToCanvas_def shapeAt_def Let_def)
  have move: "mouseMove ''n2'' (leftClick 60 35) (appWith ?els [''a'', ''b'', ''d''], ?st)
              = (appWith [shapeAt ''d'' 0 200 (Some True) (Door 80 None None None),
                          shapeAt ''b'' 210 10 None (Rectangle 100 50 10 5),
                          shapeAt ''a'' 10 10 None (Rectangle 100 50 10 5)]
                   [''a'', ''b'', ''d''], ?st)"
    apply (simp add: mouseMove_def runHandler_def propsOf_appWith handleMouseMove_def
        hoverPreview_def dragMove_def dragElement_def findById_def isLocked_def truthy_def
        leftClick_def idleCanvas_def unitView_def screenToCanvas_def shapeAt_def Let_def)
    apply (simp add: appWith_def updateElement_def noCurrentProject_def applyUpdates_def
        recomputeCm_def noUpdates_def spread_def)
    done
  show ?thesis
    unfolding down move
    by (simp add: canvasElements_def propsOf_appWith) (simp add: appWith_def)
qed

section \<open>Locked and unlocked elements under a drag gesture\<close>

lemma updateOne_frame:
  "el_id (updateOne ppc k u x) = el_id x"
  by (cases "kind x"; cases "kind (applyUpdates x u)";
      simp add: updateOne_def recomputeCm_def applyUpdates_def Let_def)

lemma updateAll_id: "el_id (updateAll ppc calls x) = el_id x"
  by (induction ppc calls x rule: updateAll.induct) (simp_all add: updateOne_frame)

lemma findById_map:
  assumes "\<And>x. el_id (f x) = el_id x"
  shows "findById (map f els) i = map_option f (findById els i)"
  unfolding findById_def using assms by (intro find_map_same) simp


text \<open>The calls of a pointer move: all are update calls, and their targets.\<close>

lemma rotateMove_result:
  assumes "rotateMove props st point = (st', calls)"
  shows "isRotating st' = isRotating st \<and> isScaling st' = isScaling st \<and>
         (\<forall>call \<in> set calls. \<exists>u. call = UpdateElement (hd (selectedElementIds props)) u True)"
  using assms by (auto simp add: rotateMove_def Let_def split: option.splits)

lemma scaleMove_result:
  assumes "scaleMove props st handle point = (st', calls)"
  shows "isRotating st' = isRotating st \<and> isScaling st' = isScaling st \<and>
         (\<forall>call \<in> set calls. \<exists>u. call = UpdateElement (hd (selectedElementIds props)) u True)"
  using assms
  by (auto simp add: scaleMove_def Let_def split: option.splits ElementKind.splits if_splits)

lemma dragElement_unlocked:
  assumes "UpdateElement k u b \<in> set (dragElement props st point dx dy entry)"
  shows "\<exists>x. findById (elements (project props)) k = Some x \<and> \<not> isLocked x"
proof -
  have k: "k = fst entry"
    using dragElement_calls [OF assms] by simp
  show ?thesis
  proof (cases "findById (elements (project props)) (fst entry)")
    case None
    then show ?thesis
      using assms by (simp add: dragElement_def Let_def)
  next
    case (Some y)
    then have "\<not> isLocked y"
      using assms by (cases "isLocked y") (simp_all add: dragElement_def Let_def)
    then show ?thesis
      using Some k by simp
  qed
qed

lemma hoverPreview_flags:
  "isRotating (hoverPreview props st point) = isRotating st"
  "isScaling (hoverPreview props st point) = isScaling st"
  by (simp_all add: hoverPreview_def Let_def)

lemma handleMouseMove_locked_safe:
  assumes "handleMouseMove newId props st e = (st', calls)"
    and "findById (elements (project props)) (el_id x) = Some x" and "isLocked x"
    and "(isRotating st \<or> isScaling st) \<and> length (selectedElementIds props) = 1 \<longrightarrow>
           hd (selectedElementIds props) \<noteq> el_id x"
  shows "\<forall>call \<in> set calls. isUpdateCall call"
    and "\<forall>k u b. UpdateElement k u b \<in> set calls \<longrightarrow> k \<noteq> el_id x"
    and "isRotating st' = isRotating st" and "isScaling st' = isScaling st"
proof -
  let ?point = "screenToCanvas (canvasRef st) (viewTransform st) (clientX e) (clientY e)"
  let ?st0 = "hoverPreview props st ?point"
  consider
      (pan) "isPanning st"
    | (rotate) "\<not> isPanning st" "isRotating st \<and> length (selectedElementIds props) = 1"
    | (scale) "\<not> isPanning st"
        "\<not> (isRotating st \<and> length (selectedElementIds props) = 1)"
        "isScaling st \<and> scaleHandle st \<noteq> None \<and> length (selectedElementIds props) = 1"
    | (drag) "\<not> isPanning st"
        "\<not> (isRotating st \<and> length (selectedElementIds props) = 1)"
        "\<not> (isScaling st \<and> scaleHandle st \<noteq> None \<and> length (selectedElementIds props) = 1)"
        "isDragging st \<and> length (selectedElementIds props) > 0 \<and> truthy (dragReferenceId st)"
    | (box) "\<not> isPanning st"
        "\<not> (isRotating st \<and> length (selectedElementIds props) = 1)"
        "\<not> (isScaling st \<and> scaleHandle st \<noteq> None \<and> length (selectedElementIds props) = 1)"
        "\<not> (isDragging st \<and> length (selectedElementIds props) > 0 \<and> truthy (dragReferenceId st))"
        "potentialSelection st \<or> isSelecting st"
    | (draw) "\<not> isPanning st"
        "\<not> (isRotating st \<and> length (selectedElementIds props) = 1)"
        "\<not> (isScaling st \<and> scaleHandle st \<noteq> None \<and> length (selectedElementIds props) = 1)"
        "\<not> (isDragging st \<and> length (selectedElementIds props) > 0 \<and> truthy (dragReferenceId st))"
        "\<not> (potentialSelection st \<or> isSelecting st)" "isDrawing st"
    | (idle) "\<not> isPanning st"
        "\<not> (isRotating st \<and> length (selectedElementIds props) = 1)"
        "\<not> (isScaling st \<and> scaleHandle st \<noteq> None \<and> length (selectedElementIds props) = 1)"
        "\<not> (isDragging st \<and> length (selectedElementIds props) > 0 \<and> truthy (dragReferenceId st))"
        "\<not> (potentialSelection st \<or> isSelecting st)" "\<not> isDrawing st"
    by blast
  then have all: "(\<forall>call \<in> set calls. isUpdateCall call) \<and>
      (\<forall>k u b. UpdateElement k u b \<in> set calls \<longrightarrow> k \<noteq> el_id x) \<and>
      isRotating st' = isRotating st \<and> isScaling st' = isScaling st"
  proof cases
    case pan
    have "handleMouseMove newId props st e = (panMove ?st0 e, [])"
      by (simp only: handleMouseMove_def Let_def if_P [OF pan])
    then have "st' = panMove ?st0 e" and "calls = []"
      using assms(1) by simp_all
    then show ?thesis
      by (simp add: panMove_def Let_def hoverPreview_flags)
  next
    case rotate
    have "handleMouseMove newId props st e = rotateMove props ?st0 ?point"
      by (simp only: handleMouseMove_def Let_def if_not_P [OF rotate(1)] if_P [OF rotate(2)])
    then have "rotateMove props ?st0 ?point = (st', calls)"
      using assms(1) by simp
    from rotateMove_result [OF this] show ?thesis
      using rotate assms(4) by (fastforce simp add: hoverPreview_flags)
  next
    case scale
    then obtain handle where handle: "scaleHandle st = Some handle"
      by auto
    have "handleMouseMove newId props st e
          = (case scaleHandle st of Some handle \<Rightarrow> scaleMove props ?st0 handle ?point
             | None \<Rightarrow> (?st0, []))"
      by (simp only: handleMouseMove_def Let_def if_not_P [OF scale(1)] if_not_P [OF scale(2)] if_P [OF scale(3)])
    then have "scaleMove props ?st0 handle ?point = (st', calls)"
      using assms(1) handle by simp
    from scaleMove_result [OF this] show ?thesis
      using scale assms(4) by (fastforce simp add: hoverPreview_flags)
  next
    case drag
    have "handleMouseMove newId props st e = (?st0, dragMove props ?st0 ?point)"
      by (simp only: handleMouseMove_def Let_def if_not_P [OF drag(1)] if_not_P [OF drag(2)] if_not_P [OF drag(3)] if_P [OF drag(4)])
    then have st': "st' = ?st0" and calls: "calls = dragMove props ?st0 ?point"
      using assms(1) by simp_all
    have "k \<noteq> el_id x" if call: "UpdateElement k u b \<in> set calls" for k u b
    proof
      assume "k = el_id x"
      have "UpdateElement k u b \<in> set (dragMove props ?st0 ?point)"
        using call calls by simp
      from dragMove_calls [OF this]
      obtain en where "UpdateElement k u b \<in> set (dragElement props ?st0 ?point
            (pt_x ?point - pt_x (dragStart ?st0)) (pt_y ?point - pt_y (dragStart ?st0)) en)"
        by blast
      then obtain y where "findById (elements (project props)) k = Some y" and "\<not> isLocked y"
        using dragElement_unlocked by blast
      then show False
        using \<open>k = el_id x\<close> assms(2,3) by simp
    qed
    then show ?thesis
      using st' calls dragMove_update_calls by (simp add: hoverPreview_flags)
  next
    case box
    have "handleMouseMove newId props st e = (boxMove ?st0 ?point, [])"
      by (simp only: handleMouseMove_def Let_def if_not_P [OF box(1)] if_not_P [OF box(2)] if_not_P [OF box(3)] if_not_P [OF box(4)] if_P [OF box(5)])
    then have "st' = boxMove ?st0 ?point" and "calls = []"
      using assms(1) by simp_all
    then show ?thesis
      by (simp add: boxMove_def Let_def hoverPreview_flags)
  next
    case draw
    have "handleMouseMove newId props st e = (drawMove newId props ?st0 ?point, [])"
      by (simp only: handleMouseMove_def Let_def if_not_P [OF draw(1)] if_not_P [OF draw(2)] if_not_P [OF draw(3)] if_not_P [OF draw(4)] if_not_P [OF draw(5)] if_P [OF draw(6)])
    then have "st' = drawMove newId props ?st0 ?point" and "calls = []"
      using assms(1) by simp_all
    then show ?thesis
      by (simp add: drawMove_def Let_def hoverPreview_flags split: Tool.splits)
  next
    case idle
    have "handleMouseMove newId props st e = (?st0, [])"
      by (simp only: handleMouseMove_def Let_def if_not_P [OF idle(1)] if_not_P [OF idle(2)] if_not_P [OF idle(3)] if_not_P [OF idle(4)] if_not_P [OF idle(5)] if_not_P [OF idle(6)])
    then have "st' = ?st0" and "calls = []"
      using assms(1) by simp_all
    then show ?thesis
      by (simp add: hoverPreview_flags)
  qed
  from all show "\<forall>call \<in> set calls. isUpdateCall call"
    and "\<forall>k u b. UpdateElement k u b \<in> set calls \<longrightarrow> k \<noteq> el_id x"
    and "isRotating st' = isRotating st" and "isScaling st' = isScaling st"
    by blast+
qed

text \<open>
  The invariant of a locked element \<open>x\<close> at position \<open>j\<close> of the element list: it is
  still there, it is the element its id finds, and no rotation or scaling of a single
  selection is under way on it.
\<close>

definition lockedFrame :: "nat \<Rightarrow> CanvasElement \<Rightarrow> AppState \<times> CanvasState \<Rightarrow> bool" where
  "lockedFrame j x w =
     (\<exists>props. propsOf (fst w) = Some props \<and>
        j < length (elements (project props)) \<and> elements (project props) ! j = x \<and>
        findById (elements (project props)) (el_id x) = Some x \<and>
        ((isRotating (snd w) \<or> isScaling (snd w)) \<and>
           length (selectedElementIds props) = 1 \<longrightarrow>
         hd (selectedElementIds props) \<noteq> el_id x))"

lemma mouseMove_lockedFrame:
  assumes "isLocked x" and "lockedFrame j x w"
  shows "lockedFrame j x (mouseMove newId e w)"
proof -
  obtain app st where w: "w = (app, st)"
    by (cases w)
  obtain props where props: "propsOf app = Some props"
    and j: "j < length (elements (project props))" "elements (project props) ! j = x"
    and found: "findById (elements (project props)) (el_id x) = Some x"
    and free: "(isRotating st \<or> isScaling st) \<and> length (selectedElementIds props) = 1 \<longrightarrow>
               hd (selectedElementIds props) \<noteq> el_id x"
    using assms(2) w by (auto simp add: lockedFrame_def)
  obtain st' calls where handler: "handleMouseMove newId props st e = (st', calls)"
    by (cases "handleMouseMove newId props st e")
  note safe = handleMouseMove_locked_safe [OF handler found assms(1) free]
  let ?f = "updateAll (pixelsPerCm (project props)) calls"
  have run: "mouseMove newId e w = (foldl (dispatch app) app calls, st')"
    unfolding mouseMove_def w
    by (rule runHandler_updates(1) [OF props _ safe(1)]) (rule handler)
  have after: "propsOf (fst (mouseMove newId e w))
      = Some (props\<lparr>project := (project props)\<lparr>elements := map ?f (elements (project props))\<rparr>\<rparr>)"
    unfolding mouseMove_def w
    by (rule runHandler_updates(2) [OF props _ safe(1)]) (rule handler)
  have same: "?f x = x"
    using safe(2) by (rule updateAll_other)
  have "findById (map ?f (elements (project props))) (el_id x) = Some x"
    using found same by (simp add: findById_map updateAll_id)
  then show ?thesis
    unfolding lockedFrame_def
    using after j same free run safe(3,4) by simp
qed
















text \<open>A sequence of pointer moves, each with what \<open>generateId()\<close> returns during it.\<close>

definition pointerMoves ::
    "(string \<times> MouseEvent) list \<Rightarrow> AppState \<times> CanvasState \<Rightarrow> AppState \<times> CanvasState" where
  "pointerMoves ms w = foldl (\<lambda>w' m. mouseMove (fst m) (snd m) w') w ms"

lemma pointerMoves_snoc:
  "pointerMoves (ms @ [m]) w = mouseMove (fst m) (snd m) (pointerMoves ms w)"
  by (simp add: pointerMoves_def)

lemma pointerMoves_lockedFrame:
  assumes "isLocked x" and "lockedFrame j x w"
  shows "lockedFrame j x (pointerMoves ms w)"
proof (induction ms rule: rev_induct)
  case Nil
  then show ?case using assms(2) by (simp add: pointerMoves_def)
next
  case (snoc m ms)
  then show ?case
    by (simp only: pointerMoves_snoc mouseMove_lockedFrame [OF assms(1)])
qed

text \<open>
  In particular a locked element, a Door of the selection among them, is where it was
  after any number of pointer moves.
\<close>

lemma locked_element_not_moved:
  assumes "isLocked x" and "lockedFrame j x w"
  shows "canvasElements (fst (pointerMoves ms w)) ! j = x"
  using pointerMoves_lockedFrame [OF assms, of ms]
  by (auto simp add: lockedFrame_def canvasElements_def)








text \<open>
  Outside the amended claim: an unlocked rectangle that is not yet selected. The
  pointer-down selects it, but the snapshot is taken from the selection of the current
  render, which is empty, and the moves do not move it.
\<close>

lemma unselected_rectangle_not_dragged:
  "pointerMoves [(''n2'', leftClick 60 35)]
     (mouseDown ''n1'' (leftClick 50 25)
        (appWith [shapeAt ''a'' 0 0 None (Rectangle 100 50 10 5)] [], idleCanvas))
   = (appWith [shapeAt ''a'' 0 0 None (Rectangle 100 50 10 5)] [''a''],
      idleCanvas\<lparr>isDragging := True, dragStart := \<lparr>pt_x = 50, pt_y = 25\<rparr>,
                  dragReferenceId := Some ''a''\<rparr>)"
proof -
  let ?els = "[shapeAt ''a'' 0 0 None (Rectangle 100 50 10 5)]"
  let ?st = "idleCanvas\<lparr>isDragging := True, dragStart := \<lparr>pt_x = 50, pt_y = 25\<rparr>,
                         dragReferenceId := Some ''a''\<rparr>"
  have down: "mouseDown ''n1'' (leftClick 50 25) (appWith ?els [], idleCanvas)
              = (appWith ?els [''a''], ?st)"
    apply (simp add: mouseDown_def runHandler_def propsOf_appWith handleMouseDown_def
        selectAt_def grabHandle_def findElementAt_def isMatch_def snapshotPositions_def
        isLocked_def rotationOr0_def leftClick_def idleCanvas_def unitView_def
        screenToCanvas_def shapeAt_def Let_def)
    apply (simp add: appWith_def)
    done
  have move: "mouseMove ''n2'' (leftClick 60 35) (appWith ?els [''a''], ?st)
              = (appWith ?els [''a''], ?st)"
    by (simp add: mouseMove_def runHandler_def propsOf_appWith handleMouseMove_def
        hoverPreview_def dragMove_def truthy_def leftClick_def idleCanvas_def
        unitView_def screenToCanvas_def Let_def)
  show ?thesis
    unfolding pointerMoves_def using down move by simp
qed

end
